(* ===== verification/Prelude.thy ===== *)
theory Prelude
  imports Main "HOL-Library.Sublist"
begin

text \<open>
  The JavaScript values and builtins the three modules under \<open>src/\<close> rely on, in the
  form the component theories share: the dynamically typed value \<open>jsv\<close> an argument
  can be, the exceptions the code can raise (\<open>js_error\<close>, results are
  \<open>js_error + 'a\<close> with \<open>Inl\<close> the exception), truthiness (\<open>!x\<close>, \<open>a || b\<close>),
  string conversion (template literals, \<open>String(x)\<close>), the string methods
  \<open>trim\<close>, \<open>toLowerCase\<close>, \<open>startsWith\<close>, \<open>endsWith\<close>, \<open>includes\<close> (as
  \<^const>\<open>prefix\<close>, \<^const>\<open>suffix\<close> and \<^const>\<open>sublist\<close> of HOL-Library.Sublist),
  objects as association lists with JavaScript's property assignment and spread,
  property access with the keys every object inherits from \<open>Object.prototype\<close>,
  and \<open>JSON.stringify\<close>.
  Strings are sequences of UTF-16 code units; a \<^typ>\<open>char\<close> stands for a code unit
  below 256 (Latin-1), which covers every literal of the sources.
\<close>

named_theorems js_simps "evaluation rules of the JavaScript builtins on literals"

section \<open>Values and exceptions\<close>

datatype jsv =
    JUndef
  | JNull
  | JStr string
  | JNum int
  | JBool bool
  | JArr "jsv list"
  | JObj "(string \<times> jsv) list"
  | JFun string

datatype js_error =
    TypeError string
  | ReferenceError string
  | NetworkError string
  | SyntaxError string

type_synonym 'a js_result = "js_error + 'a"
type_synonym js_object = "(string \<times> jsv) list"

text \<open>The designated portal address and its host, the literals every module repeats.\<close>

abbreviation primary_portal :: string where
  "primary_portal \<equiv> ''https://internal.awsapps.com/start''"

abbreviation primary_host :: string where
  "primary_host \<equiv> ''internal.awsapps.com''"

section \<open>Truthiness and string conversion\<close>

fun js_truthy :: "jsv \<Rightarrow> bool" where
  "js_truthy JUndef = False"
| "js_truthy JNull = False"
| "js_truthy (JStr s) = (s \<noteq> [])"
| "js_truthy (JNum n) = (n \<noteq> 0)"
| "js_truthy (JBool b) = b"
| "js_truthy (JArr _) = True"
| "js_truthy (JObj _) = True"
| "js_truthy (JFun _) = True"

text \<open>\<open>a || b\<close>: the first operand when it is truthy, else the second.\<close>

definition js_or :: "jsv \<Rightarrow> jsv \<Rightarrow> jsv" where
  "js_or a b = (if js_truthy a then a else b)"

text \<open>A parameter with a default value (\<open>function f(x = d)\<close>) takes the default
  only when the argument is \<open>undefined\<close>.\<close>

definition js_default :: "jsv \<Rightarrow> jsv \<Rightarrow> jsv" where
  "js_default v d = (if v = JUndef then d else v)"

fun nat_dec :: "nat \<Rightarrow> string" where
  "nat_dec n = (if n < 10 then [char_of (48 + n)]
                else nat_dec (n div 10) @ [char_of (48 + n mod 10)])"

fun js_join :: "string \<Rightarrow> string list \<Rightarrow> string" where
  "js_join sep [] = []"
| "js_join sep [x] = x"
| "js_join sep (x # xs) = x @ sep @ js_join sep xs"

text \<open>\<open>String(v)\<close>, which a template literal \<open>`${v}`\<close> applies to each hole.\<close>

fun js_to_string :: "jsv \<Rightarrow> string" where
  "js_to_string JUndef = ''undefined''"
| "js_to_string JNull = ''null''"
| "js_to_string (JStr s) = s"
| "js_to_string (JNum n) =
     (if n < 0 then CHR ''-'' # nat_dec (nat (- n)) else nat_dec (nat n))"
| "js_to_string (JBool b) = (if b then ''true'' else ''false'')"
| "js_to_string (JArr xs) =
     js_join '','' (map (\<lambda>x. if x = JUndef \<or> x = JNull then [] else js_to_string x) xs)"
| "js_to_string (JObj _) = ''[object Object]''"
| "js_to_string (JFun f) = ''function '' @ f @ ''() { [native code] }''"

section \<open>String methods\<close>

text \<open>\<open>String.prototype.trim\<close> removes white space and line terminators at both ends:
  tab, line feed, vertical tab, form feed, carriage return, space and no-break space.\<close>

definition js_ws :: "char \<Rightarrow> bool" where
  "js_ws c \<longleftrightarrow> c \<in> set [CHR 0x09, CHR 0x0A, CHR 0x0B, CHR 0x0C, CHR 0x0D, CHR 0x20, CHR 0xA0]"

definition js_trim :: "string \<Rightarrow> string" where
  "js_trim s = rev (dropWhile js_ws (rev (dropWhile js_ws s)))"

text \<open>\<open>String.prototype.toLowerCase\<close> on Latin-1 code units: A--Z and the upper-case
  letters U+00C0--U+00DE except the multiplication sign U+00D7 move up by 32.\<close>

definition js_lower_char :: "char \<Rightarrow> char" where
  "js_lower_char c =
     (let n = of_char c :: nat in
      if (65 \<le> n \<and> n \<le> 90) \<or> (192 \<le> n \<and> n \<le> 222 \<and> n \<noteq> 215)
      then char_of (n + 32) else c)"

definition js_lower :: "string \<Rightarrow> string" where
  "js_lower s = map js_lower_char s"

section \<open>Objects\<close>

text \<open>The keys every plain object inherits from \<open>Object.prototype\<close>; reading one of
  them from an object that does not own it yields a function (for \<open>__proto__\<close>, the
  prototype object itself).\<close>

definition object_proto_keys :: "string list" where
  "object_proto_keys =
     [''constructor'', ''hasOwnProperty'', ''isPrototypeOf'', ''propertyIsEnumerable'',
      ''toLocaleString'', ''toString'', ''valueOf'', ''__defineGetter__'',
      ''__defineSetter__'', ''__lookupGetter__'', ''__lookupSetter__'', ''__proto__'']"

definition proto_value :: "string \<Rightarrow> jsv" where
  "proto_value k = (if k = ''__proto__'' then JObj [] else JFun k)"

text \<open>\<open>o[k]\<close> on a plain object: its own property, else the inherited one, else
  \<open>undefined\<close>.\<close>

definition obj_lookup :: "js_object \<Rightarrow> string \<Rightarrow> jsv" where
  "obj_lookup kvs k =
     (case map_of kvs k of
        Some v \<Rightarrow> v
      | None \<Rightarrow> if k \<in> set object_proto_keys then proto_value k else JUndef)"

text \<open>\<open>v.k\<close> for any value: reading a property of \<open>undefined\<close> or \<open>null\<close> throws a
  \<open>TypeError\<close>; other primitives have no own property of the names the sources read.\<close>

fun js_get :: "jsv \<Rightarrow> string \<Rightarrow> jsv js_result" where
  "js_get JUndef k = Inl (TypeError (''Cannot read properties of undefined (reading '' @ k @ '')''))"
| "js_get JNull k = Inl (TypeError (''Cannot read properties of null (reading '' @ k @ '')''))"
| "js_get (JObj kvs) k = Inr (obj_lookup kvs k)"
| "js_get v k = Inr JUndef"

text \<open>\<open>o[k] = v\<close>: an existing key keeps its place and gets the new value, a new key
  goes to the end (insertion order).\<close>

fun js_set :: "js_object \<Rightarrow> string \<Rightarrow> jsv \<Rightarrow> js_object" where
  "js_set [] k v = [(k, v)]"
| "js_set ((k', v') # kvs) k v =
     (if k' = k then (k, v) # kvs else (k', v') # js_set kvs k v)"

text \<open>The own enumerable properties \<open>{...v}\<close> copies: an object's entries, the
  characters of a string and the elements of an array under their indices, nothing
  for the other values.\<close>

fun js_spread :: "jsv \<Rightarrow> js_object" where
  "js_spread (JObj kvs) = kvs"
| "js_spread (JStr s) = map (\<lambda>(i, c). (nat_dec i, JStr [c])) (enumerate 0 s)"
| "js_spread (JArr xs) = map (\<lambda>(i, x). (nat_dec i, x)) (enumerate 0 xs)"
| "js_spread _ = []"

text \<open>\<open>{...a, ...b}\<close>: the properties of \<open>b\<close> assigned, in order, onto a copy of \<open>a\<close>.\<close>

definition js_merge :: "js_object \<Rightarrow> js_object \<Rightarrow> js_object" where
  "js_merge a b = fold (\<lambda>(k, v) acc. js_set acc k v) b a"

text \<open>\<open>typeof v === 'string'\<close> for every value of an object.\<close>

definition js_string_valued :: "js_object \<Rightarrow> bool" where
  "js_string_valued kvs = list_all (\<lambda>(_, v). case v of JStr _ \<Rightarrow> True | _ \<Rightarrow> False) kvs"

section \<open>\<open>JSON.stringify\<close>\<close>

text \<open>\<open>JSON.stringify(v)\<close>: \<^const>\<open>None\<close> where it returns \<open>undefined\<close>
  (for \<open>undefined\<close> and functions); inside arrays those become \<open>null\<close>, inside
  objects their keys are left out. Strings are quoted with the escapes of the standard.\<close>

definition json_escape_char :: "char \<Rightarrow> string" where
  "json_escape_char c =
     (if c = CHR ''\"'' then [CHR 0x5C, CHR ''\"'']
      else if c = CHR 0x5C then [CHR 0x5C, CHR 0x5C]
      else if c = CHR 0x0A then [CHR 0x5C, CHR ''n'']
      else if c = CHR 0x0D then [CHR 0x5C, CHR ''r'']
      else if c = CHR 0x09 then [CHR 0x5C, CHR ''t'']
      else if c = CHR 0x08 then [CHR 0x5C, CHR ''b'']
      else if c = CHR 0x0C then [CHR 0x5C, CHR ''f'']
      else if of_char c < (32::nat)
      then [CHR 0x5C, CHR ''u'', CHR ''0'', CHR ''0'',
            ''0123456789abcdef'' ! (of_char c div 16), ''0123456789abcdef'' ! (of_char c mod 16)]
      else [c])"

definition json_quote :: "string \<Rightarrow> string" where
  "json_quote s = CHR ''\"'' # concat (map json_escape_char s) @ [CHR ''\"'']"

fun js_stringify :: "jsv \<Rightarrow> string option" where
  "js_stringify JUndef = None"
| "js_stringify (JFun _) = None"
| "js_stringify JNull = Some ''null''"
| "js_stringify (JBool b) = Some (if b then ''true'' else ''false'')"
| "js_stringify (JNum n) = Some (js_to_string (JNum n))"
| "js_stringify (JStr s) = Some (json_quote s)"
| "js_stringify (JArr xs) =
     Some (''['' @ js_join '','' (map (\<lambda>x. case js_stringify x of None \<Rightarrow> ''null'' | Some s \<Rightarrow> s) xs) @ '']'')"
| "js_stringify (JObj kvs) =
     Some (''{'' @ js_join '','' (concat (map (\<lambda>(k, v). case js_stringify v of None \<Rightarrow> []
                                           | Some s \<Rightarrow> [json_quote k @ '':'' @ s]) kvs)) @ ''}'')"

section \<open>Shared lemmas\<close>

subsection \<open>Evaluation on literals\<close>

text \<open>What \<open>simp\<close> needs to evaluate the builtins on string literals: characters
  computed by \<^const>\<open>char_of\<close>, and \<^const>\<open>suffix\<close> and \<^const>\<open>sublist\<close> reduced
  to \<^const>\<open>prefix\<close>.\<close>

lemmas js_eval [js_simps] = char_of_def bit_simps sublist_Cons_right suffix_to_prefix
  js_lower_def js_lower_char_def js_trim_def js_ws_def js_or_def js_default_def

subsection \<open>Truthiness\<close>

lemma js_truthy_JStr_iff [simp]: "js_truthy (JStr s) \<longleftrightarrow> s \<noteq> []"
  by simp

lemma js_default_JUndef [simp]: "js_default JUndef d = d"
  and js_default_other [simp]: "v \<noteq> JUndef \<Longrightarrow> js_default v d = v"
  by (simp_all add: js_default_def)

subsection \<open>\<open>trim\<close>\<close>

lemma dropWhile_hd_not:
  "dropWhile P xs \<noteq> [] \<Longrightarrow> \<not> P (hd (dropWhile P xs))"
  by (induction xs) auto

lemma dropWhile_last:
  "dropWhile P xs \<noteq> [] \<Longrightarrow> last (dropWhile P xs) = last xs"
  by (induction xs) auto

lemma dropWhile_id_hd:
  "xs = [] \<or> \<not> P (hd xs) \<Longrightarrow> dropWhile P xs = xs"
  by (cases xs) auto

lemma takeWhile_all_stop:
  "\<forall>c \<in> set xs. P c \<Longrightarrow> ys = [] \<or> \<not> P (hd ys) \<Longrightarrow> takeWhile P (xs @ ys) = xs"
proof (induction xs)
  case Nil
  then show ?case by (cases ys) auto
qed auto

lemma dropWhile_all_stop:
  "\<forall>c \<in> set xs. P c \<Longrightarrow> ys = [] \<or> \<not> P (hd ys) \<Longrightarrow> dropWhile P (xs @ ys) = ys"
proof (induction xs)
  case Nil
  then show ?case by (cases ys) auto
qed auto



text \<open>A trimmed string is empty or begins and ends with a non-space.\<close>

lemma js_trim_ends:
  assumes "js_trim s \<noteq> []"
  shows "\<not> js_ws (hd (js_trim s)) \<and> \<not> js_ws (last (js_trim s))"
proof -
  define d where "d = dropWhile js_ws s"
  have t: "js_trim s = rev (dropWhile js_ws (rev d))"
    by (simp add: js_trim_def d_def)
  with assms have ne: "dropWhile js_ws (rev d) \<noteq> []" by simp
  then have "d \<noteq> []" by auto
  then have "\<not> js_ws (hd d)"
    unfolding d_def by (rule dropWhile_hd_not)
  moreover have "hd (js_trim s) = hd d"
    using ne by (simp add: t hd_rev dropWhile_last last_rev)
  moreover have "last (js_trim s) = hd (dropWhile js_ws (rev d))"
    using ne by (simp add: t last_rev)
  moreover have "\<not> js_ws (hd (dropWhile js_ws (rev d)))"
    using ne by (rule dropWhile_hd_not)
  ultimately show ?thesis by simp
qed

text \<open>A string that is empty or begins and ends with a non-space is its own trim.\<close>

lemma js_trim_id:
  assumes "s = [] \<or> (\<not> js_ws (hd s) \<and> \<not> js_ws (last s))"
  shows "js_trim s = s"
proof -
  have "dropWhile js_ws s = s"
    using assms by (intro dropWhile_id_hd) auto
  moreover have "dropWhile js_ws (rev s) = rev s"
    using assms by (intro dropWhile_id_hd) (auto simp: hd_rev)
  ultimately show ?thesis by (simp add: js_trim_def)
qed

lemma js_trim_idem [simp]: "js_trim (js_trim s) = js_trim s"
  using js_trim_ends [of s] by (intro js_trim_id) auto

subsection \<open>\<open>toLowerCase\<close> and the inherited keys\<close>

lemma of_char_bound: "(of_char c :: nat) < 256"
  by (metis of_char_mod_256 mod_less_divisor zero_less_numeral)

lemma js_lower_char_not_upper:
  "\<not> (65 \<le> (of_char (js_lower_char c) :: nat) \<and> (of_char (js_lower_char c) :: nat) \<le> 90)"
proof (cases "(65 \<le> (of_char c :: nat) \<and> (of_char c :: nat) \<le> 90) \<or>
              (192 \<le> (of_char c :: nat) \<and> (of_char c :: nat) \<le> 222 \<and> (of_char c :: nat) \<noteq> 215)")
  case True
  then have "(of_char (js_lower_char c) :: nat) = of_char c + 32"
    using of_char_bound [of c] by (auto simp: js_lower_char_def Let_def)
  with True show ?thesis by auto
next
  case False
  then show ?thesis by (simp add: js_lower_char_def Let_def)
qed

lemma js_lower_char_idem [simp]: "js_lower_char (js_lower_char c) = js_lower_char c"
proof (cases "(65 \<le> (of_char c :: nat) \<and> (of_char c :: nat) \<le> 90) \<or>
              (192 \<le> (of_char c :: nat) \<and> (of_char c :: nat) \<le> 222 \<and> (of_char c :: nat) \<noteq> 215)")
  case True
  then have "(of_char (js_lower_char c) :: nat) = of_char c + 32"
    using of_char_bound [of c] by (auto simp: js_lower_char_def Let_def)
  with True show ?thesis
    by (auto simp: js_lower_char_def [of "js_lower_char c"] Let_def)
next
  case False
  then have "js_lower_char c = c"
    by (auto simp: js_lower_char_def Let_def)
  then show ?thesis by simp
qed

lemma js_lower_idem [simp]: "js_lower (js_lower t) = js_lower t"
  by (simp add: js_lower_def comp_def)


lemma js_lower_no_upper:
  "c \<in> set (js_lower t) \<Longrightarrow> \<not> (65 \<le> (of_char c :: nat) \<and> (of_char c :: nat) \<le> 90)"
  using js_lower_char_not_upper by (auto simp: js_lower_def)

lemma upper_chars_OPILSG: "c \<in> set ''OPILSG'' \<Longrightarrow> 65 \<le> (of_char c :: nat) \<and> (of_char c :: nat) \<le> 90"
  by auto

lemma proto_keys_upper:
  "k \<in> set object_proto_keys \<Longrightarrow> k \<notin> {''constructor'', ''__proto__''} \<Longrightarrow> \<exists>c \<in> set ''OPILSG''. c \<in> set k"
  unfolding object_proto_keys_def list.set by (elim insertE emptyE) simp_all

text \<open>The keys of \<open>Object.prototype\<close> a lower-cased string can be are
  \<open>constructor\<close> and \<open>__proto__\<close>: each other one has an upper-case letter.\<close>

lemma proto_keys_lower:
  "js_lower t \<in> set object_proto_keys \<longleftrightarrow> js_lower t \<in> {''constructor'', ''__proto__''}"
proof
  assume m: "js_lower t \<in> set object_proto_keys"
  show "js_lower t \<in> {''constructor'', ''__proto__''}"
  proof (rule ccontr)
    assume "js_lower t \<notin> {''constructor'', ''__proto__''}"
    with m obtain c where "c \<in> set ''OPILSG''" and "c \<in> set (js_lower t)"
      using proto_keys_upper by blast
    then show False
      using upper_chars_OPILSG js_lower_no_upper by blast
  qed
next
  assume "js_lower t \<in> {''constructor'', ''__proto__''}"
  then show "js_lower t \<in> set object_proto_keys"
    by (auto simp: object_proto_keys_def)
qed

subsection \<open>Objects\<close>

lemma map_of_js_set [simp]: "map_of (js_set kvs k v) = (map_of kvs)(k \<mapsto> v)"
  by (induction kvs) (auto simp: fun_eq_iff)

lemma keys_js_set [simp]: "fst ` set (js_set kvs k v) = insert k (fst ` set kvs)"
proof (induction kvs)
  case (Cons p kvs)
  then show ?case by (cases p) auto
qed simp

lemma distinct_js_set [intro]:
  "distinct (map fst kvs) \<Longrightarrow> distinct (map fst (js_set kvs k v))"
proof (induction kvs)
  case (Cons p kvs)
  then show ?case
    by (cases p) (auto simp: image_iff)
qed simp

text \<open>A property of \<open>{...a, ...b}\<close> is the last one \<open>b\<close> gives for the key, else
  the one of \<open>a\<close>.\<close>

lemma map_of_js_merge:
  "map_of (js_merge a b) k = (case map_of (rev b) k of Some v \<Rightarrow> Some v | None \<Rightarrow> map_of a k)"
  unfolding js_merge_def
  by (induction b arbitrary: a) (auto simp: map_of_append split: option.splits)

lemma distinct_js_merge:
  "distinct (map fst a) \<Longrightarrow> distinct (map fst (js_merge a b))"
  unfolding js_merge_def
  by (induction b arbitrary: a) auto

lemma js_merge_Nil [simp]: "js_merge a [] = a"
  by (simp add: js_merge_def)

subsection \<open>Lists of entries with distinct keys\<close>

lemma distinct_concat_map_disjoint:
  "distinct (concat (map f xs)) \<Longrightarrow> x \<in> set xs \<Longrightarrow> y \<in> set xs \<Longrightarrow> x \<noteq> y \<Longrightarrow>
   set (f x) \<inter> set (f y) = {}"
  by (induction xs) auto

lemma distinct_concat_map_member:
  "distinct (concat (map f xs)) \<Longrightarrow> x \<in> set xs \<Longrightarrow> distinct (f x)"
  by (induction xs) auto

lemma distinct_concat_map_sub:
  assumes "distinct (concat (map f xs))"
  shows "distinct ys \<Longrightarrow> set ys \<subseteq> set xs \<Longrightarrow> distinct (concat (map f ys))"
proof (induction ys)
  case (Cons y ys)
  then show ?case
    using distinct_concat_map_disjoint [OF assms] distinct_concat_map_member [OF assms]
    by fastforce
qed simp

lemma map_of_concat_set:
  assumes "distinct (concat (map (\<lambda>x. map fst (f x)) xs))" "distinct ys" "distinct zs"
    "set ys \<subseteq> set xs" "set zs = set ys"
  shows "map_of (concat (map f zs)) = map_of (concat (map f ys))"
proof -
  have "distinct (map fst (concat (map f ys)))" "distinct (map fst (concat (map f zs)))"
    using distinct_concat_map_sub [OF assms(1)] assms(2-5) by (simp_all add: map_concat comp_def)
  then show ?thesis
    using assms(5) by (simp add: map_of_inject_set)
qed

lemma map_of_rev_distinct:
  "distinct (map fst xs) \<Longrightarrow> map_of (rev xs) = map_of xs"
  by (simp add: map_of_inject_set rev_map [symmetric])

lemma map_of_js_merge_distinct:
  "distinct (map fst b) \<Longrightarrow> map_of (js_merge a b) = map_of a ++ map_of b"
  by (rule ext) (simp add: map_of_js_merge map_of_rev_distinct map_add_def split: option.split)

lemma js_merge_append: "js_merge a (b @ c) = js_merge (js_merge a b) c"
  by (simp add: js_merge_def)

lemma obj_lookup_js_set_same [simp]: "obj_lookup (js_set kvs k v) k = v"
  by (simp add: obj_lookup_def)

subsection \<open>Values of merged objects\<close>

lemma js_set_values: "(k', v') \<in> set (js_set kvs k v) \<Longrightarrow> (k', v') \<in> set kvs \<or> (k', v') = (k, v)"
  by (induction kvs) (auto split: if_splits)

lemma js_merge_values: "(k', v') \<in> set (js_merge a b) \<Longrightarrow> (k', v') \<in> set a \<or> (k', v') \<in> set b"
  unfolding js_merge_def
proof (induction b arbitrary: a)
  case (Cons kv b)
  then show ?case
    by (cases kv) (fastforce dest: js_set_values)
qed simp

lemma js_string_valued_merge:
  "js_string_valued a \<Longrightarrow> js_string_valued b \<Longrightarrow> js_string_valued (js_merge a b)"
  unfolding js_string_valued_def list_all_iff by (blast dest: js_merge_values)

lemma js_merge_keeps:
  assumes "distinct (map fst b)" and "(k, v) \<in> set b"
  shows "(k, v) \<in> set (js_merge a b)"
proof -
  have "map_of b k = Some v"
    using assms by simp
  then have "map_of (js_merge a b) k = Some v"
    using map_of_js_merge_distinct [OF assms(1)] by simp
  then show ?thesis
    by (rule map_of_SomeD)
qed

lemma js_string_valued_merge_right:
  assumes "distinct (map fst b)" and "js_string_valued (js_merge a b)"
  shows "js_string_valued b"
  using assms(2) js_merge_keeps [OF assms(1)]
  unfolding js_string_valued_def list_all_iff by blast

end
