(* ===== verification/Url.thy ===== *)
theory Url
  imports Prelude
begin

text \<open>
  The platform's \<open>URL\<close> constructor, which \<open>isValidAWSPortalURL\<close> and
  \<open>getAWSPortalDomain\<close> (\<open>src/aws-utilities.js\<close>) call through \<open>new URL(url)\<close>
  and read \<open>hostname\<close> from. It is not code of the repository: it is modelled after the
  WHATWG URL standard's basic parser, with no base URL, reduced to what decides
  \<open>hostname\<close> and whether the constructor throws:
  \<^item> leading and trailing C0 controls and spaces are stripped, tabs and newlines removed;
  \<^item> a scheme (an ASCII letter, then letters, digits, \<open>+\<close>, \<open>-\<close>, \<open>.\<close>, then \<open>:\<close>)
    is required, since there is no base: without it the constructor throws;
  \<^item> for the special schemes (\<open>http\<close>, \<open>https\<close>, \<open>ws\<close>, \<open>wss\<close>, \<open>ftp\<close>,
    \<open>file\<close>) any run of slashes and backslashes follows, the authority runs to the
    first \<open>/\<close>, \<open>\\\<close>, \<open>?\<close> or \<open>#\<close>, credentials end at its last \<open>@\<close>, a port
    follows the first \<open>:\<close> and must be digits, the host must be non-empty (but for
    \<open>file\<close>) and free of forbidden domain code points, and is lower-cased;
  \<^item> for other schemes a host exists only after \<open>//\<close>, is kept as written (an opaque
    host) and must be free of forbidden host code points.
  Not modelled: percent-decoding and IDNA processing of hosts (a host with \<open>%\<close> is
  rejected here; a non-ASCII host is kept, not converted to punycode), IPv4 and IPv6
  host parsing, the port range check, and the parse of path, query and fragment,
  which are kept as one string \<open>rest\<close>.
\<close>

record url =
  protocol :: string
  hostname :: string
  port :: string
  rest :: string

definition url_special_schemes :: "string list" where
  "url_special_schemes = [''ftp'', ''file'', ''http'', ''https'', ''ws'', ''wss'']"

definition c0_or_space :: "char \<Rightarrow> bool" where
  "c0_or_space c \<longleftrightarrow> of_char c \<le> (32::nat)"

definition tab_or_newline :: "char \<Rightarrow> bool" where
  "tab_or_newline c \<longleftrightarrow> c \<in> set [CHR 0x09, CHR 0x0A, CHR 0x0D]"

definition url_strip :: "string \<Rightarrow> string" where
  "url_strip s =
     filter (\<lambda>c. \<not> tab_or_newline c) (rev (dropWhile c0_or_space (rev (dropWhile c0_or_space s))))"

definition ascii_alpha :: "char \<Rightarrow> bool" where
  "ascii_alpha c \<longleftrightarrow> (let n = of_char c :: nat in (65 \<le> n \<and> n \<le> 90) \<or> (97 \<le> n \<and> n \<le> 122))"

definition ascii_digit :: "char \<Rightarrow> bool" where
  "ascii_digit c \<longleftrightarrow> (let n = of_char c :: nat in 48 \<le> n \<and> n \<le> 57)"

definition scheme_char :: "char \<Rightarrow> bool" where
  "scheme_char c \<longleftrightarrow> ascii_alpha c \<or> ascii_digit c \<or> c \<in> set ''+-.''"

text \<open>The scheme, lower-cased, and what follows its colon.\<close>

definition split_scheme :: "string \<Rightarrow> (string \<times> string) option" where
  "split_scheme s =
     (case s of
        [] \<Rightarrow> None
      | c # _ \<Rightarrow>
          if \<not> ascii_alpha c then None
          else (case dropWhile scheme_char s of
                  CHR '':'' # r \<Rightarrow> Some (js_lower (takeWhile scheme_char s), r)
                | _ \<Rightarrow> None))"

definition forbidden_host :: "char \<Rightarrow> bool" where
  "forbidden_host c \<longleftrightarrow>
     c \<in> set [CHR 0x00, CHR 0x09, CHR 0x0A, CHR 0x0D, CHR 0x20] \<or> c \<in> set ''#/:<>?@[]^|'' \<or> c = CHR 0x5C"

definition forbidden_domain :: "char \<Rightarrow> bool" where
  "forbidden_domain c \<longleftrightarrow>
     forbidden_host c \<or> of_char c < (32::nat) \<or> c = CHR ''%'' \<or> of_char c = (127::nat)"

definition url_lower :: "string \<Rightarrow> string" where
  "url_lower s = map (\<lambda>c. if of_char c < (128::nat) then js_lower_char c else c) s"

text \<open>The credentials end at the last \<open>@\<close>; host and port follow.\<close>

definition after_credentials :: "string \<Rightarrow> string" where
  "after_credentials a =
     (if CHR ''@'' \<in> set a then rev (takeWhile (\<lambda>c. c \<noteq> CHR ''@'') (rev a)) else a)"

definition host_of :: "string \<Rightarrow> string" where
  "host_of hp = takeWhile (\<lambda>c. c \<noteq> CHR '':'') hp"

definition port_of :: "string \<Rightarrow> string" where
  "port_of hp = drop 1 (dropWhile (\<lambda>c. c \<noteq> CHR '':'') hp)"

definition special_end :: "char \<Rightarrow> bool" where
  "special_end c \<longleftrightarrow> c \<in> set ''/?#'' \<or> c = CHR 0x5C"

definition parse_special :: "string \<Rightarrow> string \<Rightarrow> url option" where
  "parse_special sch r =
     (let r1 = dropWhile (\<lambda>c. c = CHR ''/'' \<or> c = CHR 0x5C) r;
          auth = takeWhile (\<lambda>c. \<not> special_end c) r1;
          hp = after_credentials auth;
          h = host_of hp;
          p = port_of hp
      in if (h = [] \<and> sch \<noteq> ''file'') \<or> (\<exists>c \<in> set h. forbidden_domain c)
            \<or> \<not> (\<forall>c \<in> set p. ascii_digit c)
         then None
         else Some \<lparr>protocol = sch, hostname = url_lower h, port = p,
                    rest = dropWhile (\<lambda>c. \<not> special_end c) r1\<rparr>)"

definition parse_opaque :: "string \<Rightarrow> string \<Rightarrow> url option" where
  "parse_opaque sch r =
     (if take 2 r = ''//'' then
        (let r1 = drop 2 r;
             auth = takeWhile (\<lambda>c. c \<notin> set ''/?#'') r1;
             hp = after_credentials auth;
             h = host_of hp;
             p = port_of hp
         in if (\<exists>c \<in> set h. forbidden_host c) \<or> \<not> (\<forall>c \<in> set p. ascii_digit c)
            then None
            else Some \<lparr>protocol = sch, hostname = h, port = p,
                       rest = dropWhile (\<lambda>c. c \<notin> set ''/?#'') r1\<rparr>)
      else Some \<lparr>protocol = sch, hostname = [], port = [], rest = r\<rparr>)"

definition url_parse :: "string \<Rightarrow> url option" where
  "url_parse s =
     (case split_scheme (url_strip s) of
        None \<Rightarrow> None
      | Some (sch, r) \<Rightarrow>
          if sch \<in> set url_special_schemes then parse_special sch r else parse_opaque sch r)"

text \<open>\<open>new URL(v)\<close>: the argument is converted to a string first; a string the parser
  rejects makes the constructor throw a \<open>TypeError\<close>.\<close>

definition new_URL :: "jsv \<Rightarrow> url js_result" where
  "new_URL v =
     (case url_parse (js_to_string v) of
        None \<Rightarrow> Inl (TypeError (''Invalid URL: '' @ js_to_string v))
      | Some u \<Rightarrow> Inr u)"

section \<open>Parsing an address with a plain host\<close>

lemma forbidden_domain_c0:
  assumes "c0_or_space c"
  shows "forbidden_domain c"
proof (cases "of_char c = (32::nat)")
  case True
  then have "c = char_of (32::nat)" by (metis char_of_char)
  then have "c = CHR 0x20" by (simp add: js_simps)
  then show ?thesis by (simp add: forbidden_domain_def forbidden_host_def)
next
  case False
  with assms show ?thesis by (simp add: c0_or_space_def forbidden_domain_def)
qed

lemma url_strip_id:
  assumes "\<forall>c \<in> set s. \<not> c0_or_space c"
  shows "url_strip s = s"
proof -
  have "dropWhile c0_or_space s = s"
    using assms by (intro dropWhile_id_hd) auto
  moreover have "dropWhile c0_or_space (rev s) = rev s"
    using assms by (intro dropWhile_id_hd) (auto simp: hd_rev)
  moreover have "\<forall>c \<in> set s. \<not> tab_or_newline c"
    using assms by (auto simp: c0_or_space_def tab_or_newline_def)
  ultimately show ?thesis by (simp add: url_strip_def)
qed

lemma forbidden_domain_special_end: "special_end c \<Longrightarrow> forbidden_domain c"
  by (auto simp: special_end_def forbidden_domain_def forbidden_host_def)

lemma forbidden_domain_at: "forbidden_domain (CHR ''@'')"
  and forbidden_domain_colon: "forbidden_domain (CHR '':'')"
  by (simp_all add: forbidden_domain_def forbidden_host_def)

lemma plain_host_parts:
  assumes h: "\<forall>c \<in> set h. \<not> forbidden_domain c"
  shows "after_credentials h = h" and "host_of h = h" and "port_of h = []"
proof -
  have at: "CHR ''@'' \<notin> set h" and col: "\<forall>c \<in> set h. c \<noteq> CHR '':''"
    using h forbidden_domain_at forbidden_domain_colon by blast+
  from at show "after_credentials h = h"
    by (simp add: after_credentials_def)
  from col show "host_of h = h"
    by (simp add: host_of_def)
  from col have "dropWhile (\<lambda>c. c \<noteq> CHR '':'') h = []"
    by (simp add: dropWhile_eq_Nil_conv)
  then show "port_of h = []"
    by (simp only: port_of_def) simp
qed
text \<open>A host of no forbidden domain code point, followed by nothing or by a path, is
  parsed back as that host, lower-cased, with no port.\<close>

lemma parse_special_plain:
  assumes h: "h \<noteq> []" "\<forall>c \<in> set h. \<not> forbidden_domain c"
    and p: "p = [] \<or> hd p = CHR ''/''"
  shows "parse_special sch (''//'' @ h @ p) =
           Some \<lparr>protocol = sch, hostname = url_lower h, port = [], rest = p\<rparr>"
proof -
  have "special_end (hd h)"  if "hd h = CHR ''/'' \<or> hd h = CHR 0x5C"
    using that by (auto simp: special_end_def)
  moreover have "\<not> forbidden_domain (hd h)"
    using h by simp
  ultimately have "hd h \<noteq> CHR ''/'' \<and> hd h \<noteq> CHR 0x5C"
    using forbidden_domain_special_end by blast
  then have r1: "dropWhile (\<lambda>c. c = CHR ''/'' \<or> c = CHR 0x5C) (h @ p) = h @ p"
    using h(1) by (cases h) auto
  have hs: "\<forall>c \<in> set h. \<not> special_end c"
    using h(2) forbidden_domain_special_end by blast
  have ps: "p = [] \<or> \<not> \<not> special_end (hd p)"
    using p by (auto simp: special_end_def)
  have tw: "takeWhile (\<lambda>c. \<not> special_end c) (h @ p) = h"
    using hs ps by (rule takeWhile_all_stop)
  have dw: "dropWhile (\<lambda>c. \<not> special_end c) (h @ p) = p"
    using hs ps by (rule dropWhile_all_stop)
  show ?thesis
    using h by (simp add: parse_special_def Let_def r1 tw dw plain_host_parts)
qed

lemma url_parse_https_plain:
  assumes h: "h \<noteq> []" "\<forall>c \<in> set h. \<not> forbidden_domain c"
    and p: "p = [] \<or> hd p = CHR ''/''" "\<forall>c \<in> set p. \<not> c0_or_space c"
  shows "url_parse (''https://'' @ h @ p) =
           Some \<lparr>protocol = ''https'', hostname = url_lower h, port = [], rest = p\<rparr>"
proof -
  have "\<forall>c \<in> set h. \<not> c0_or_space c"
    using h(2) forbidden_domain_c0 by blast
  with p(2) have "\<forall>c \<in> set (''https://'' @ h @ p). \<not> c0_or_space c"
    by (auto simp: c0_or_space_def)
  then have strip: "url_strip (''https://'' @ h @ p) = ''https://'' @ h @ p"
    by (rule url_strip_id)
  have sch: "split_scheme (''https://'' @ h @ p) = Some (''https'', ''//'' @ h @ p)"
    by (simp add: split_scheme_def scheme_char_def ascii_alpha_def ascii_digit_def js_lower_def
                  js_lower_char_def)
  show ?thesis
    using parse_special_plain [OF h p(1)]
    by (simp only: url_parse_def strip sch) (simp add: url_special_schemes_def)
qed

text \<open>The same for every special scheme.\<close>

lemma special_scheme_cases:
  "sch \<in> set url_special_schemes \<Longrightarrow>
   sch = ''ftp'' \<or> sch = ''file'' \<or> sch = ''http'' \<or> sch = ''https'' \<or> sch = ''ws'' \<or> sch = ''wss''"
  by (simp add: url_special_schemes_def)

lemma split_special_scheme:
  assumes "sch \<in> set url_special_schemes"
  shows "split_scheme (sch @ ''://'' @ r) = Some (sch, ''//'' @ r)"
    and "\<forall>c \<in> set (sch @ ''://''). \<not> c0_or_space c"
  using special_scheme_cases [OF assms]
  by (elim disjE; simp add: split_scheme_def scheme_char_def ascii_alpha_def ascii_digit_def js_lower_def
      js_lower_char_def c0_or_space_def)+

lemma url_parse_special_plain:
  assumes sch: "sch \<in> set url_special_schemes"
    and h: "h \<noteq> []" "\<forall>c \<in> set h. \<not> forbidden_domain c"
    and p: "p = [] \<or> hd p = CHR ''/''" "\<forall>c \<in> set p. \<not> c0_or_space c"
  shows "url_parse (sch @ ''://'' @ h @ p) =
           Some \<lparr>protocol = sch, hostname = url_lower h, port = [], rest = p\<rparr>"
proof -
  have "\<forall>c \<in> set h. \<not> c0_or_space c"
    using h(2) forbidden_domain_c0 by blast
  with p(2) split_special_scheme(2) [OF sch] have "\<forall>c \<in> set (sch @ ''://'' @ h @ p). \<not> c0_or_space c"
    by auto
  then have strip: "url_strip (sch @ ''://'' @ h @ p) = sch @ ''://'' @ h @ p"
    by (rule url_strip_id)
  show ?thesis
    using parse_special_plain [OF h p(1), of sch] sch
    by (simp only: url_parse_def strip split_special_scheme(1) [OF sch]) simp
qed

text \<open>Credentials before the last \<open>@\<close> are dropped: the host is what follows it.\<close>

lemma parse_special_userinfo:
  assumes u: "u \<noteq> []" "\<forall>c \<in> set u. \<not> forbidden_domain c"
    and h: "h \<noteq> []" "\<forall>c \<in> set h. \<not> forbidden_domain c"
    and p: "p = [] \<or> hd p = CHR ''/''"
  shows "parse_special sch (''//'' @ u @ ''@'' @ h @ p) =
           Some \<lparr>protocol = sch, hostname = url_lower h, port = [], rest = p\<rparr>"
proof -
  have "\<not> forbidden_domain (hd u)"
    using u by simp
  then have "\<not> special_end (hd u)"
    using forbidden_domain_special_end by blast
  then have "hd u \<noteq> CHR ''/'' \<and> hd u \<noteq> CHR 0x5C"
    by (auto simp: special_end_def)
  then have r1: "dropWhile (\<lambda>c. c = CHR ''/'' \<or> c = CHR 0x5C) (''//'' @ u @ ''@'' @ h @ p) =
                 (u @ ''@'' @ h) @ p"
    using u(1) by (cases u) auto
  have a: "\<forall>c \<in> set (u @ ''@'' @ h). \<not> special_end c"
    using u(2) h(2) forbidden_domain_special_end by (auto simp: special_end_def)
  have ps: "p = [] \<or> \<not> \<not> special_end (hd p)"
    using p by (auto simp: special_end_def)
  have tw: "takeWhile (\<lambda>c. \<not> special_end c) ((u @ ''@'' @ h) @ p) = u @ ''@'' @ h"
    using a ps by (rule takeWhile_all_stop)
  have dw: "dropWhile (\<lambda>c. \<not> special_end c) ((u @ ''@'' @ h) @ p) = p"
    using a ps by (rule dropWhile_all_stop)
  have noat: "\<forall>c \<in> set (rev h). c \<noteq> CHR ''@''"
    using h(2) forbidden_domain_at by auto
  have "takeWhile (\<lambda>c. c \<noteq> CHR ''@'') (rev h @ [CHR ''@''] @ rev u) = rev h"
    using noat by (rule takeWhile_all_stop) simp
  then have ac: "after_credentials (u @ ''@'' @ h) = h"
    by (simp add: after_credentials_def)
  have hp: "host_of h = h" "port_of h = []"
    using plain_host_parts(2,3) [OF h(2)] .
  show ?thesis
    unfolding parse_special_def Let_def r1 tw dw ac hp
    using h by simp
qed

lemma url_parse_special_userinfo:
  assumes sch: "sch \<in> set url_special_schemes"
    and u: "u \<noteq> []" "\<forall>c \<in> set u. \<not> forbidden_domain c"
    and h: "h \<noteq> []" "\<forall>c \<in> set h. \<not> forbidden_domain c"
    and p: "p = [] \<or> hd p = CHR ''/''" "\<forall>c \<in> set p. \<not> c0_or_space c"
  shows "url_parse (sch @ ''://'' @ u @ ''@'' @ h @ p) =
           Some \<lparr>protocol = sch, hostname = url_lower h, port = [], rest = p\<rparr>"
proof -
  have "\<forall>c \<in> set u. \<not> c0_or_space c" "\<forall>c \<in> set h. \<not> c0_or_space c"
    using u(2) h(2) forbidden_domain_c0 by blast+
  with p(2) split_special_scheme(2) [OF sch]
  have "\<forall>c \<in> set (sch @ ''://'' @ u @ ''@'' @ h @ p). \<not> c0_or_space c"
    by (auto simp: c0_or_space_def)
  then have strip: "url_strip (sch @ ''://'' @ u @ ''@'' @ h @ p) = sch @ ''://'' @ u @ ''@'' @ h @ p"
    by (rule url_strip_id)
  show ?thesis
    using parse_special_userinfo [OF u h p(1), of sch] sch
    by (simp only: url_parse_def strip split_special_scheme(1) [OF sch]) simp
qed

end
