(* ===== verification/Utilities.thy ===== *)
theory Utilities
  imports Url
begin

text \<open>
  The module \<open>src/aws-utilities.js\<close>: its configuration objects, the validator
  \<open>isValidAWSPortalURL\<close>, the lookup \<open>getAWSPortalURL\<close>, the string
  transformations \<open>normalizeAWSPortalURL\<close> and \<open>buildAWSPortalURL\<close>, the
  comparison \<open>isMainAWSPortal\<close>, the host extraction \<open>getAWSPortalDomain\<close>,
  the self-check \<open>validateAWSPortalConfig\<close> and the navigation
  \<open>navigateToAWSPortal\<close>, which writes the browser window's state. Console output is
  not modelled: no function's result depends on it.
\<close>

section \<open>Configuration objects\<close>

definition AWS_IDENTITY_CENTER :: js_object where
  "AWS_IDENTITY_CENTER =
     [(''MAIN_PORTAL'', JStr primary_portal), (''PORTAL_ENDPOINT'', JStr primary_portal),
      (''PRIMARY_URL'', JStr primary_portal), (''DEFAULT_ROUTE'', JStr primary_portal),
      (''HOME_PAGE'', JStr primary_portal), (''ENTRY_POINT'', JStr primary_portal),
      (''SSO_PORTAL'', JStr primary_portal)]"

definition AWS_DOMAINS :: js_object where
  "AWS_DOMAINS =
     [(''INTERNAL'', JStr primary_host), (''AWSAPPS'', JStr ''awsapps.com''),
      (''DOCS'', JStr ''docs.aws.amazon.com''), (''MAIN'', JStr ''aws.amazon.com''),
      (''CONSOLE'', JStr ''console.aws.amazon.com'')]"

definition AWS_PORTAL_URLS :: js_object where
  "AWS_PORTAL_URLS =
     [(''iam_identity_center'', JStr primary_portal), (''main'', JStr primary_portal),
      (''sso'', JStr primary_portal), (''access_portal'', JStr primary_portal),
      (''applications'', JStr primary_portal), (''default'', JStr primary_portal)]"

section \<open>Validation\<close>

text \<open>The domains \<open>isValidAWSPortalURL\<close> accepts, themselves and their subdomains.\<close>

definition supportedDomains :: "string list" where
  "supportedDomains =
     [primary_host, ''awsapps.com'', ''docs.aws.amazon.com'', ''aws.amazon.com'',
      ''console.aws.amazon.com'']"

text \<open>\<open>!url\<close> rejects a falsy argument; \<open>new URL(url)\<close> throwing is caught and
  gives \<open>false\<close>; otherwise the lower-cased host must equal a supported domain or
  end with a dot and one.\<close>

definition isValidAWSPortalURL :: "jsv \<Rightarrow> bool" where
  "isValidAWSPortalURL url =
     (if \<not> js_truthy url then False
      else (case new_URL url of
              Inl _ \<Rightarrow> False
            | Inr urlObj \<Rightarrow>
                (let hostname = js_lower (hostname urlObj)
                 in list_ex (\<lambda>domain. hostname = domain \<or> suffix (''.'' @ domain) hostname)
                      supportedDomains)))"

section \<open>Lookup, normalisation, construction\<close>

definition getAWSPortalURL_portals :: js_object where
  "getAWSPortalURL_portals =
     [(''main'', JStr primary_portal), (''sso'', JStr primary_portal),
      (''iam'', JStr primary_portal), (''identity_center'', JStr primary_portal),
      (''access'', JStr primary_portal), (''portal'', JStr primary_portal),
      (''default'', JStr primary_portal)]"

text \<open>\<open>portals[type.toLowerCase()] || default\<close>: the parameter defaults to
  \<open>'main'\<close>; a value without a \<open>toLowerCase\<close> method (\<open>null\<close>, a number, a
  boolean, an array or a plain object) makes the call throw; the key is looked up on a
  plain object, so the keys of \<open>Object.prototype\<close> are found too.\<close>

definition getAWSPortalURL :: "jsv \<Rightarrow> jsv js_result" where
  "getAWSPortalURL type =
     (case js_default type (JStr ''main'') of
        JStr t \<Rightarrow> Inr (js_or (obj_lookup getAWSPortalURL_portals (js_lower t)) (JStr primary_portal))
      | JNull \<Rightarrow> Inl (TypeError ''Cannot read properties of null (reading toLowerCase)'')
      | _ \<Rightarrow> Inl (TypeError ''type.toLowerCase is not a function''))"

text \<open>A falsy argument gives the default address; a truthy non-string has no
  \<open>trim\<close> method and the call throws; a string is trimmed, given \<open>https://\<close> unless
  it starts with \<open>http://\<close> or \<open>https://\<close>, and given \<open>/start\<close> if it contains
  \<open>awsapps.com\<close> anywhere and does not already end with \<open>/start\<close>.\<close>

definition normalizeAWSPortalURL :: "jsv \<Rightarrow> string js_result" where
  "normalizeAWSPortalURL url =
     (if \<not> js_truthy url then Inr primary_portal
      else (case url of
              JStr s \<Rightarrow>
                (let n0 = js_trim s;
                     n1 = (if \<not> prefix ''http://'' n0 \<and> \<not> prefix ''https://'' n0
                           then ''https://'' @ n0 else n0);
                     n2 = (if sublist ''awsapps.com'' n1 \<and> \<not> suffix ''/start'' n1
                           then n1 @ ''/start'' else n1)
                 in Inr n2)
            | _ \<Rightarrow> Inl (TypeError ''url.trim is not a function'')))"

text \<open>Strict equality with the designated address: no conversion, no normalisation.\<close>

definition isMainAWSPortal :: "jsv \<Rightarrow> bool" where
  "isMainAWSPortal url = (url = JStr primary_portal)"

text \<open>The host of \<open>new URL(url)\<close>, or \<open>null\<close> (\<^const>\<open>None\<close>) when it throws.\<close>

definition getAWSPortalDomain :: "jsv \<Rightarrow> string option" where
  "getAWSPortalDomain url =
     (case new_URL url of Inl _ \<Rightarrow> None | Inr urlObj \<Rightarrow> Some (hostname urlObj))"

text \<open>The template literal \<open>`https://${subdomain}.awsapps.com/start`\<close>, the
  parameter defaulting to \<open>'internal'\<close>; no check of the label.\<close>

definition buildAWSPortalURL :: "jsv \<Rightarrow> string" where
  "buildAWSPortalURL subdomain =
     ''https://'' @ js_to_string (js_default subdomain (JStr ''internal'')) @ ''.awsapps.com/start''"

section \<open>Self-check and navigation\<close>

text \<open>The four checks of \<open>validateAWSPortalConfig\<close>, over the two configuration
  objects it reads (globals that other code may have mutated) and the result of
  \<open>getAWSPortalURL('main')\<close>.\<close>

definition validateAWSPortalConfig :: "js_object \<Rightarrow> js_object \<Rightarrow> bool" where
  "validateAWSPortalConfig identity_center domains =
     (let isValid1 = (obj_lookup identity_center ''MAIN_PORTAL'' = JStr primary_portal);
          isValid2 = isValid1 \<and> obj_lookup identity_center ''PRIMARY_URL'' = JStr primary_portal;
          isValid3 = isValid2 \<and> obj_lookup domains ''INTERNAL'' = JStr primary_host;
          testURL = getAWSPortalURL (JStr ''main'')
      in isValid3 \<and> testURL = Inr (JStr primary_portal))"

text \<open>The browser window the navigation writes: its location and the tabs
  \<open>window.open\<close> has opened, each with its target. \<^const>\<open>None\<close> is an environment
  where \<open>typeof window === 'undefined'\<close>.\<close>

record browser_window =
  location_href :: string
  opened_tabs :: "(string \<times> string) list"

definition navigateToAWSPortal ::
  "jsv \<Rightarrow> jsv \<Rightarrow> browser_window option \<Rightarrow> browser_window option" where
  "navigateToAWSPortal subdomain newTab win =
     (let url = buildAWSPortalURL (js_default subdomain (JStr ''internal''));
          newTab' = js_default newTab (JBool False)
      in case win of
           None \<Rightarrow> None
         | Some w \<Rightarrow>
             if js_truthy newTab'
             then Some (w\<lparr>opened_tabs := opened_tabs w @ [(url, ''_blank'')]\<rparr>)
             else Some (w\<lparr>location_href := url\<rparr>))"

definition AWS_PORTAL_METADATA :: js_object where
  "AWS_PORTAL_METADATA =
     [(''main_portal'', JObj
         [(''name'', JStr ''AWS IAM Identity Center Portal''), (''url'', JStr primary_portal),
          (''domain'', JStr primary_host),
          (''description'', JStr ''Primary AWS IAM Identity Center access portal''),
          (''path'', JStr ''/start''), (''protocol'', JStr ''https''),
          (''type'', JStr ''identity_center'')]),
      (''config'', JObj
         [(''primary_url'', JStr primary_portal), (''default_subdomain'', JStr ''internal''),
          (''domain_suffix'', JStr ''awsapps.com''), (''start_path'', JStr ''/start''),
          (''protocol'', JStr ''https'')]),
      (''portal_types'', JObj
         [(''standard'', JStr primary_portal),
          (''organization'', JStr ''https://d-{id}.awsapps.com/start''),
          (''custom'', JStr ''https://{subdomain}.awsapps.com/start'')])]"

section \<open>Abstract specifications\<close>

text \<open>The hosts a portal address may have, as the header of the module states them:
  \<open>awsapps.com\<close> and the AWS website \<open>aws.amazon.com\<close>, each with its
  subdomains. \<open>supportedDomains\<close> lists five entries, three of which are covered
  by the other two.\<close>

definition portal_host :: "string \<Rightarrow> bool" where
  "portal_host h \<longleftrightarrow>
     h = ''awsapps.com'' \<or> suffix ''.awsapps.com'' h \<or>
     h = ''aws.amazon.com'' \<or> suffix ''.aws.amazon.com'' h"

text \<open>An organisation label: lower-case letters, digits and hyphens, neither first
  nor last a hyphen.\<close>

definition label_char :: "char \<Rightarrow> bool" where
  "label_char c \<longleftrightarrow> c \<in> set ''abcdefghijklmnopqrstuvwxyz0123456789-''"

definition dns_label :: "string \<Rightarrow> bool" where
  "dns_label l \<longleftrightarrow>
     l \<noteq> [] \<and> (\<forall>c \<in> set l. label_char c) \<and> hd l \<noteq> CHR ''-'' \<and> last l \<noteq> CHR ''-''"

text \<open>The shape of every address \<open>normalizeAWSPortalURL\<close> returns: it starts with a
  scheme prefix, ends with a non-space, and ends with \<open>/start\<close> if it mentions
  \<open>awsapps.com\<close>.\<close>

definition normalized_shape :: "string \<Rightarrow> bool" where
  "normalized_shape r \<longleftrightarrow>
     (prefix ''http://'' r \<or> prefix ''https://'' r) \<and> \<not> js_ws (last r) \<and>
     (sublist ''awsapps.com'' r \<longrightarrow> suffix ''/start'' r)"

section \<open>Properties\<close>

subsection \<open>The validator against its specification\<close>

lemma supported_host_iff:
  "list_ex (\<lambda>domain. h = domain \<or> suffix (''.'' @ domain) h) supportedDomains \<longleftrightarrow> portal_host h"
proof -
  have a: "suffix ''.awsapps.com'' (''.'' @ primary_host)"
    and b: "suffix ''.aws.amazon.com'' (''.'' @ ''docs.aws.amazon.com'')"
    and c: "suffix ''.aws.amazon.com'' (''.'' @ ''console.aws.amazon.com'')"
    and d: "suffix ''.awsapps.com'' primary_host"
    and e: "suffix ''.aws.amazon.com'' ''docs.aws.amazon.com''"
    and f: "suffix ''.aws.amazon.com'' ''console.aws.amazon.com''"
    by (simp_all add: suffix_to_prefix)
  show ?thesis
    unfolding portal_host_def supportedDomains_def
    using suffix_order.trans [OF a] suffix_order.trans [OF b] suffix_order.trans [OF c] d e f
    by auto
qed

text \<open>C1: \<open>isValidAWSPortalURL\<close> accepts exactly the truthy arguments whose string
  form the URL parser accepts and whose lower-cased host is \<open>awsapps.com\<close> or
  \<open>aws.amazon.com\<close> or a subdomain of one of them: the five-entry list of the code
  refines this two-domain specification.\<close>

theorem isValidAWSPortalURL_iff:
  "isValidAWSPortalURL url \<longleftrightarrow>
     js_truthy url \<and> (\<exists>u. url_parse (js_to_string url) = Some u \<and> portal_host (js_lower (hostname u)))"
  using supported_host_iff [simplified]
  by (auto simp: isValidAWSPortalURL_def new_URL_def Let_def split: option.splits)

subsection \<open>Construction and extraction\<close>

lemma label_char_plain:
  assumes "label_char c"
  shows "\<not> forbidden_domain c" and "js_lower_char c = c"
  using assms
  by (auto simp: label_char_def forbidden_domain_def forbidden_host_def js_lower_char_def)

lemma url_lower_label:
  "\<forall>c \<in> set l. label_char c \<Longrightarrow> url_lower l = l"
  by (induction l) (auto simp: url_lower_def label_char_plain)

lemma js_lower_label:
  "\<forall>c \<in> set l. label_char c \<Longrightarrow> js_lower l = l"
  by (induction l) (auto simp: js_lower_def label_char_plain)

lemma label_suffix_chars:
  "\<forall>c \<in> set l. label_char c \<Longrightarrow> \<forall>c \<in> set (l @ ''.awsapps.com''). \<not> forbidden_domain c"
  using label_char_plain(1)
  by (auto simp: forbidden_domain_def forbidden_host_def)

lemma url_lower_awsapps: "url_lower ''.awsapps.com'' = ''.awsapps.com''"
  and js_lower_awsapps: "js_lower ''.awsapps.com'' = ''.awsapps.com''"
  by (simp_all add: url_lower_def js_lower_def js_lower_char_def)

text \<open>The address built from an organisation label parses with host \<open>l.awsapps.com\<close>.\<close>

lemma url_parse_build_label:
  assumes "dns_label l"
  shows "url_parse (buildAWSPortalURL (JStr l)) =
           Some \<lparr>protocol = ''https'', hostname = l @ ''.awsapps.com'', port = [], rest = ''/start''\<rparr>"
proof -
  from assms have l: "l \<noteq> []" "\<forall>c \<in> set l. label_char c"
    by (auto simp: dns_label_def)
  have b: "buildAWSPortalURL (JStr l) = ''https://'' @ (l @ ''.awsapps.com'') @ ''/start''"
    by (simp add: buildAWSPortalURL_def)
  show ?thesis
    using url_parse_https_plain [of "l @ ''.awsapps.com''" "''/start''"] l
      label_suffix_chars url_lower_label url_lower_awsapps
    by (simp add: b c0_or_space_def url_lower_def)
qed

lemma portal_host_label:
  "dns_label l \<Longrightarrow> portal_host (js_lower (l @ ''.awsapps.com''))"
  using js_lower_label js_lower_awsapps
  by (simp add: dns_label_def portal_host_def js_lower_def suffix_def)

text \<open>C2: for an organisation label \<open>l\<close>, the address \<open>buildAWSPortalURL(l)\<close> is
  one that \<open>getAWSPortalDomain\<close> reads \<open>l.awsapps.com\<close> back from and that
  \<open>isValidAWSPortalURL\<close> accepts.\<close>

theorem buildAWSPortalURL_roundtrip:
  assumes "dns_label l"
  shows "getAWSPortalDomain (JStr (buildAWSPortalURL (JStr l))) = Some (l @ ''.awsapps.com'')
         \<and> isValidAWSPortalURL (JStr (buildAWSPortalURL (JStr l)))"
  using url_parse_build_label [OF assms] portal_host_label [OF assms] supported_host_iff [simplified]
  by (simp add: getAWSPortalDomain_def new_URL_def isValidAWSPortalURL_def Let_def
      buildAWSPortalURL_def)

subsection \<open>Normalisation\<close>

lemma last_scheme_step:
  assumes "n1 = (if \<not> prefix ''http://'' (js_trim s) \<and> \<not> prefix ''https://'' (js_trim s)
                 then ''https://'' @ js_trim s else js_trim s)"
  shows "(prefix ''http://'' n1 \<or> prefix ''https://'' n1) \<and> \<not> js_ws (last n1)"
proof (cases "js_trim s = []")
  case True
  with assms show ?thesis by (simp add: js_ws_def)
next
  case False
  then have "\<not> js_ws (last (js_trim s))"
    using js_trim_ends by blast
  with False assms show ?thesis by auto
qed

lemma normalize_result_shape:
  assumes "normalizeAWSPortalURL url = Inr r"
  shows "normalized_shape r"
proof (cases "js_truthy url")
  case False
  with assms have "r = primary_portal"
    by (simp add: normalizeAWSPortalURL_def)
  then show ?thesis
    by (simp add: normalized_shape_def js_simps)
next
  case True
  then obtain s where url: "url = JStr s"
    using assms by (cases url) (auto simp: normalizeAWSPortalURL_def)
  define n1 where "n1 = (if \<not> prefix ''http://'' (js_trim s) \<and> \<not> prefix ''https://'' (js_trim s)
                        then ''https://'' @ js_trim s else js_trim s)"
  have n1: "(prefix ''http://'' n1 \<or> prefix ''https://'' n1) \<and> \<not> js_ws (last n1)"
    using n1_def by (rule last_scheme_step)
  have "normalizeAWSPortalURL url =
          Inr (if sublist ''awsapps.com'' n1 \<and> \<not> suffix ''/start'' n1 then n1 @ ''/start'' else n1)"
    using True unfolding url normalizeAWSPortalURL_def Let_def n1_def by simp
  with assms have r: "r = (if sublist ''awsapps.com'' n1 \<and> \<not> suffix ''/start'' n1
                          then n1 @ ''/start'' else n1)"
    by simp
  show ?thesis
  proof (cases "sublist ''awsapps.com'' n1 \<and> \<not> suffix ''/start'' n1")
    case True
    with r n1 show ?thesis
      by (auto simp: normalized_shape_def js_ws_def intro: suffixI)
  next
    case False
    with r n1 show ?thesis
      by (auto simp: normalized_shape_def)
  qed
qed

lemma normalize_shaped_id:
  assumes "normalized_shape r"
  shows "normalizeAWSPortalURL (JStr r) = Inr r"
proof -
  from assms have ne: "r \<noteq> []" and hd: "hd r = CHR ''h''"
    by (auto simp: normalized_shape_def prefix_def)
  with assms have "js_trim r = r"
    by (intro js_trim_id) (auto simp: normalized_shape_def js_ws_def)
  with assms ne show ?thesis
    by (auto simp: normalizeAWSPortalURL_def normalized_shape_def)
qed

text \<open>C3: normalising is idempotent: whatever \<open>normalizeAWSPortalURL\<close> returns,
  normalising it again returns unchanged.\<close>

theorem normalizeAWSPortalURL_idempotent:
  assumes "normalizeAWSPortalURL url = Inr r"
  shows "normalizeAWSPortalURL (JStr r) = Inr r"
  using assms by (intro normalize_shaped_id normalize_result_shape)

subsection \<open>Lookup\<close>

text \<open>C4: for a string argument \<open>getAWSPortalURL\<close> returns the designated address,
  except for the keys that the lookup finds on \<open>Object.prototype\<close>: any spelling of
  \<open>constructor\<close> returns the function \<open>Object\<close>, any spelling of \<open>__proto__\<close>
  the prototype object, neither of them a string.\<close>

theorem getAWSPortalURL_string:
  "getAWSPortalURL (JStr t) =
     Inr (if js_lower t = ''constructor'' then JFun ''constructor''
          else if js_lower t = ''__proto__'' then JObj []
          else JStr primary_portal)"
proof -
  have get: "getAWSPortalURL (JStr t) =
               Inr (js_or (obj_lookup getAWSPortalURL_portals (js_lower t)) (JStr primary_portal))"
    by (simp add: getAWSPortalURL_def)
  have "obj_lookup getAWSPortalURL_portals k =
          (if k \<in> set (map fst getAWSPortalURL_portals) then JStr primary_portal
           else if k \<in> set object_proto_keys then proto_value k else JUndef)" for k
    by (simp add: obj_lookup_def getAWSPortalURL_portals_def)
  then show ?thesis
    using proto_keys_lower [of t] get
    by (auto simp: js_or_def getAWSPortalURL_portals_def proto_value_def)
qed

subsection \<open>Unvalidated labels and schemes\<close>

text \<open>C5: \<open>buildAWSPortalURL\<close> does not check its label: a label that ends with a
  slash yields an address whose host is whatever precedes the slash, not a host
  under \<open>awsapps.com\<close>.\<close>

theorem buildAWSPortalURL_host_escape:
  assumes "h \<noteq> []" and "\<forall>c \<in> set h. \<not> forbidden_domain c"
  shows "getAWSPortalDomain (JStr (buildAWSPortalURL (JStr (h @ ''/'')))) = Some (url_lower h)"
proof -
  have b: "buildAWSPortalURL (JStr (h @ ''/'')) = ''https://'' @ h @ ''/.awsapps.com/start''"
    by (simp add: buildAWSPortalURL_def)
  have "url_parse (''https://'' @ h @ ''/.awsapps.com/start'') =
          Some \<lparr>protocol = ''https'', hostname = url_lower h, port = [], rest = ''/.awsapps.com/start''\<rparr>"
    using assms by (intro url_parse_https_plain) (auto simp: c0_or_space_def)
  then show ?thesis
    by (simp add: b getAWSPortalDomain_def new_URL_def)
qed

lemma isValidAWSPortalURL_parsed:
  assumes "url_parse s = Some u" and "s \<noteq> []"
  shows "isValidAWSPortalURL (JStr s) \<longleftrightarrow> portal_host (js_lower (hostname u))"
  using assms supported_host_iff
  by (simp add: isValidAWSPortalURL_def new_URL_def Let_def)


text \<open>\<open>normalizeAWSPortalURL\<close> looks for \<open>awsapps.com\<close> in the whole string and
  for \<open>/start\<close> at its very end: a trailing slash or a query after \<open>/start\<close> gets a
  second \<open>/start\<close> appended, and so does an address on another host that mentions
  \<open>awsapps.com\<close> in its query.\<close>

theorem normalizeAWSPortalURL_path_corruption:
  "normalizeAWSPortalURL (JStr ''https://internal.awsapps.com/start/'') =
     Inr ''https://internal.awsapps.com/start//start'' \<and>
   normalizeAWSPortalURL (JStr ''https://internal.awsapps.com/start?x=1'') =
     Inr ''https://internal.awsapps.com/start?x=1/start'' \<and>
   normalizeAWSPortalURL (JStr ''https://example.com/?next=awsapps.com'') =
     Inr ''https://example.com/?next=awsapps.com/start''"
  by (simp add: normalizeAWSPortalURL_def js_simps)

subsection \<open>Comparison, self-check, errors\<close>

text \<open>C7: the built address is the designated one exactly when the label, converted to
  a string, is \<open>internal\<close>: \<open>isMainAWSPortal\<close> compares without normalising.\<close>

theorem isMainAWSPortal_build:
  "isMainAWSPortal (JStr (buildAWSPortalURL v)) \<longleftrightarrow>
     js_to_string (js_default v (JStr ''internal'')) = ''internal''"
  by (simp add: isMainAWSPortal_def buildAWSPortalURL_def)

text \<open>C8: \<open>validateAWSPortalConfig\<close> depends on three fields of the configuration
  objects only (its fourth check, of \<open>getAWSPortalURL('main')\<close>, always passes).\<close>

theorem validateAWSPortalConfig_iff:
  "validateAWSPortalConfig ic doms \<longleftrightarrow>
     obj_lookup ic ''MAIN_PORTAL'' = JStr primary_portal \<and>
     obj_lookup ic ''PRIMARY_URL'' = JStr primary_portal \<and>
     obj_lookup doms ''INTERNAL'' = JStr primary_host"
proof -
  have "getAWSPortalURL (JStr ''main'') = Inr (JStr primary_portal)"
    by (simp add: getAWSPortalURL_def getAWSPortalURL_portals_def obj_lookup_def js_simps)
  then show ?thesis
    by (auto simp: validateAWSPortalConfig_def)
qed

text \<open>C9: a truthy argument that is not a string makes \<open>normalizeAWSPortalURL\<close>
  throw, since it has no \<open>trim\<close> method.\<close>

theorem normalizeAWSPortalURL_type_error:
  assumes "js_truthy url" and "\<forall>s. url \<noteq> JStr s"
  shows "normalizeAWSPortalURL url = Inl (TypeError ''url.trim is not a function'')"
  using assms by (cases url) (auto simp: normalizeAWSPortalURL_def)

text \<open>C10: \<open>getAWSPortalURL\<close> throws exactly for the arguments that are neither
  \<open>undefined\<close> nor a string.\<close>

theorem getAWSPortalURL_error:
  "(\<exists>e. getAWSPortalURL v = Inl e) \<longleftrightarrow> v \<noteq> JUndef \<and> (\<forall>s. v \<noteq> JStr s)"
  by (cases v) (auto simp: getAWSPortalURL_def js_default_def)

subsection \<open>Navigation\<close>

lemma navigate_Some:
  "navigateToAWSPortal sd nt (Some w) =
     Some (if js_truthy (js_default nt (JBool False))
           then w\<lparr>opened_tabs := opened_tabs w @ [(buildAWSPortalURL sd, ''_blank'')]\<rparr>
           else w\<lparr>location_href := buildAWSPortalURL sd\<rparr>)"
  by (simp add: navigateToAWSPortal_def buildAWSPortalURL_def js_default_def)

lemma js_default_false_truthy: "js_truthy (js_default nt (JBool False)) \<longleftrightarrow> js_truthy nt"
  by (cases nt) (simp_all add: js_default_def)

text \<open>C11: \<open>navigateToAWSPortal\<close> does nothing without a window; with one, a truthy
  \<open>newTab\<close> opens one tab on the built address with target \<open>_blank\<close> and leaves the
  location alone, and any other \<open>newTab\<close> (omitted included) moves the location
  there and opens no tab.\<close>

theorem navigateToAWSPortal_target:
  "navigateToAWSPortal sd nt None = None \<and>
   navigateToAWSPortal sd nt (Some w) =
     Some (if js_truthy nt
           then w\<lparr>opened_tabs := opened_tabs w @ [(buildAWSPortalURL sd, ''_blank'')]\<rparr>
           else w\<lparr>location_href := buildAWSPortalURL sd\<rparr>)"
  unfolding navigate_Some js_default_false_truthy by (simp add: navigateToAWSPortal_def)

subsection \<open>The examples of the specification\<close>

text \<open>The module meets the concrete cases the specification lists: the
  default and a named organisation for \<open>buildAWSPortalURL\<close>, three inputs of
  \<open>normalizeAWSPortalURL\<close>, an address and a non-address for
  \<open>getAWSPortalDomain\<close>, and the exact match of \<open>isMainAWSPortal\<close>, which fails
  on a trailing slash.\<close>

theorem spec_examples:
  "buildAWSPortalURL JUndef = primary_portal \<and>
   buildAWSPortalURL (JStr ''myorg'') = ''https://myorg.awsapps.com/start'' \<and>
   normalizeAWSPortalURL (JStr ''internal.awsapps.com/start'') = Inr primary_portal \<and>
   normalizeAWSPortalURL (JStr '''') = Inr primary_portal \<and>
   normalizeAWSPortalURL (JStr ''d-12345678ab.awsapps.com'') = Inr ''https://d-12345678ab.awsapps.com/start'' \<and>
   getAWSPortalDomain (JStr primary_portal) = Some primary_host \<and>
   getAWSPortalDomain (JStr ''not a url'') = None \<and>
   isMainAWSPortal (JStr primary_portal) \<and> \<not> isMainAWSPortal (JStr (primary_portal @ ''/''))"
  by code_simp

section \<open>Witnesses\<close>

theorem isValidAWSPortalURL_iff_witness:
  "isValidAWSPortalURL (JStr primary_portal) \<and> \<not> isValidAWSPortalURL (JStr ''https://example.com/start'')"
  using isValidAWSPortalURL_iff [of "JStr primary_portal"]
    isValidAWSPortalURL_iff [of "JStr ''https://example.com/start''"]
  by (simp add: url_parse_def url_strip_def split_scheme_def c0_or_space_def
      tab_or_newline_def ascii_alpha_def scheme_char_def ascii_digit_def url_special_schemes_def
      parse_special_def special_end_def after_credentials_def host_of_def port_of_def
      forbidden_domain_def forbidden_host_def url_lower_def portal_host_def js_simps)

theorem buildAWSPortalURL_roundtrip_witness:
  "dns_label ''myorg'' \<and>
   getAWSPortalDomain (JStr (buildAWSPortalURL (JStr ''myorg''))) = Some ''myorg.awsapps.com'' \<and>
   isValidAWSPortalURL (JStr (buildAWSPortalURL (JStr ''myorg'')))"
proof -
  have l: "dns_label ''myorg''"
    by (simp add: dns_label_def label_char_def)
  show ?thesis
    using buildAWSPortalURL_roundtrip [OF l] l by simp
qed

theorem normalizeAWSPortalURL_idempotent_witness:
  "normalizeAWSPortalURL (JStr ''d-12345678ab.awsapps.com'') = Inr ''https://d-12345678ab.awsapps.com/start''
   \<and> normalizeAWSPortalURL (JStr ''https://d-12345678ab.awsapps.com/start'')
       = Inr ''https://d-12345678ab.awsapps.com/start''"
proof -
  have n: "normalizeAWSPortalURL (JStr ''d-12345678ab.awsapps.com'') =
             Inr ''https://d-12345678ab.awsapps.com/start''"
    by (simp add: normalizeAWSPortalURL_def js_simps)
  show ?thesis
    using normalizeAWSPortalURL_idempotent [OF n] n by simp
qed

theorem buildAWSPortalURL_host_escape_witness:
  "getAWSPortalDomain (JStr (buildAWSPortalURL (JStr ''evil.example/''))) = Some ''evil.example''"
  using buildAWSPortalURL_host_escape [of "''evil.example''"]
  by (simp add: forbidden_domain_def forbidden_host_def url_lower_def js_simps)

theorem normalizeAWSPortalURL_type_error_witness:
  "normalizeAWSPortalURL (JNum 42) = Inl (TypeError ''url.trim is not a function'')"
  using normalizeAWSPortalURL_type_error [of "JNum 42"] by simp


end
