(* ===== verification/Constants.thy ===== *)
theory Constants
  imports Prelude
begin

text \<open>
  The module \<open>src/aws-portal-constants.js\<close>: its constant objects as association
  lists (insertion order kept, numbers as \<^const>\<open>JNum\<close>), and the three functions of
  \<open>PORTAL_VALIDATORS\<close>. \<open>isValidPortalURL\<close> returns the value of
  \<open>url === main || url.match(re)\<close>: \<open>true\<close>, the match array (modelled as the array
  of the matched text) or \<open>null\<close>; \<open>String.prototype.match\<close> with the
  non-global expression \<open>/https:\/\/[a-z0-9\-]*\.awsapps\.com\/start/\<close> returns the
  leftmost match. Since \<open>.\<close> is outside the character class, the class run before
  \<open>.awsapps.com/start\<close> can only be the longest one, so the backtracking matcher's
  result at a position is the greedy one that \<open>portal_re_at\<close> computes.
\<close>

section \<open>Constant objects\<close>

definition PORTAL_URLS :: js_object where
  "PORTAL_URLS =
     [(''MAIN'', JStr primary_portal), (''STANDARD'', JStr primary_portal),
      (''PRIMARY'', JStr primary_portal), (''DEFAULT'', JStr primary_portal),
      (''ENTRY'', JStr primary_portal), (''HOME'', JStr primary_portal),
      (''ACCESS'', JStr primary_portal), (''ROOT'', JStr primary_portal),
      (''ENDPOINT'', JStr primary_portal), (''REDIRECT'', JStr primary_portal),
      (''LOGIN'', JStr primary_portal), (''SSO'', JStr primary_portal),
      (''IDENTITY_CENTER'', JStr primary_portal), (''START'', JStr primary_portal),
      (''BASE'', JStr ''https://internal.awsapps.com''),
      (''PROTOCOL_BASE'', JStr ''https://internal.awsapps.com'')]"

definition DOMAIN_CONSTANTS :: js_object where
  "DOMAIN_CONSTANTS =
     [(''INTERNAL_DOMAIN'', JStr primary_host), (''AWSAPPS_DOMAIN'', JStr ''awsapps.com''),
      (''DOCS_DOMAIN'', JStr ''docs.aws.amazon.com''), (''AWS_DOMAIN'', JStr ''aws.amazon.com''),
      (''CONSOLE_DOMAIN'', JStr ''console.aws.amazon.com''),
      (''PORTAL_HOST'', JStr primary_host), (''PORTAL_HOSTNAME'', JStr primary_host)]"

definition PATH_CONSTANTS :: js_object where
  "PATH_CONSTANTS =
     [(''START_PATH'', JStr ''/start''), (''ROOT_PATH'', JStr ''/''), (''HOME_PATH'', JStr ''/start''),
      (''API_PATH'', JStr ''/api''), (''ACCESS_PATH'', JStr ''/start'')]"

definition PROTOCOL_CONSTANTS :: js_object where
  "PROTOCOL_CONSTANTS =
     [(''HTTPS'', JStr ''https''), (''HTTP'', JStr ''http''), (''DEFAULT'', JStr ''https''),
      (''SECURE'', JStr ''https'')]"

definition PORTAL_CONFIG :: js_object where
  "PORTAL_CONFIG =
     [(''name'', JStr ''AWS IAM Identity Center Portal''),
      (''description'', JStr ''Primary AWS IAM Identity Center access portal''),
      (''version'', JStr ''1.0.0''), (''url'', JStr primary_portal), (''domain'', JStr primary_host),
      (''hostname'', JStr primary_host), (''protocol'', JStr ''https''), (''path'', JStr ''/start''),
      (''port'', JNum 443), (''baseURL'', JStr ''https://internal.awsapps.com''),
      (''fullURL'', JStr primary_portal), (''type'', JStr ''identity_center''),
      (''environment'', JStr ''production''), (''region'', JStr ''global''),
      (''availability'', JStr ''public'')]"

definition PORTAL_ENDPOINTS :: js_object where
  "PORTAL_ENDPOINTS =
     [(''main'', JStr primary_portal), (''home'', JStr primary_portal),
      (''access'', JStr primary_portal), (''api'', JStr ''https://internal.awsapps.com/api''),
      (''applications'', JStr primary_portal),
      (''users'', JStr ''https://internal.awsapps.com/users''),
      (''groups'', JStr ''https://internal.awsapps.com/groups''),
      (''sessions'', JStr ''https://internal.awsapps.com/sessions''),
      (''roles'', JStr ''https://internal.awsapps.com/roles'')]"

definition PORTAL_FEATURES :: js_object where
  "PORTAL_FEATURES =
     [(''sso_enabled'', JBool True), (''mfa_enabled'', JBool True), (''apps_enabled'', JBool True),
      (''user_management_enabled'', JBool True), (''group_management_enabled'', JBool True),
      (''session_management_enabled'', JBool True),
      (''features'', JArr (map JStr
         [''Single Sign-On (SSO) at https://internal.awsapps.com/start'',
          ''Multi-Factor Authentication (MFA)'', ''Application Management'', ''User Management'',
          ''Group Management'', ''Session Management'', ''Role-Based Access Control'',
          ''Audit Logging'']))]"

definition SUPPORTED_DOMAINS :: "string list" where
  "SUPPORTED_DOMAINS =
     [primary_host, ''awsapps.com'', ''d-[a-z0-9]*.awsapps.com'', ''[a-z0-9]*.awsapps.com'',
      ''docs.aws.amazon.com'', ''aws.amazon.com'', ''console.aws.amazon.com'']"

definition SUBDOMAIN_PATTERNS :: js_object where
  "SUBDOMAIN_PATTERNS =
     [(''organization'', JStr ''d-[a-z0-9]{16}''), (''custom'', JStr ''[a-z0-9][a-z0-9-]*[a-z0-9]''),
      (''internal'', JStr ''internal''), (''any'', JStr ''[a-z0-9][a-z0-9-]*[a-z0-9]?'')]"

definition PORTAL_DOCS :: js_object where
  "PORTAL_DOCS =
     [(''main'', JStr ''https://docs.aws.amazon.com/singlesignon/''),
      (''getting_started'', JStr ''https://docs.aws.amazon.com/singlesignon/latest/userguide/getting-started.html''),
      (''portal_url'', JStr ''https://docs.aws.amazon.com/sdkref/latest/guide/access-sso.html''),
      (''user_guide'', JStr ''https://docs.aws.amazon.com/singlesignon/latest/userguide/''),
      (''api_docs'', JStr ''https://docs.aws.amazon.com/singlesignon/latest/APIReference/''),
      (''troubleshooting'', JStr ''https://docs.aws.amazon.com/singlesignon/latest/userguide/troubleshooting.html''),
      (''faq'', JStr ''https://docs.aws.amazon.com/singlesignon/latest/userguide/faq.html'')]"

definition PORTAL_STATUS :: js_object where
  "PORTAL_STATUS =
     [(''SUCCESS'', JNum 200), (''SUCCESS_CREATED'', JNum 201), (''SUCCESS_NO_CONTENT'', JNum 204),
      (''REDIRECT'', JNum 302), (''BAD_REQUEST'', JNum 400), (''UNAUTHORIZED'', JNum 401),
      (''FORBIDDEN'', JNum 403), (''NOT_FOUND'', JNum 404), (''TIMEOUT'', JNum 408),
      (''SERVER_ERROR'', JNum 500), (''SERVICE_UNAVAILABLE'', JNum 503),
      (''messages'', JObj
         [(''200'', JStr ''Portal is accessible''),
          (''401'', JStr ''Authentication required at https://internal.awsapps.com/start''),
          (''403'', JStr ''Access forbidden to portal''), (''404'', JStr ''Portal endpoint not found''),
          (''500'', JStr ''Portal server error''), (''503'', JStr ''Portal service unavailable'')])]"

definition PORTAL_HEADERS :: js_object where
  "PORTAL_HEADERS =
     [(''Content-Type'', JStr ''application/json''), (''Accept'', JStr ''application/json''),
      (''Accept-Language'', JStr ''en-US,en;q=0.9''), (''User-Agent'', JStr ''AWS-Portal-Client/1.0''),
      (''X-Portal-Request'', JStr ''true''), (''X-AWS-Portal'', JStr primary_portal)]"

definition PORTAL_TIMING :: js_object where
  "PORTAL_TIMING =
     [(''request_timeout'', JNum 30000), (''connect_timeout'', JNum 10000),
      (''read_timeout'', JNum 30000), (''session_timeout'', JNum 3600000),
      (''cache_duration'', JNum 3600000), (''retry_delay'', JNum 5000)]"

section \<open>\<open>PORTAL_VALIDATORS\<close>\<close>

text \<open>The character class \<open>[a-z0-9\-]\<close>.\<close>

definition re_label_char :: "char \<Rightarrow> bool" where
  "re_label_char c \<longleftrightarrow> c \<in> set ''abcdefghijklmnopqrstuvwxyz0123456789-''"

text \<open>A match of the expression starting at the first character, if any.\<close>

definition portal_re_at :: "string \<Rightarrow> string option" where
  "portal_re_at s =
     (if prefix ''https://'' s then
        (let r = drop 8 s; lbl = takeWhile re_label_char r; rest = dropWhile re_label_char r
         in if prefix ''.awsapps.com/start'' rest
            then Some (''https://'' @ lbl @ ''.awsapps.com/start'') else None)
      else None)"

text \<open>The leftmost match: the first position, from the left, where one starts.\<close>

fun portal_re_search :: "string \<Rightarrow> string option" where
  "portal_re_search [] = portal_re_at []"
| "portal_re_search (c # cs) =
     (case portal_re_at (c # cs) of Some m \<Rightarrow> Some m | None \<Rightarrow> portal_re_search cs)"

text \<open>\<open>url.match(re)\<close>: the match array or \<open>null\<close>; a value without a
  \<open>match\<close> method makes the call throw.\<close>

definition js_match_portal_re :: "jsv \<Rightarrow> jsv js_result" where
  "js_match_portal_re v =
     (case v of
        JStr s \<Rightarrow> Inr (case portal_re_search s of Some m \<Rightarrow> JArr [JStr m] | None \<Rightarrow> JNull)
      | JUndef \<Rightarrow> Inl (TypeError ''Cannot read properties of undefined (reading match)'')
      | JNull \<Rightarrow> Inl (TypeError ''Cannot read properties of null (reading match)'')
      | _ \<Rightarrow> Inl (TypeError ''url.match is not a function''))"

definition isValidPortalURL :: "jsv \<Rightarrow> jsv js_result" where
  "isValidPortalURL url =
     (if url = JStr primary_portal then Inr (JBool True) else js_match_portal_re url)"

definition isValidPortalDomain :: "jsv \<Rightarrow> jsv js_result" where
  "isValidPortalDomain domain =
     (if domain = JStr primary_host then Inr (JBool True)
      else (case domain of
              JStr d \<Rightarrow> Inr (JBool (suffix ''.awsapps.com'' d))
            | JUndef \<Rightarrow> Inl (TypeError ''Cannot read properties of undefined (reading endsWith)'')
            | JNull \<Rightarrow> Inl (TypeError ''Cannot read properties of null (reading endsWith)'')
            | _ \<Rightarrow> Inl (TypeError ''domain.endsWith is not a function'')))"

definition isInternalDomain :: "jsv \<Rightarrow> bool" where
  "isInternalDomain domain = (domain = JStr primary_host)"

definition PORTAL_VALIDATORS :: "(string \<times> (jsv \<Rightarrow> jsv js_result)) list" where
  "PORTAL_VALIDATORS =
     [(''isValidPortalURL'', isValidPortalURL), (''isValidPortalDomain'', isValidPortalDomain),
      (''isInternalDomain'', \<lambda>d. Inr (JBool (isInternalDomain d)))]"

section \<open>Properties\<close>

subsection \<open>The regular expression\<close>

lemma re_label_dot: "\<not> re_label_char (CHR ''.'')"
  by (simp add: re_label_char_def)

lemma portal_re_at_https:
  "portal_re_at (''https://'' @ r) =
     (if prefix ''.awsapps.com/start'' (dropWhile re_label_char r)
      then Some (''https://'' @ takeWhile re_label_char r @ ''.awsapps.com/start'') else None)"
  by (simp add: portal_re_at_def Let_def)

lemma portal_re_at_Some:
  "portal_re_at s = Some m \<longleftrightarrow>
     (\<exists>l rest. s = ''https://'' @ l @ ''.awsapps.com/start'' @ rest \<and> (\<forall>c \<in> set l. re_label_char c)
               \<and> m = ''https://'' @ l @ ''.awsapps.com/start'')"
proof
  assume at: "portal_re_at s = Some m"
  then have "prefix ''https://'' s"
    by (auto simp: portal_re_at_def split: if_splits)
  then obtain r where s: "s = ''https://'' @ r"
    by (auto simp: prefix_def)
  define l where "l = takeWhile re_label_char r"
  from at have "prefix ''.awsapps.com/start'' (dropWhile re_label_char r)"
    and m: "m = ''https://'' @ l @ ''.awsapps.com/start''"
    unfolding s portal_re_at_https l_def by (auto split: if_splits)
  then obtain rest where rest: "dropWhile re_label_char r = ''.awsapps.com/start'' @ rest"
    by (auto simp: prefix_def)
  have "r = l @ ''.awsapps.com/start'' @ rest"
    using takeWhile_dropWhile_id [of re_label_char r] by (simp only: l_def rest)
  moreover have "\<forall>c \<in> set l. re_label_char c"
    unfolding l_def by (blast dest: set_takeWhileD)
  ultimately show "\<exists>l rest. s = ''https://'' @ l @ ''.awsapps.com/start'' @ rest \<and>
                     (\<forall>c \<in> set l. re_label_char c) \<and> m = ''https://'' @ l @ ''.awsapps.com/start''"
    using s m by blast
next
  assume "\<exists>l rest. s = ''https://'' @ l @ ''.awsapps.com/start'' @ rest \<and>
            (\<forall>c \<in> set l. re_label_char c) \<and> m = ''https://'' @ l @ ''.awsapps.com/start''"
  then obtain l rest where s: "s = ''https://'' @ l @ ''.awsapps.com/start'' @ rest"
    and l: "\<forall>c \<in> set l. re_label_char c" and m: "m = ''https://'' @ l @ ''.awsapps.com/start''"
    by blast
  have stop: "''.awsapps.com/start'' @ rest = [] \<or> \<not> re_label_char (hd (''.awsapps.com/start'' @ rest))"
    by (simp add: re_label_dot)
  have "takeWhile re_label_char (l @ ''.awsapps.com/start'' @ rest) = l"
    using l stop by (rule takeWhile_all_stop)
  moreover have "dropWhile re_label_char (l @ ''.awsapps.com/start'' @ rest) = ''.awsapps.com/start'' @ rest"
    using l stop by (rule dropWhile_all_stop)
  ultimately show "portal_re_at s = Some m"
    unfolding s m portal_re_at_https by simp
qed
lemma portal_re_search_leftmost:
  "portal_re_search s = Some m \<Longrightarrow>
   \<exists>pre post. s = pre @ m @ post \<and> portal_re_at (m @ post) = Some m \<and>
     (\<forall>i < length pre. portal_re_at (drop i s) = None)"
proof (induction s)
  case Nil
  then show ?case by (simp add: portal_re_at_def)
next
  case (Cons c cs)
  show ?case
  proof (cases "portal_re_at (c # cs)")
    case (Some m')
    with Cons.prems have m: "m = m'"
      by simp
    then obtain l rest where "c # cs = ''https://'' @ l @ ''.awsapps.com/start'' @ rest"
        "m = ''https://'' @ l @ ''.awsapps.com/start''"
      using Some unfolding portal_re_at_Some by blast
    then show ?thesis
      using Some m by (intro exI [of _ "[]"] exI [of _ rest]) simp
  next
    case None
    with Cons.prems Cons.IH obtain pre post where ih: "cs = pre @ m @ post"
        "portal_re_at (m @ post) = Some m" "\<forall>i < length pre. portal_re_at (drop i cs) = None"
      by auto
    have "\<forall>i < length (c # pre). portal_re_at (drop i (c # cs)) = None"
      using None ih(3) by (auto simp: less_Suc_eq_0_disj)
    then show ?thesis
      using ih by (intro exI [of _ "c # pre"] exI [of _ post]) simp
  qed
qed

lemma portal_re_search_complete:
  "portal_re_at (drop i s) = Some m' \<Longrightarrow> \<exists>m. portal_re_search s = Some m"
proof (induction s arbitrary: i)
  case Nil
  then show ?case by simp
next
  case (Cons c cs)
  then show ?case
    by (cases i; cases "portal_re_at (c # cs)") (auto simp del: portal_re_search.simps(1))
qed

lemma portal_re_search_Some:
  "(\<exists>m. portal_re_search s = Some m) \<longleftrightarrow>
     (\<exists>pre l post. s = pre @ ''https://'' @ l @ ''.awsapps.com/start'' @ post \<and> (\<forall>c \<in> set l. re_label_char c))"
proof
  assume "\<exists>m. portal_re_search s = Some m"
  then obtain m pre post where "s = pre @ m @ post" "portal_re_at (m @ post) = Some m"
    using portal_re_search_leftmost by blast
  then show "\<exists>pre l post. s = pre @ ''https://'' @ l @ ''.awsapps.com/start'' @ post \<and>
               (\<forall>c \<in> set l. re_label_char c)"
    unfolding portal_re_at_Some by (metis append.assoc)
next
  assume "\<exists>pre l post. s = pre @ ''https://'' @ l @ ''.awsapps.com/start'' @ post \<and>
            (\<forall>c \<in> set l. re_label_char c)"
  then obtain pre l post where "s = pre @ ''https://'' @ l @ ''.awsapps.com/start'' @ post"
      "\<forall>c \<in> set l. re_label_char c"
    by blast
  then have "portal_re_at (drop (length pre) s) = Some (''https://'' @ l @ ''.awsapps.com/start'')"
    unfolding portal_re_at_Some by auto
  then show "\<exists>m. portal_re_search s = Some m"
    by (rule portal_re_search_complete)
qed

lemma isValidPortalURL_truthy:
  "(\<exists>v. isValidPortalURL (JStr s) = Inr v \<and> js_truthy v) \<longleftrightarrow>
     s = primary_portal \<or> (\<exists>m. portal_re_search s = Some m)"
  by (auto simp: isValidPortalURL_def js_match_portal_re_def split: option.splits)

text \<open>C12: \<open>PORTAL_VALIDATORS.isValidPortalURL\<close> returns a truthy value for a string
  exactly when it is the designated address or contains, anywhere, \<open>https://\<close>, a run
  of \<open>[a-z0-9-]\<close> (possibly empty) and \<open>.awsapps.com/start\<close>: the expression is
  not anchored, so what precedes and follows the match, the real host included, is
  never looked at.\<close>

theorem isValidPortalURL_accepts:
  "(\<exists>v. isValidPortalURL (JStr s) = Inr v \<and> js_truthy v) \<longleftrightarrow>
     s = primary_portal \<or>
     (\<exists>pre l post. s = pre @ ''https://'' @ l @ ''.awsapps.com/start'' @ post \<and> (\<forall>c \<in> set l. re_label_char c))"
  by (simp only: isValidPortalURL_truthy portal_re_search_Some)

lemma portal_re_search_first:
  "i \<le> length s \<Longrightarrow> portal_re_at (drop i s) = Some m \<Longrightarrow>
   \<forall>j < i. portal_re_at (drop j s) = None \<Longrightarrow> portal_re_search s = Some m"
proof (induction s arbitrary: i)
  case Nil
  then show ?case by simp
next
  case (Cons c cs)
  show ?case
  proof (cases i)
    case 0
    with Cons.prems(2) show ?thesis by simp
  next
    case (Suc k)
    have "portal_re_at (c # cs) = None"
      using Cons.prems(3) Suc by (metis drop0 zero_less_Suc)
    moreover have "\<forall>j < k. portal_re_at (drop j cs) = None"
    proof (intro allI impI)
      fix j
      assume "j < k"
      then have "Suc j < i" using Suc by simp
      then show "portal_re_at (drop j cs) = None"
        using Cons.prems(3) by (metis drop_Suc_Cons)
    qed
    then have "portal_re_search cs = Some m"
      using Cons.prems(1,2) Suc by (intro Cons.IH [of k]) auto
    ultimately show ?thesis by simp
  qed
qed


subsection \<open>The domain checks and the exceptions\<close>

text \<open>C13: on strings, \<open>isValidPortalDomain\<close> is \<open>endsWith('.awsapps.com')\<close>: its
  comparison with \<open>internal.awsapps.com\<close> is subsumed, and the parent domain
  \<open>awsapps.com\<close> itself is rejected.\<close>

theorem isValidPortalDomain_string:
  "isValidPortalDomain (JStr d) = Inr (JBool (suffix ''.awsapps.com'' d))"
  by (simp add: isValidPortalDomain_def suffix_to_prefix)

text \<open>C14: \<open>isValidPortalURL\<close> throws exactly for the arguments that are not strings,
  \<open>undefined\<close> and \<open>null\<close> included, since \<open>match\<close> is a string method.\<close>

theorem isValidPortalURL_error:
  "(\<exists>e. isValidPortalURL v = Inl e) \<longleftrightarrow> (\<forall>s. v \<noteq> JStr s)"
  by (cases v) (auto simp: isValidPortalURL_def js_match_portal_re_def)

section \<open>Witnesses\<close>

theorem isValidPortalURL_accepts_witness:
  "\<exists>v. isValidPortalURL (JStr ''https://evil.example/?https://x.awsapps.com/start'') = Inr v \<and> js_truthy v"
proof -
  have "''https://evil.example/?https://x.awsapps.com/start'' =
          ''https://evil.example/?'' @ ''https://'' @ ''x'' @ ''.awsapps.com/start'' @ []"
    by simp
  moreover have "\<forall>c \<in> set ''x''. re_label_char c"
    by (simp add: re_label_char_def)
  ultimately show ?thesis
    using isValidPortalURL_accepts [of "''https://evil.example/?https://x.awsapps.com/start''"]
    by blast
qed


end
