(* ===== verification/Api.thy ===== *)
theory Api
  imports Prelude
begin

text \<open>
  The module \<open>src/aws-portal-api.js\<close>. Its two configuration objects; the class
  \<open>AWSPortalAPIClient\<close> as a record of its fields, with \<open>buildEndpointURL\<close>, the
  request configuration \<open>makeRequest\<close> builds, and \<open>makeRequest\<close> and the three
  \<open>getPortal*\<close> methods over the platform's \<open>fetch\<close>, which is a parameter: a function
  from the address and the request configuration to a response or the exception the
  returned promise rejects with. The \<open>async\<close> methods are modelled by the values
  their promises settle with (\<open>Inr\<close> resolved, \<open>Inl\<close> rejected). The class
  \<open>PortalRequestBuilder\<close> is a record of its fields and one step per chained call,
  with a run over a list of calls and the reachable states as an inductive set.
\<close>

section \<open>Configuration objects\<close>

definition AWS_PORTAL_API_endpoints :: js_object where
  "AWS_PORTAL_API_endpoints =
     [(''portal'', JStr primary_portal), (''access'', JStr primary_portal),
      (''identity_center'', JStr primary_portal), (''home'', JStr primary_portal),
      (''sso'', JStr primary_portal), (''applications'', JStr primary_portal),
      (''users'', JStr ''/users''), (''groups'', JStr ''/groups''), (''sessions'', JStr ''/sessions'')]"

definition AWS_PORTAL_API :: js_object where
  "AWS_PORTAL_API =
     [(''BASE_URL'', JStr ''https://internal.awsapps.com''), (''MAIN_ENDPOINT'', JStr primary_portal),
      (''PORTAL_ENDPOINT'', JStr primary_portal), (''API_ROOT'', JStr ''https://internal.awsapps.com/api''),
      (''HOME'', JStr primary_portal), (''endpoints'', JObj AWS_PORTAL_API_endpoints)]"

definition AWS_PORTAL_CONFIG :: js_object where
  "AWS_PORTAL_CONFIG =
     [(''timeout'', JNum 30000),
      (''headers'', JObj [(''Content-Type'', JStr ''application/json''), (''Accept'', JStr ''application/json'')]),
      (''portal'', JObj [(''url'', JStr primary_portal), (''domain'', JStr primary_host),
                        (''name'', JStr ''AWS IAM Identity Center Portal'')]),
      (''request'', JObj [(''method'', JStr ''GET''), (''timeout'', JNum 30000), (''retries'', JNum 3)]),
      (''response'', JObj [(''timeout'', JNum 30000), (''format'', JStr ''json'')])]"

section \<open>\<open>AWSPortalAPIClient\<close>\<close>

record api_client =
  portalURL :: string
  baseURL :: string
  client_domain :: string
  client_config :: js_object
  client_timeout :: jsv

definition new_AWSPortalAPIClient :: api_client where
  "new_AWSPortalAPIClient =
     \<lparr>portalURL = primary_portal, baseURL = ''https://internal.awsapps.com'',
      client_domain = primary_host, client_config = AWS_PORTAL_CONFIG, client_timeout = JNum 30000\<rparr>"

text \<open>The two getters return literals, not the fields.\<close>

definition getPortalURL :: "api_client \<Rightarrow> string" where
  "getPortalURL c = primary_portal"

definition getPortalDomain :: "api_client \<Rightarrow> string" where
  "getPortalDomain c = primary_host"

text \<open>The base address is a literal of the method, not the field \<open>this.baseURL\<close>.\<close>

definition buildEndpointURL :: "api_client \<Rightarrow> jsv \<Rightarrow> string" where
  "buildEndpointURL c endpoint = ''https://internal.awsapps.com'' @ js_to_string endpoint"

text \<open>The configuration passed to \<open>fetch\<close>; \<^const>\<open>None\<close> for a body that is absent
  (also when \<open>JSON.stringify\<close> gives \<open>undefined\<close>).\<close>

record request_config =
  rc_method :: jsv
  rc_headers :: js_object
  rc_timeout :: jsv
  rc_body :: "string option"

record response =
  status :: int
  json_result :: "jsv js_result"

text \<open>\<open>response.ok\<close>: a status in the range 200--299.\<close>

definition response_ok :: "response \<Rightarrow> bool" where
  "response_ok r \<longleftrightarrow> 200 \<le> status r \<and> status r \<le> 299"

type_synonym fetch_fn = "string \<Rightarrow> request_config \<Rightarrow> response js_result"

text \<open>Lines 187--195 of \<open>makeRequest\<close>: the options default to \<open>{}\<close> when
  \<open>undefined\<close>; reading a property of \<open>null\<close> throws.\<close>

definition makeRequest_config :: "api_client \<Rightarrow> jsv \<Rightarrow> request_config js_result" where
  "makeRequest_config c options0 =
     (let options = js_default options0 (JObj []) in
      case js_get options ''method'' of Inl e \<Rightarrow> Inl e | Inr m \<Rightarrow>
      case js_get options ''headers'' of Inl e \<Rightarrow> Inl e | Inr h \<Rightarrow>
      case js_get options ''timeout'' of Inl e \<Rightarrow> Inl e | Inr t \<Rightarrow>
      case js_get options ''body'' of Inl e \<Rightarrow> Inl e | Inr b \<Rightarrow>
        Inr \<lparr>rc_method = js_or m (JStr ''GET''),
             rc_headers = js_merge (js_spread (obj_lookup (client_config c) ''headers'')) (js_spread h),
             rc_timeout = js_or t (client_timeout c),
             rc_body = (if js_truthy b then js_stringify b else None)\<rparr>)"

definition makeRequest :: "fetch_fn \<Rightarrow> api_client \<Rightarrow> jsv \<Rightarrow> jsv \<Rightarrow> response js_result" where
  "makeRequest fetch c endpoint options =
     (let url = buildEndpointURL c endpoint in
      case makeRequest_config c options of
        Inl e \<Rightarrow> Inl e
      | Inr requestConfig \<Rightarrow>
          (case fetch url requestConfig of Inl e \<Rightarrow> Inl e | Inr response \<Rightarrow> Inr response))"

text \<open>The three readers: one request, then \<open>response.json()\<close>; both rejections
  propagate.\<close>

definition getPortalResource :: "fetch_fn \<Rightarrow> api_client \<Rightarrow> string \<Rightarrow> jsv js_result" where
  "getPortalResource fetch c path =
     (case makeRequest fetch c (JStr path) JUndef of
        Inl e \<Rightarrow> Inl e
      | Inr response \<Rightarrow> json_result response)"

definition getPortalApplications :: "fetch_fn \<Rightarrow> api_client \<Rightarrow> jsv js_result" where
  "getPortalApplications fetch c = getPortalResource fetch c ''/applications''"

definition getPortalUsers :: "fetch_fn \<Rightarrow> api_client \<Rightarrow> jsv js_result" where
  "getPortalUsers fetch c = getPortalResource fetch c ''/users''"

definition getPortalSessions :: "fetch_fn \<Rightarrow> api_client \<Rightarrow> jsv js_result" where
  "getPortalSessions fetch c = getPortalResource fetch c ''/sessions''"

text \<open>A \<open>HEAD\<close> request to the designated address; any rejection gives \<open>false\<close>.\<close>

definition validatePortalAccessibility :: "fetch_fn \<Rightarrow> api_client \<Rightarrow> bool js_result" where
  "validatePortalAccessibility fetch c =
     (case fetch primary_portal \<lparr>rc_method = JStr ''HEAD'', rc_headers = [], rc_timeout = JNum 10000,
                                  rc_body = None\<rparr> of
        Inl _ \<Rightarrow> Inr False
      | Inr response \<Rightarrow> Inr (response_ok response))"

definition getPortalMetadata :: "api_client \<Rightarrow> js_object" where
  "getPortalMetadata c =
     [(''portal_url'', JStr primary_portal), (''domain'', JStr primary_host),
      (''name'', JStr ''AWS IAM Identity Center Portal''),
      (''description'', JStr ''Main AWS access portal at https://internal.awsapps.com/start''),
      (''base_url'', JStr ''https://internal.awsapps.com''),
      (''endpoints'', JObj AWS_PORTAL_API_endpoints)]"

section \<open>\<open>PortalRequestBuilder\<close>\<close>

record portal_request =
  req_method :: string
  req_url :: string
  req_endpoint :: jsv
  req_body :: "jsv option"

text \<open>\<open>headers\<close> is \<^const>\<open>None\<close> until the first \<open>header\<close> call creates it.\<close>

record request_builder =
  b_portalURL :: string
  b_baseURL :: string
  requests :: "portal_request list"
  b_headers :: "js_object option"

definition new_PortalRequestBuilder :: request_builder where
  "new_PortalRequestBuilder =
     \<lparr>b_portalURL = primary_portal, b_baseURL = ''https://internal.awsapps.com'', requests = [],
      b_headers = None\<rparr>"

definition builder_get :: "request_builder \<Rightarrow> jsv \<Rightarrow> request_builder" where
  "builder_get b endpoint =
     b\<lparr>requests := requests b @
        [\<lparr>req_method = ''GET'', req_url = b_baseURL b @ js_to_string endpoint,
          req_endpoint = endpoint, req_body = None\<rparr>]\<rparr>"

definition builder_post :: "request_builder \<Rightarrow> jsv \<Rightarrow> jsv \<Rightarrow> request_builder" where
  "builder_post b endpoint body =
     b\<lparr>requests := requests b @
        [\<lparr>req_method = ''POST'', req_url = b_baseURL b @ js_to_string endpoint,
          req_endpoint = endpoint, req_body = Some body\<rparr>]\<rparr>"

text \<open>\<open>this.headers[key] = value\<close>: the key is converted to a string; assigning to
  \<open>__proto__\<close> changes the prototype, not the own properties.\<close>

definition builder_header :: "request_builder \<Rightarrow> jsv \<Rightarrow> jsv \<Rightarrow> request_builder" where
  "builder_header b key value =
     (let hs = (case b_headers b of None \<Rightarrow> [] | Some hs \<Rightarrow> hs);
          k = js_to_string key
      in b\<lparr>b_headers := Some (if k = ''__proto__'' then hs else js_set hs k value)\<rparr>)"

record built_request =
  built_portal :: string
  built_domain :: string
  built_requests :: "portal_request list"
  built_headers :: js_object

definition builder_build :: "request_builder \<Rightarrow> built_request" where
  "builder_build b =
     \<lparr>built_portal = primary_portal, built_domain = primary_host, built_requests = requests b,
      built_headers = (case b_headers b of None \<Rightarrow> [] | Some hs \<Rightarrow> hs)\<rparr>"

datatype builder_call = Get jsv | Post jsv jsv | Header jsv jsv

fun builder_step :: "request_builder \<Rightarrow> builder_call \<Rightarrow> request_builder" where
  "builder_step b (Get e) = builder_get b e"
| "builder_step b (Post e body) = builder_post b e body"
| "builder_step b (Header k v) = builder_header b k v"

text \<open>A chain \<open>b.f1(..).f2(..)...\<close>: each call returns the builder itself.\<close>

definition builder_run :: "request_builder \<Rightarrow> builder_call list \<Rightarrow> request_builder" where
  "builder_run b calls = fold (\<lambda>call b. builder_step b call) calls b"

inductive builder_reachable :: "request_builder \<Rightarrow> bool" where
  init: "builder_reachable new_PortalRequestBuilder"
| step: "builder_reachable b \<Longrightarrow> builder_reachable (builder_step b call)"


section \<open>Module-level helpers\<close>

definition createPortalAPIClient :: api_client where
  "createPortalAPIClient = new_AWSPortalAPIClient"

definition getPortalAPIInfo :: js_object where
  "getPortalAPIInfo =
     [(''portal'', JStr primary_portal), (''domain'', JStr primary_host),
      (''base_url'', JStr ''https://internal.awsapps.com''),
      (''endpoints'', JObj AWS_PORTAL_API_endpoints), (''config'', JObj AWS_PORTAL_CONFIG)]"

text \<open>\<open>testPortalConnectivity\<close>: the object \<open>results.tests\<close> is filled by the two
  tests inside a \<open>try\<close>; a rejection of the first leaves it empty (the \<open>catch\<close>
  branch only logs).\<close>

definition testPortalConnectivity :: "fetch_fn \<Rightarrow> js_object" where
  "testPortalConnectivity fetch =
     (let client = createPortalAPIClient;
          tests = (case validatePortalAccessibility fetch client of
                     Inl _ \<Rightarrow> []
                   | Inr b \<Rightarrow> [(''accessibility'', JBool b), (''metadata'', JObj (getPortalMetadata client))])
      in [(''portal'', JStr primary_portal), (''domain'', JStr primary_host), (''tests'', JObj tests)])"

section \<open>Specification of the builder\<close>

text \<open>The request a chained call records, if any; the values written to a header
  key, in call order; and the invariant of every builder state.\<close>

definition call_request :: "string \<Rightarrow> builder_call \<Rightarrow> portal_request option" where
  "call_request base call =
     (case call of
        Get e \<Rightarrow> Some \<lparr>req_method = ''GET'', req_url = base @ js_to_string e, req_endpoint = e, req_body = None\<rparr>
      | Post e body \<Rightarrow>
          Some \<lparr>req_method = ''POST'', req_url = base @ js_to_string e, req_endpoint = e, req_body = Some body\<rparr>
      | Header _ _ \<Rightarrow> None)"

definition header_writes :: "string \<Rightarrow> builder_call list \<Rightarrow> jsv list" where
  "header_writes k calls = [v. Header k' v \<leftarrow> calls, js_to_string k' = k]"

definition builder_inv :: "request_builder \<Rightarrow> bool" where
  "builder_inv b \<longleftrightarrow>
     b_baseURL b = ''https://internal.awsapps.com'' \<and> b_portalURL b = primary_portal \<and>
     (\<forall>r \<in> set (requests b).
        req_url r = b_baseURL b @ js_to_string (req_endpoint r) \<and>
        (req_method r = ''GET'' \<and> req_body r = None \<or> req_method r = ''POST'' \<and> req_body r \<noteq> None)) \<and>
     (case b_headers b of None \<Rightarrow> True
      | Some hs \<Rightarrow> distinct (map fst hs) \<and> ''__proto__'' \<notin> fst ` set hs)"

definition builder_headers :: "request_builder \<Rightarrow> js_object" where
  "builder_headers b = (case b_headers b of None \<Rightarrow> [] | Some hs \<Rightarrow> hs)"

section \<open>Properties of the client\<close>

lemma makeRequest_config_undefined:
  "makeRequest_config c JUndef =
     Inr \<lparr>rc_method = JStr ''GET'', rc_headers = js_spread (obj_lookup (client_config c) ''headers''),
          rc_timeout = client_timeout c, rc_body = None\<rparr>"
  by (simp add: makeRequest_config_def obj_lookup_def object_proto_keys_def js_or_def)

lemma getPortalResource_eq:
  "getPortalResource fetch c path =
     (case fetch (''https://internal.awsapps.com'' @ path)
             \<lparr>rc_method = JStr ''GET'', rc_headers = js_spread (obj_lookup (client_config c) ''headers''),
              rc_timeout = client_timeout c, rc_body = None\<rparr> of
        Inl e \<Rightarrow> Inl e | Inr r \<Rightarrow> json_result r)"
  by (simp add: getPortalResource_def makeRequest_def makeRequest_config_undefined buildEndpointURL_def
      split: sum.split)

text \<open>C18. \<open>makeRequest\<close> with an options object always yields a request
  configuration: the method is \<open>options.method || 'GET'\<close>, the timeout
  \<open>options.timeout || this.timeout\<close>, and a header is the caller's value when the
  caller gives one, else the client's default.\<close>

theorem makeRequest_config_object:
  "\<exists>cfg. makeRequest_config c (JObj opts) = Inr cfg \<and>
     rc_method cfg = js_or (obj_lookup opts ''method'') (JStr ''GET'') \<and>
     rc_timeout cfg = js_or (obj_lookup opts ''timeout'') (client_timeout c) \<and>
     (\<forall>k. map_of (rc_headers cfg) k =
            (case map_of (rev (js_spread (obj_lookup opts ''headers''))) k of
               Some v \<Rightarrow> Some v
             | None \<Rightarrow> map_of (js_spread (obj_lookup (client_config c) ''headers'')) k))"
  by (simp add: makeRequest_config_def map_of_js_merge)

lemma js_stringify_falsy:
  "\<not> js_truthy v \<Longrightarrow> v \<noteq> JUndef \<Longrightarrow> \<exists>json. js_stringify v = Some json"
  by (cases v) auto

text \<open>C19. Falsy options are silently replaced: a falsy method gives \<open>GET\<close>, a falsy
  timeout the client's timeout, and a falsy body no body at all, although
  \<open>JSON.stringify\<close> has a text for every falsy value but \<open>undefined\<close>
  (\<open>0\<close>, \<open>false\<close>, \<open>''\<close>, \<open>null\<close>); a truthy body is sent as its JSON text.\<close>

theorem makeRequest_falsy_options_ignored:
  "\<exists>cfg. makeRequest_config c (JObj opts) = Inr cfg \<and>
     (\<not> js_truthy (obj_lookup opts ''method'') \<longrightarrow> rc_method cfg = JStr ''GET'') \<and>
     (\<not> js_truthy (obj_lookup opts ''timeout'') \<longrightarrow> rc_timeout cfg = client_timeout c) \<and>
     (js_truthy (obj_lookup opts ''body'') \<longrightarrow> rc_body cfg = js_stringify (obj_lookup opts ''body'')) \<and>
     (\<not> js_truthy (obj_lookup opts ''body'') \<longrightarrow>
        rc_body cfg = None \<and>
        (obj_lookup opts ''body'' \<noteq> JUndef \<longrightarrow> (\<exists>json. js_stringify (obj_lookup opts ''body'') = Some json)))"
  using js_stringify_falsy by (simp add: makeRequest_config_def js_or_def)

text \<open>C20. \<open>makeRequest\<close> rejects exactly when reading the options throws (as for
  \<open>null\<close>) or \<open>fetch\<close> rejects, with that exception.\<close>

theorem makeRequest_errors:
  "makeRequest fetch c e JNull = Inl (TypeError ''Cannot read properties of null (reading method)'') \<and>
   (makeRequest fetch c e opts = Inl err \<longleftrightarrow>
      makeRequest_config c opts = Inl err \<or>
      (\<exists>cfg. makeRequest_config c opts = Inr cfg \<and> fetch (buildEndpointURL c e) cfg = Inl err))"
  by (auto simp: makeRequest_def makeRequest_config_def js_default_def split: sum.splits)

text \<open>C21. The three readers issue one \<open>GET\<close> to the base address followed by their
  path, with the client's default headers and timeout, and return the parsed body.\<close>

theorem getPortal_readers:
  fixes fetch :: fetch_fn and c :: api_client
  defines "cfg \<equiv> \<lparr>rc_method = JStr ''GET'', rc_headers = js_spread (obj_lookup (client_config c) ''headers''),
                  rc_timeout = client_timeout c, rc_body = None\<rparr>"
  shows "getPortalApplications fetch c =
           (case fetch ''https://internal.awsapps.com/applications'' cfg of
              Inl e \<Rightarrow> Inl e | Inr r \<Rightarrow> json_result r) \<and>
         getPortalUsers fetch c =
           (case fetch ''https://internal.awsapps.com/users'' cfg of
              Inl e \<Rightarrow> Inl e | Inr r \<Rightarrow> json_result r) \<and>
         getPortalSessions fetch c =
           (case fetch ''https://internal.awsapps.com/sessions'' cfg of
              Inl e \<Rightarrow> Inl e | Inr r \<Rightarrow> json_result r)"
  by (simp add: cfg_def getPortalApplications_def getPortalUsers_def getPortalSessions_def
      getPortalResource_eq)

text \<open>C22. \<open>validatePortalAccessibility\<close> never rejects, and it resolves to
  \<open>true\<close> exactly when the \<open>HEAD\<close> request succeeds with an ok status.\<close>

theorem validatePortalAccessibility_total:
  "(\<exists>b. validatePortalAccessibility fetch c = Inr b) \<and>
   (validatePortalAccessibility fetch c = Inr True \<longleftrightarrow>
      (\<exists>r. fetch primary_portal \<lparr>rc_method = JStr ''HEAD'', rc_headers = [], rc_timeout = JNum 10000,
                                 rc_body = None\<rparr> = Inr r \<and> response_ok r))"
  by (auto simp: validatePortalAccessibility_def split: sum.splits)

text \<open>C23. \<open>testPortalConnectivity\<close> always completes both tests: its \<open>catch\<close>
  branch is unreachable.\<close>

theorem testPortalConnectivity_complete:
  "\<exists>b. testPortalConnectivity fetch =
     [(''portal'', JStr primary_portal), (''domain'', JStr primary_host),
      (''tests'', JObj [(''accessibility'', JBool b),
                       (''metadata'', JObj (getPortalMetadata createPortalAPIClient))])]"
  by (auto simp: testPortalConnectivity_def validatePortalAccessibility_def split: sum.splits)


lemma makeRequest_header_number:
  "makeRequest_config new_AWSPortalAPIClient (JObj [(''headers'', JObj [(''X-Retry'', JNum 1)])]) =
     Inr \<lparr>rc_method = JStr ''GET'',
          rc_headers = [(''Content-Type'', JStr ''application/json''), (''Accept'', JStr ''application/json''),
                        (''X-Retry'', JNum 1)],
          rc_timeout = JNum 30000, rc_body = None\<rparr>"
  by code_simp


section \<open>Properties of the builder\<close>

lemma builder_step_fields [simp]:
  "b_baseURL (builder_step b call) = b_baseURL b"
  "b_portalURL (builder_step b call) = b_portalURL b"
  by (cases call; simp add: builder_get_def builder_post_def builder_header_def Let_def)+

lemma builder_step_requests:
  "requests (builder_step b call) = requests b @ List.map_filter (call_request (b_baseURL b)) [call]"
  by (cases call) (simp_all add: builder_get_def builder_post_def builder_header_def Let_def
      call_request_def map_filter_simps)

lemma builder_step_inv: "builder_inv b \<Longrightarrow> builder_inv (builder_step b call)"
proof (cases call)
  case (Header k v)
  assume "builder_inv b"
  then show ?thesis
    using Header distinct_js_set
    by (auto simp: builder_inv_def builder_header_def Let_def split: option.splits)
qed (auto simp: builder_inv_def builder_get_def builder_post_def)

lemma builder_run_snoc:
  "builder_run b (calls @ [call]) = builder_step (builder_run b calls) call"
  by (simp add: builder_run_def)

lemma builder_reachable_run: "builder_reachable (builder_run new_PortalRequestBuilder calls)"
proof (induction calls rule: rev_induct)
  case Nil
  then show ?case by (simp add: builder_run_def builder_reachable.init)
next
  case (snoc call calls)
  then show ?case by (simp add: builder_run_snoc builder_reachable.step)
qed

text \<open>C24. Every builder reachable from the constructor by chained calls keeps
  its addresses, records each request at the base address followed by its endpoint,
  a \<open>GET\<close> without and a \<open>POST\<close> with a body, and has distinct header keys.\<close>

theorem builder_reachable_inv:
  "builder_reachable b \<Longrightarrow> builder_inv b"
proof (induction rule: builder_reachable.induct)
  case init
  show ?case
    by (simp add: builder_inv_def new_PortalRequestBuilder_def)
next
  case (step b call)
  from step.IH show ?case by (rule builder_step_inv)
qed

theorem builder_reachable_inv_witness:
  "builder_reachable (builder_run new_PortalRequestBuilder
     [Get (JStr ''/applications''), Header (JStr ''X'') (JNum 1), Post (JStr ''/sessions'') JNull]) \<and>
   builder_inv (builder_run new_PortalRequestBuilder
     [Get (JStr ''/applications''), Header (JStr ''X'') (JNum 1), Post (JStr ''/sessions'') JNull])"
  using builder_reachable_inv builder_reachable_run by blast

text \<open>C25. A chain of calls appends its requests in call order, one per
  \<open>get\<close> or \<open>post\<close>.\<close>

theorem builder_run_requests:
  "requests (builder_run b calls) = requests b @ List.map_filter (call_request (b_baseURL b)) calls"
proof (induction calls arbitrary: b)
  case Nil
  then show ?case by (simp add: builder_run_def map_filter_simps)
next
  case (Cons call calls)
  have "requests (builder_run b (call # calls)) = requests (builder_run (builder_step b call) calls)"
    by (simp add: builder_run_def)
  also have "\<dots> = requests b @ List.map_filter (call_request (b_baseURL b)) (call # calls)"
    using Cons.IH [of "builder_step b call"]
    by (simp add: builder_step_requests map_filter_def)
  finally show ?case .
qed

lemma header_writes_simps [simp]:
  "header_writes k [] = []"
  "header_writes k (Header k' v # calls) =
     (if js_to_string k' = k then v # header_writes k calls else header_writes k calls)"
  "header_writes k (Get e # calls) = header_writes k calls"
  "header_writes k (Post e body # calls) = header_writes k calls"
  by (simp_all add: header_writes_def)

lemma header_writes_append [simp]:
  "header_writes k (xs @ ys) = header_writes k xs @ header_writes k ys"
  by (simp add: header_writes_def)

lemma builder_step_headers:
  "k \<noteq> ''__proto__'' \<Longrightarrow>
   map_of (builder_headers (builder_step b call)) k =
     (case header_writes k [call] of [] \<Rightarrow> map_of (builder_headers b) k | v # _ \<Rightarrow> Some v)"
  by (cases call) (auto simp: builder_headers_def builder_get_def builder_post_def builder_header_def
      Let_def split: option.splits)

lemma builder_run_headers:
  assumes "k \<noteq> ''__proto__''"
  shows "map_of (builder_headers (builder_run b calls)) k =
           (if header_writes k calls = [] then map_of (builder_headers b) k
            else Some (last (header_writes k calls)))"
proof (induction calls rule: rev_induct)
  case Nil
  then show ?case by (simp add: builder_run_def)
next
  case (snoc call calls)
  then show ?case
    using builder_step_headers [OF assms, of "builder_run b calls" call]
    by (cases call) (auto simp: builder_run_snoc)
qed

lemma builder_reachable_iff_run:
  "builder_reachable b \<longleftrightarrow> (\<exists>calls. b = builder_run new_PortalRequestBuilder calls)"
proof
  assume "builder_reachable b"
  then show "\<exists>calls. b = builder_run new_PortalRequestBuilder calls"
  proof (induction rule: builder_reachable.induct)
    case init
    show ?case by (rule exI [of _ "[]"]) (simp add: builder_run_def)
  next
    case (step b call)
    then obtain calls where "b = builder_run new_PortalRequestBuilder calls" by blast
    then show ?case by (intro exI [of _ "calls @ [call]"]) (simp add: builder_run_snoc)
  qed
qed (auto simp: builder_reachable_run)

text \<open>C26. In the built request, a header key other than \<open>__proto__\<close> holds the
  last value written to it, and is absent when none was.\<close>

theorem built_headers_last_write:
  "k \<noteq> ''__proto__'' \<Longrightarrow>
   map_of (built_headers (builder_build (builder_run new_PortalRequestBuilder calls))) k =
     (if header_writes k calls = [] then None else Some (last (header_writes k calls)))"
  using builder_run_headers [of k new_PortalRequestBuilder calls]
  by (simp add: builder_build_def builder_headers_def new_PortalRequestBuilder_def)

theorem built_headers_last_write_witness:
  "map_of (built_headers (builder_build (builder_run new_PortalRequestBuilder
      [Header (JStr ''X'') (JNum 1), Get (JStr ''/a''), Header (JStr ''X'') (JNum 2)]))) ''X''
     = Some (JNum 2)"
  using built_headers_last_write [of "''X''" "[Header (JStr ''X'') (JNum 1), Get (JStr ''/a''), Header (JStr ''X'') (JNum 2)]"]
  by simp

theorem makeRequest_falsy_options_ignored_witness:
  "\<exists>cfg. makeRequest_config new_AWSPortalAPIClient
      (JObj [(''method'', JStr []), (''timeout'', JNum 0), (''body'', JNum 0)]) = Inr cfg \<and>
    rc_method cfg = JStr ''GET'' \<and> rc_timeout cfg = JNum 30000 \<and> rc_body cfg = None \<and>
    js_stringify (JNum 0) = Some ''0''"
  using makeRequest_falsy_options_ignored [of new_AWSPortalAPIClient
      "[(''method'', JStr []), (''timeout'', JNum 0), (''body'', JNum 0)]"]
  by (simp add: new_AWSPortalAPIClient_def AWS_PORTAL_CONFIG_def obj_lookup_def object_proto_keys_def
      js_simps)

end
