(* ===== verification/Modules.thy ===== *)
theory Modules
  imports Utilities Constants Api
begin

text \<open>
  The top-level code of the three files: what loading each one declares, assigns to
  the global object \<open>window\<close> and exports through \<open>module.exports\<close>. A host is
  either a browser page, where the files run as classic scripts sharing the global
  scope and \<open>window\<close> is the global object, or CommonJS (Node), where each file has
  its own scope, \<open>window\<close> is not defined and \<open>module\<close> is. Function values are
  named by \<^const>\<open>JFun\<close>.
\<close>

section \<open>Hosts and declarations\<close>

record host =
  window :: "js_object option"
  module_defined :: bool
  shared_scope :: bool
  lexical_names :: "string list"
  var_names :: "string list"

datatype module_file = Utilities_js | Constants_js | Api_js

text \<open>The \<open>const\<close> and \<open>class\<close> declarations of each file, in source order.\<close>

primrec module_lexical :: "module_file \<Rightarrow> string list" where
  "module_lexical Utilities_js =
     [''AWS_IDENTITY_CENTER'', ''AWS_DOMAINS'', ''AWS_PORTAL_URLS'', ''AWS_PORTAL_METADATA'']"
| "module_lexical Constants_js =
     [''PORTAL_URLS'', ''DOMAIN_CONSTANTS'', ''PATH_CONSTANTS'', ''PROTOCOL_CONSTANTS'', ''PORTAL_CONFIG'',
      ''PORTAL_ENDPOINTS'', ''PORTAL_FEATURES'', ''SUPPORTED_DOMAINS'', ''SUBDOMAIN_PATTERNS'', ''PORTAL_DOCS'',
      ''PORTAL_STATUS'', ''PORTAL_HEADERS'', ''PORTAL_TIMING'', ''PORTAL_VALIDATORS'']"
| "module_lexical Api_js =
     [''AWS_PORTAL_API'', ''AWS_PORTAL_CONFIG'', ''AWSPortalAPIClient'', ''PortalRequestBuilder'',
      ''portalAPIClient'']"

text \<open>The \<open>function\<close> declarations of each file, in source order.\<close>

primrec module_functions :: "module_file \<Rightarrow> string list" where
  "module_functions Utilities_js =
     [''isValidAWSPortalURL'', ''getAWSPortalURL'', ''normalizeAWSPortalURL'', ''isMainAWSPortal'',
      ''getAWSPortalDomain'', ''buildAWSPortalURL'', ''logAWSPortalInfo'', ''validateAWSPortalConfig'',
      ''navigateToAWSPortal'']"
| "module_functions Constants_js = []"
| "module_functions Api_js =
     [''createPortalAPIClient'', ''getPortalAPIInfo'', ''logPortalAPIInfo'', ''testPortalConnectivity'']"

definition function_bindings :: "string list \<Rightarrow> js_object" where
  "function_bindings fs = map (\<lambda>f. (f, JFun f)) fs"

text \<open>The checks of global declaration instantiation for a classic script: a
  \<open>const\<close> or \<open>class\<close> name already declared by an earlier script, or a
  \<open>function\<close> name already declared lexically, is the first name that makes the
  whole script fail with a \<open>SyntaxError\<close> before any of it runs.\<close>

definition redeclared :: "host \<Rightarrow> module_file \<Rightarrow> string option" where
  "redeclared h m =
     (case filter (\<lambda>n. n \<in> set (var_names h) \<or> n \<in> set (lexical_names h)) (module_lexical m) of
        n # _ \<Rightarrow> Some n
      | [] \<Rightarrow>
          (case filter (\<lambda>n. n \<in> set (lexical_names h)) (module_functions m) of
             n # _ \<Rightarrow> Some n
           | [] \<Rightarrow> None))"

definition redeclaration_error :: "string \<Rightarrow> js_error" where
  "redeclaration_error n = SyntaxError (''Identifier '' @ n @ '' has already been declared'')"

text \<open>In a shared scope the declarations are recorded, and each function becomes a
  property of the global object, in source order; a CommonJS module declares in
  its own scope.\<close>

definition declare_globals :: "module_file \<Rightarrow> host \<Rightarrow> host js_result" where
  "declare_globals m h =
     (if \<not> shared_scope h then Inr h
      else case redeclared h m of
        Some n \<Rightarrow> Inl (redeclaration_error n)
      | None \<Rightarrow>
          Inr (h\<lparr>lexical_names := lexical_names h @ module_lexical m,
                 var_names := var_names h @ module_functions m,
                 window := map_option (\<lambda>w. js_merge w (function_bindings (module_functions m))) (window h)\<rparr>))"

section \<open>The top-level code of \<open>aws-utilities.js\<close>\<close>

text \<open>The names \<open>showAWSPortalHelp\<close> lists under "Available Functions" and
  "Configuration Objects".\<close>

definition help_functions :: "string list" where
  "help_functions =
     [''validateAWSPortalURL'', ''getAWSPortalURL'', ''normalizeAWSPortalURL'', ''isMainAWSPortal'',
      ''getAWSPortalDomain'', ''buildAWSPortalURL'', ''logAWSPortalInfo'', ''validateAWSPortalConfig'',
      ''navigateToAWSPortal'']"

definition help_objects :: "string list" where
  "help_objects = [''AWS_IDENTITY_CENTER'', ''AWS_DOMAINS'', ''AWS_PORTAL_URLS'', ''AWS_PORTAL_METADATA'']"

definition utilities_exports :: js_object where
  "utilities_exports =
     [(''AWS_IDENTITY_CENTER'', JObj AWS_IDENTITY_CENTER), (''AWS_DOMAINS'', JObj AWS_DOMAINS),
      (''AWS_PORTAL_URLS'', JObj AWS_PORTAL_URLS), (''AWS_PORTAL_METADATA'', JObj AWS_PORTAL_METADATA)]
     @ function_bindings
         [''isValidAWSPortalURL'', ''getAWSPortalURL'', ''normalizeAWSPortalURL'', ''isMainAWSPortal'',
          ''getAWSPortalDomain'', ''buildAWSPortalURL'', ''logAWSPortalInfo'', ''validateAWSPortalConfig'',
          ''navigateToAWSPortal'']"

text \<open>The assignment to \<open>window.showAWSPortalHelp\<close> is not guarded by
  \<open>typeof window\<close>: without a \<open>window\<close> it throws, and the rest of the file,
  the export included, never runs.\<close>

definition run_utilities :: "host \<Rightarrow> (host \<times> js_object option) js_result" where
  "run_utilities h =
     (case window h of
        None \<Rightarrow> Inl (ReferenceError ''window is not defined'')
      | Some w \<Rightarrow>
          (let w1 = js_set w ''showAWSPortalHelp'' (JFun ''showAWSPortalHelp'');
               w2 = js_set w1 ''awsPortalRef''
                      (JObj [(''main'', JStr primary_portal), (''validate'', JFun ''isValidAWSPortalURL''),
                             (''normalize'', JFun ''normalizeAWSPortalURL''),
                             (''navigate'', JFun ''navigateToAWSPortal''), (''info'', JFun ''logAWSPortalInfo''),
                             (''help'', obj_lookup w1 ''showAWSPortalHelp'')])
           in Inr (h\<lparr>window := Some w2\<rparr>, if module_defined h then Some utilities_exports else None)))"

section \<open>The top-level code of \<open>aws-portal-constants.js\<close>\<close>

definition PORTAL_VALIDATORS_object :: jsv where
  "PORTAL_VALIDATORS_object = JObj (map (\<lambda>(k, f). (k, JFun k)) PORTAL_VALIDATORS)"

text \<open>The fourteen constants, under their own names: the assignments to
  \<open>window\<close> and the shorthand properties of the export.\<close>

definition constants_exports :: js_object where
  "constants_exports =
     [(''PORTAL_URLS'', JObj PORTAL_URLS), (''DOMAIN_CONSTANTS'', JObj DOMAIN_CONSTANTS),
      (''PATH_CONSTANTS'', JObj PATH_CONSTANTS), (''PROTOCOL_CONSTANTS'', JObj PROTOCOL_CONSTANTS),
      (''PORTAL_CONFIG'', JObj PORTAL_CONFIG), (''PORTAL_ENDPOINTS'', JObj PORTAL_ENDPOINTS),
      (''PORTAL_FEATURES'', JObj PORTAL_FEATURES), (''SUPPORTED_DOMAINS'', JArr (map JStr SUPPORTED_DOMAINS)),
      (''SUBDOMAIN_PATTERNS'', JObj SUBDOMAIN_PATTERNS), (''PORTAL_DOCS'', JObj PORTAL_DOCS),
      (''PORTAL_STATUS'', JObj PORTAL_STATUS), (''PORTAL_HEADERS'', JObj PORTAL_HEADERS),
      (''PORTAL_TIMING'', JObj PORTAL_TIMING), (''PORTAL_VALIDATORS'', PORTAL_VALIDATORS_object)]"

definition AWS_PORTAL_CONSTANTS :: js_object where
  "AWS_PORTAL_CONSTANTS =
     [(''urls'', JObj PORTAL_URLS), (''domains'', JObj DOMAIN_CONSTANTS), (''paths'', JObj PATH_CONSTANTS),
      (''protocols'', JObj PROTOCOL_CONSTANTS), (''config'', JObj PORTAL_CONFIG),
      (''endpoints'', JObj PORTAL_ENDPOINTS), (''features'', JObj PORTAL_FEATURES),
      (''supportedDomains'', JArr (map JStr SUPPORTED_DOMAINS)), (''subdomainPatterns'', JObj SUBDOMAIN_PATTERNS),
      (''docs'', JObj PORTAL_DOCS), (''status'', JObj PORTAL_STATUS), (''headers'', JObj PORTAL_HEADERS),
      (''timing'', JObj PORTAL_TIMING), (''validators'', PORTAL_VALIDATORS_object)]"

definition constants_window :: js_object where
  "constants_window = constants_exports @ [(''AWS_PORTAL_CONSTANTS'', JObj AWS_PORTAL_CONSTANTS)]"

text \<open>Both blocks are guarded; the file never throws.\<close>

definition run_constants :: "host \<Rightarrow> (host \<times> js_object option) js_result" where
  "run_constants h =
     Inr (h\<lparr>window := map_option (\<lambda>w. js_merge w constants_window) (window h)\<rparr>,
          if module_defined h then Some constants_exports else None)"

section \<open>The top-level code of \<open>aws-portal-api.js\<close>\<close>

text \<open>An instance as the object of its own fields.\<close>

definition client_object :: "api_client \<Rightarrow> jsv" where
  "client_object c =
     JObj [(''portalURL'', JStr (portalURL c)), (''baseURL'', JStr (baseURL c)),
           (''domain'', JStr (client_domain c)), (''config'', JObj (client_config c)),
           (''timeout'', client_timeout c)]"

definition api_window :: "api_client \<Rightarrow> js_object" where
  "api_window client =
     [(''portalAPI'',
        JObj [(''client'', client_object client), (''createClient'', JFun ''createPortalAPIClient''),
              (''getInfo'', JFun ''getPortalAPIInfo''), (''logInfo'', JFun ''logPortalAPIInfo''),
              (''testConnectivity'', JFun ''testPortalConnectivity''),
              (''requestBuilder'', JFun ''PortalRequestBuilder'')]),
      (''AWS_PORTAL_API'', JObj AWS_PORTAL_API), (''AWS_PORTAL_CONFIG'', JObj AWS_PORTAL_CONFIG),
      (''AWSPortalAPIClient'', JFun ''AWSPortalAPIClient''), (''PortalRequestBuilder'', JFun ''PortalRequestBuilder'')]"

definition api_exports :: js_object where
  "api_exports =
     [(''AWS_PORTAL_API'', JObj AWS_PORTAL_API), (''AWS_PORTAL_CONFIG'', JObj AWS_PORTAL_CONFIG),
      (''AWSPortalAPIClient'', JFun ''AWSPortalAPIClient''), (''PortalRequestBuilder'', JFun ''PortalRequestBuilder'')]
     @ function_bindings
         [''createPortalAPIClient'', ''getPortalAPIInfo'', ''logPortalAPIInfo'', ''testPortalConnectivity'']"

text \<open>The global client \<open>portalAPIClient\<close> is created at load.\<close>

definition run_api :: "host \<Rightarrow> (host \<times> js_object option) js_result" where
  "run_api h =
     (let portalAPIClient = createPortalAPIClient
      in Inr (h\<lparr>window := map_option (\<lambda>w. js_merge w (api_window portalAPIClient)) (window h)\<rparr>,
              if module_defined h then Some api_exports else None))"

section \<open>Loading\<close>

primrec run_module :: "module_file \<Rightarrow> host \<Rightarrow> (host \<times> js_object option) js_result" where
  "run_module Utilities_js h = run_utilities h"
| "run_module Constants_js h = run_constants h"
| "run_module Api_js h = run_api h"

text \<open>A file is loaded by instantiating its declarations and running its body; the
  result is the host after it and the value of \<open>module.exports\<close>, if set.\<close>

definition load_module :: "module_file \<Rightarrow> host \<Rightarrow> (host \<times> js_object option) js_result" where
  "load_module m h =
     (case declare_globals m h of
        Inl e \<Rightarrow> Inl e
      | Inr h' \<Rightarrow> run_module m h')"

text \<open>A page loads its scripts in order; a script that throws is reported and the
  next one still runs.\<close>

fun load_page :: "module_file list \<Rightarrow> host \<Rightarrow> host \<times> js_error list" where
  "load_page [] h = (h, [])"
| "load_page (m # ms) h =
     (case load_module m h of
        Inl e \<Rightarrow> (let (h', es) = load_page ms h in (h', e # es))
      | Inr (h', _) \<Rightarrow> load_page ms h')"

definition browser_host :: "js_object \<Rightarrow> host" where
  "browser_host w =
     \<lparr>window = Some w, module_defined = False, shared_scope = True, lexical_names = [], var_names = []\<rparr>"

definition node_host :: host where
  "node_host =
     \<lparr>window = None, module_defined = True, shared_scope = False, lexical_names = [], var_names = []\<rparr>"

section \<open>Specification of a page\<close>

text \<open>The properties loading a file gives the global object of a page, in order:
  its functions, then its assignments to \<open>window\<close>.\<close>

primrec module_window :: "module_file \<Rightarrow> js_object" where
  "module_window Utilities_js =
     function_bindings (module_functions Utilities_js) @
     [(''showAWSPortalHelp'', JFun ''showAWSPortalHelp''),
      (''awsPortalRef'',
        JObj [(''main'', JStr primary_portal), (''validate'', JFun ''isValidAWSPortalURL''),
              (''normalize'', JFun ''normalizeAWSPortalURL''), (''navigate'', JFun ''navigateToAWSPortal''),
              (''info'', JFun ''logAWSPortalInfo''), (''help'', JFun ''showAWSPortalHelp'')])]"
| "module_window Constants_js = constants_window"
| "module_window Api_js = function_bindings (module_functions Api_js) @ api_window createPortalAPIClient"

text \<open>The page after the scripts of \<open>L\<close> loaded, each once.\<close>

definition page_state :: "js_object \<Rightarrow> module_file list \<Rightarrow> host" where
  "page_state w L =
     \<lparr>window = Some (js_merge w (concat (map module_window L))), module_defined = False, shared_scope = True,
      lexical_names = concat (map module_lexical L), var_names = concat (map module_functions L)\<rparr>"

definition all_modules :: "module_file list" where
  "all_modules = [Utilities_js, Constants_js, Api_js]"

text \<open>The globals of a page that loaded the files of \<open>S\<close>.\<close>

definition page_globals :: "module_file set \<Rightarrow> string \<Rightarrow> jsv option" where
  "page_globals S = map_of (concat (map module_window (filter (\<lambda>m. m \<in> S) all_modules)))"

text \<open>A name a script of the page can use: a global declaration or a property of
  the global object.\<close>

definition global_bound :: "host \<Rightarrow> string \<Rightarrow> bool" where
  "global_bound h n \<longleftrightarrow>
     n \<in> set (lexical_names h) \<or> (case window h of Some w \<Rightarrow> map_of w n \<noteq> None | None \<Rightarrow> False)"

section \<open>Properties of loading\<close>

lemma module_names_distinct:
  "distinct (concat (map (\<lambda>m. module_lexical m @ module_functions m) all_modules))"
  by (simp add: all_modules_def)

lemma module_window_keys_distinct:
  "distinct (concat (map (\<lambda>m. map fst (module_window m)) all_modules))"
  by (simp add: all_modules_def constants_window_def constants_exports_def api_window_def
      function_bindings_def)

lemma distinct_all_modules: "distinct all_modules"
  by (simp add: all_modules_def)

lemma in_all_modules [simp]: "m \<in> set all_modules"
  by (cases m) (simp_all add: all_modules_def)

lemma module_names_disjoint:
  "m \<noteq> m' \<Longrightarrow> set (module_lexical m @ module_functions m) \<inter> set (module_lexical m' @ module_functions m') = {}"
  using distinct_concat_map_disjoint [OF module_names_distinct] by simp

lemma module_lexical_hd: "module_lexical m = hd (module_lexical m) # tl (module_lexical m)"
  by (cases m) simp_all

lemma redeclared_page:
  "redeclared (page_state w L) m = (if m \<in> set L then Some (hd (module_lexical m)) else None)"
proof (cases "m \<in> set L")
  case True
  obtain n ns where ns: "module_lexical m = n # ns"
    using module_lexical_hd by blast
  have "n \<in> set (lexical_names (page_state w L))"
    using True ns by (force simp: page_state_def)
  then show ?thesis
    using True ns by (simp add: redeclared_def)
next
  case False
  then have "\<forall>m' \<in> set L. set (module_lexical m @ module_functions m) \<inter>
                           set (module_lexical m' @ module_functions m') = {}"
    using module_names_disjoint by metis
  then have "filter (\<lambda>n. n \<in> set (var_names (page_state w L)) \<or> n \<in> set (lexical_names (page_state w L)))
               (module_lexical m) = []"
            "filter (\<lambda>n. n \<in> set (lexical_names (page_state w L))) (module_functions m) = []"
    by (auto simp: page_state_def filter_empty_conv)
  then show ?thesis
    using False by (simp add: redeclared_def)
qed

lemma run_module_page:
  "window h = Some w \<Longrightarrow> \<not> module_defined h \<Longrightarrow>
   run_module m (h\<lparr>window := Some (js_merge w (function_bindings (module_functions m)))\<rparr>) =
     Inr (h\<lparr>window := Some (js_merge w (module_window m))\<rparr>, None)"
  by (cases m) (simp_all add: run_utilities_def run_constants_def run_api_def js_merge_append Let_def
      js_merge_def function_bindings_def)

lemma load_module_page:
  "load_module m (page_state w L) =
     (if m \<in> set L then Inl (redeclaration_error (hd (module_lexical m)))
      else Inr (page_state w (L @ [m]), None))"
proof -
  let ?h = "page_state w L\<lparr>lexical_names := lexical_names (page_state w L) @ module_lexical m,
                            var_names := var_names (page_state w L) @ module_functions m\<rparr>"
  have "run_module m (?h\<lparr>window := Some (js_merge (js_merge w (concat (map module_window L)))
                                          (function_bindings (module_functions m)))\<rparr>) =
        Inr (page_state w (L @ [m]), None)"
    by (subst run_module_page [where w = "js_merge w (concat (map module_window L))"])
       (simp_all add: page_state_def js_merge_append)
  then show ?thesis
    by (simp add: load_module_def declare_globals_def redeclared_page) (simp add: page_state_def)
qed

lemma load_page_state:
  "distinct L \<Longrightarrow>
   \<exists>L'. fst (load_page ms (page_state w L)) = page_state w L' \<and> distinct L' \<and>
        set L' = set L \<union> set ms \<and>
        length (snd (load_page ms (page_state w L))) + length L' = length L + length ms \<and>
        (\<forall>e \<in> set (snd (load_page ms (page_state w L))). \<exists>m. e = redeclaration_error (hd (module_lexical m)))"
proof (induction ms arbitrary: L)
  case Nil
  then show ?case by auto
next
  case (Cons m ms)
  show ?case
  proof (cases "m \<in> set L")
    case True
    then have "load_page (m # ms) (page_state w L) =
                 (fst (load_page ms (page_state w L)),
                  redeclaration_error (hd (module_lexical m)) # snd (load_page ms (page_state w L)))"
      by (simp add: load_module_page split: prod.split)
    with Cons.IH [OF Cons.prems] True show ?thesis
      by (auto simp: insert_absorb)
  next
    case False
    then have "load_page (m # ms) (page_state w L) = load_page ms (page_state w (L @ [m]))"
      by (simp add: load_module_page)
    moreover have "distinct (L @ [m])"
      using Cons.prems False by simp
    ultimately show ?thesis
      using Cons.IH [of "L @ [m]"] by auto
  qed
qed

lemma page_state_Nil: "page_state w [] = browser_host w"
  by (simp add: page_state_def browser_host_def js_merge_def)

lemma page_window_globals:
  "distinct L \<Longrightarrow> map_of (js_merge w (concat (map module_window L))) = map_of w ++ page_globals (set L)"
proof -
  assume L: "distinct L"
  have "distinct (map fst (concat (map module_window L)))"
    using distinct_concat_map_sub [OF module_window_keys_distinct L] by (simp add: map_concat comp_def subset_iff)
  moreover have "map_of (concat (map module_window L)) = page_globals (set L)"
    unfolding page_globals_def
    by (rule map_of_concat_set [OF module_window_keys_distinct]) (auto simp: L distinct_all_modules)
  ultimately show ?thesis
    by (simp add: map_of_js_merge_distinct)
qed

lemma load_page_browser:
  obtains L' where "fst (load_page ms (browser_host w)) = page_state w L'" "distinct L'" "set L' = set ms"
    "length (snd (load_page ms (browser_host w))) + length L' = length ms"
    "\<forall>e \<in> set (snd (load_page ms (browser_host w))). \<exists>m. e = redeclaration_error (hd (module_lexical m))"
  using load_page_state [of "[]" ms w] by (auto simp: page_state_Nil)

text \<open>C27. On a page, loading any sequence of the scripts leaves the global object
  with its earlier properties overridden by the globals of the files loaded; no
  script fails exactly when none is loaded twice, and each failure is the
  \<open>SyntaxError\<close> of a redeclared \<open>const\<close>.\<close>

theorem page_load_globals:
  "map_of (the (window (fst (load_page ms (browser_host w))))) = map_of w ++ page_globals (set ms) \<and>
   (snd (load_page ms (browser_host w)) = [] \<longleftrightarrow> distinct ms) \<and>
   (\<forall>e \<in> set (snd (load_page ms (browser_host w))). \<exists>m. e = redeclaration_error (hd (module_lexical m)))"
proof -
  obtain L' where L': "fst (load_page ms (browser_host w)) = page_state w L'" "distinct L'" "set L' = set ms"
    "length (snd (load_page ms (browser_host w))) + length L' = length ms"
    "\<forall>e \<in> set (snd (load_page ms (browser_host w))). \<exists>m. e = redeclaration_error (hd (module_lexical m))"
    by (rule load_page_browser)
  have "length L' = card (set ms)"
    using L'(2,3) distinct_card by metis
  then have "snd (load_page ms (browser_host w)) = [] \<longleftrightarrow> distinct ms"
    using L'(4) card_distinct distinct_card by fastforce
  then show ?thesis
    using L' page_window_globals [OF L'(2), of w] by (simp add: page_state_def)
qed

theorem page_load_globals_witness:
  "snd (load_page [Utilities_js, Utilities_js] (browser_host [])) \<noteq> [] \<and>
   (\<exists>m. hd (snd (load_page [Utilities_js, Utilities_js] (browser_host []))) =
          redeclaration_error (hd (module_lexical m)))"
proof -
  let ?es = "snd (load_page [Utilities_js, Utilities_js] (browser_host []))"
  have th: "(?es = [] \<longleftrightarrow> distinct [Utilities_js, Utilities_js]) \<and>
            (\<forall>e \<in> set ?es. \<exists>m. e = redeclaration_error (hd (module_lexical m)))"
    using page_load_globals [of "[Utilities_js, Utilities_js]" "[]"] by blast
  then have "?es \<noteq> []"
    by simp
  with th show ?thesis
    using hd_in_set by blast
qed

text \<open>C28. Wherever \<open>window\<close> is not defined (Node, a worker), loading
  \<open>aws-utilities.js\<close> throws: a \<open>ReferenceError\<close> at the unguarded assignment to
  \<open>window.showAWSPortalHelp\<close>, so its exports are never set. Under CommonJS (own
  scope) the other two files load, leave the host as it was and export their
  declarations exactly when \<open>module\<close> is defined.\<close>

theorem node_load:
  assumes "window h = None"
  shows "(\<exists>e. load_module Utilities_js h = Inl e) \<and>
         (\<not> shared_scope h \<longrightarrow>
            load_module Utilities_js h = Inl (ReferenceError ''window is not defined'') \<and>
            load_module Constants_js h = Inr (h, if module_defined h then Some constants_exports else None) \<and>
            load_module Api_js h = Inr (h, if module_defined h then Some api_exports else None))"
  using assms
  by (auto simp: load_module_def declare_globals_def run_utilities_def run_constants_def run_api_def
      split: option.splits)

theorem node_load_witness:
  "load_module Utilities_js node_host = Inl (ReferenceError ''window is not defined'') \<and>
   load_module Constants_js node_host = Inr (node_host, Some constants_exports) \<and>
   load_module Api_js node_host = Inr (node_host, Some api_exports)"
  using node_load [of node_host] by (simp add: node_host_def)

lemma global_bound_page:
  "distinct L \<Longrightarrow>
   global_bound (page_state w L) n \<longleftrightarrow>
     n \<in> (\<Union>m \<in> set L. set (module_lexical m)) \<or> map_of w n \<noteq> None \<or> page_globals (set L) n \<noteq> None"
  using page_window_globals [of L w]
  by (auto simp: global_bound_def page_state_def map_add_def split: option.split)

text \<open>C29. Of the names \<open>showAWSPortalHelp\<close> lists, exactly one is bound by none
  of the three scripts: \<open>validateAWSPortalURL\<close>, which the page has only if it had
  it before.\<close>

theorem help_names_unbound:
  "filter (\<lambda>n. \<not> global_bound (fst (load_page all_modules (browser_host w))) n) (help_functions @ help_objects) =
     (if map_of w ''validateAWSPortalURL'' = None then [''validateAWSPortalURL''] else [])"
proof -
  obtain L where L: "fst (load_page all_modules (browser_host w)) = page_state w L" "distinct L"
      "set L = set all_modules"
    by (rule load_page_browser)
  have "(\<Union>m \<in> set L. set (module_lexical m)) = set (concat (map module_lexical all_modules))"
    using L(3) by simp
  then show ?thesis
    using global_bound_page [OF L(2), of w] L(1,3)
    by (simp add: help_functions_def help_objects_def page_globals_def all_modules_def
        constants_window_def constants_exports_def api_window_def function_bindings_def)
qed

end
