(* ===== verification/Builder_Store.thy ===== *)
theory Builder_Store
  imports Api
begin

text \<open>
  \<open>PortalRequestBuilder\<close> over an explicit store: the array \<open>this.requests\<close> and
  the object \<open>this.headers\<close> are cells of a store addressed by references, so that
  what \<open>build()\<close> returns shares them with the builder, as in the source. The
  value model of \<open>Api\<close> is the abstraction of this one.
\<close>

section \<open>The store\<close>

record store =
  arrays :: "nat \<Rightarrow> portal_request list option"
  objects :: "nat \<Rightarrow> js_object option"
  next_ref :: nat

definition alloc_array :: "store \<Rightarrow> portal_request list \<Rightarrow> nat \<times> store" where
  "alloc_array s xs = (next_ref s, s\<lparr>arrays := (arrays s)(next_ref s \<mapsto> xs), next_ref := Suc (next_ref s)\<rparr>)"

definition alloc_object :: "store \<Rightarrow> js_object \<Rightarrow> nat \<times> store" where
  "alloc_object s kvs = (next_ref s, s\<lparr>objects := (objects s)(next_ref s \<mapsto> kvs), next_ref := Suc (next_ref s)\<rparr>)"

text \<open>\<open>a.push(x)\<close> on the array a reference points to.\<close>

definition array_push :: "store \<Rightarrow> nat \<Rightarrow> portal_request \<Rightarrow> store js_result" where
  "array_push s r x =
     (case arrays s r of
        None \<Rightarrow> Inl (TypeError ''Cannot read properties of undefined (reading push)'')
      | Some xs \<Rightarrow> Inr (s\<lparr>arrays := (arrays s)(r \<mapsto> xs @ [x])\<rparr>))"

section \<open>The builder\<close>

record builder_obj =
  o_portalURL :: string
  o_baseURL :: string
  o_requests :: nat
  o_headers :: "nat option"

record built_obj =
  bo_portal :: string
  bo_domain :: string
  bo_requests :: nat
  bo_headers :: nat

definition new_builder_obj :: "store \<Rightarrow> builder_obj \<times> store" where
  "new_builder_obj s =
     (let (r, s') = alloc_array s []
      in (\<lparr>o_portalURL = primary_portal, o_baseURL = ''https://internal.awsapps.com'', o_requests = r,
           o_headers = None\<rparr>, s'))"

definition obj_get :: "builder_obj \<Rightarrow> store \<Rightarrow> jsv \<Rightarrow> (builder_obj \<times> store) js_result" where
  "obj_get b s endpoint =
     (let url = o_baseURL b @ js_to_string endpoint
      in case array_push s (o_requests b)
                \<lparr>req_method = ''GET'', req_url = url, req_endpoint = endpoint, req_body = None\<rparr> of
           Inl e \<Rightarrow> Inl e
         | Inr s' \<Rightarrow> Inr (b, s'))"

definition obj_post :: "builder_obj \<Rightarrow> store \<Rightarrow> jsv \<Rightarrow> jsv \<Rightarrow> (builder_obj \<times> store) js_result" where
  "obj_post b s endpoint body =
     (let url = o_baseURL b @ js_to_string endpoint
      in case array_push s (o_requests b)
                \<lparr>req_method = ''POST'', req_url = url, req_endpoint = endpoint, req_body = Some body\<rparr> of
           Inl e \<Rightarrow> Inl e
         | Inr s' \<Rightarrow> Inr (b, s'))"

text \<open>\<open>if (!this.headers) this.headers = {}\<close> allocates the object on the first
  call; assigning \<open>__proto__\<close> leaves its own properties unchanged.\<close>

definition obj_header :: "builder_obj \<Rightarrow> store \<Rightarrow> jsv \<Rightarrow> jsv \<Rightarrow> (builder_obj \<times> store) js_result" where
  "obj_header b s key value =
     (let k = js_to_string key;
          assign = (\<lambda>hs. if k = ''__proto__'' then hs else js_set hs k value)
      in case o_headers b of
           None \<Rightarrow>
             (let (r, s1) = alloc_object s []
              in Inr (b\<lparr>o_headers := Some r\<rparr>, s1\<lparr>objects := (objects s1)(r \<mapsto> assign [])\<rparr>))
         | Some r \<Rightarrow>
             (case objects s r of
                None \<Rightarrow> Inl (TypeError ''Cannot set properties of undefined'')
              | Some hs \<Rightarrow> Inr (b, s\<lparr>objects := (objects s)(r \<mapsto> assign hs)\<rparr>)))"

text \<open>\<open>build()\<close> returns the builder's own array, and its header object if it has
  one, else a fresh empty object.\<close>

definition obj_build :: "builder_obj \<Rightarrow> store \<Rightarrow> built_obj \<times> store" where
  "obj_build b s =
     (case o_headers b of
        Some r \<Rightarrow>
          (\<lparr>bo_portal = primary_portal, bo_domain = primary_host, bo_requests = o_requests b, bo_headers = r\<rparr>, s)
      | None \<Rightarrow>
          (let (r, s1) = alloc_object s []
           in (\<lparr>bo_portal = primary_portal, bo_domain = primary_host, bo_requests = o_requests b,
                bo_headers = r\<rparr>, s1)))"

fun obj_step :: "builder_obj \<times> store \<Rightarrow> builder_call \<Rightarrow> (builder_obj \<times> store) js_result" where
  "obj_step (b, s) (Get e) = obj_get b s e"
| "obj_step (b, s) (Post e body) = obj_post b s e body"
| "obj_step (b, s) (Header k v) = obj_header b s k v"

fun obj_run :: "builder_call list \<Rightarrow> builder_obj \<times> store \<Rightarrow> (builder_obj \<times> store) js_result" where
  "obj_run [] bs = Inr bs"
| "obj_run (c # cs) bs = (case obj_step bs c of Inl e \<Rightarrow> Inl e | Inr bs' \<Rightarrow> obj_run cs bs')"

text \<open>A client that chains \<open>calls1\<close> on a new builder, keeps what \<open>build()\<close>
  returns, and chains \<open>calls2\<close> on the same builder.\<close>

definition build_then :: "builder_call list \<Rightarrow> builder_call list \<Rightarrow> store \<Rightarrow> (built_obj \<times> store) js_result" where
  "build_then calls1 calls2 s =
     (case obj_run calls1 (new_builder_obj s) of
        Inl e \<Rightarrow> Inl e
      | Inr (b1, s1) \<Rightarrow>
          (let (r, s2) = obj_build b1 s1
           in case obj_run calls2 (b1, s2) of
                Inl e \<Rightarrow> Inl e
              | Inr (_, s3) \<Rightarrow> Inr (r, s3)))"

section \<open>Abstraction\<close>

text \<open>A builder in a store represents a builder of the value model when its fields
  agree and its references point to live cells holding its requests and headers.\<close>

definition obj_rel :: "builder_obj \<times> store \<Rightarrow> request_builder \<Rightarrow> bool" where
  "obj_rel bs B \<longleftrightarrow>
     (case bs of (b, s) \<Rightarrow>
        o_portalURL b = b_portalURL B \<and> o_baseURL b = b_baseURL B \<and>
        arrays s (o_requests b) = Some (requests B) \<and> o_requests b < next_ref s \<and>
        (case o_headers b of
           None \<Rightarrow> b_headers B = None
         | Some r \<Rightarrow> r < next_ref s \<and> b_headers B \<noteq> None \<and> objects s r = b_headers B))"

definition has_header_call :: "builder_call list \<Rightarrow> bool" where
  "has_header_call calls = list_ex (\<lambda>c. case c of Header _ _ \<Rightarrow> True | _ \<Rightarrow> False) calls"

section \<open>Refinement\<close>

lemma obj_rel_new: "obj_rel (new_builder_obj s) new_PortalRequestBuilder"
  by (simp add: obj_rel_def new_builder_obj_def alloc_array_def new_PortalRequestBuilder_def)

lemma obj_step_sim:
  assumes "obj_rel (b, s) B"
  shows "\<exists>b' s'. obj_step (b, s) c = Inr (b', s') \<and> obj_rel (b', s') (builder_step B c) \<and>
           o_requests b' = o_requests b \<and> next_ref s \<le> next_ref s' \<and>
           (\<forall>h. o_headers b = Some h \<longrightarrow> o_headers b' = Some h) \<and>
           (\<forall>x < next_ref s. o_headers b \<noteq> Some x \<longrightarrow> objects s' x = objects s x \<and> o_headers b' \<noteq> Some x)"
proof (cases c)
  case (Get e)
  then show ?thesis
    using assms by (auto simp: obj_rel_def obj_get_def array_push_def builder_get_def split: option.splits)
next
  case (Post e body)
  then show ?thesis
    using assms by (auto simp: obj_rel_def obj_post_def array_push_def builder_post_def split: option.splits)
next
  case (Header k v)
  then show ?thesis
  proof (cases "o_headers b")
    case None
    then show ?thesis
      using assms Header
      by (auto simp: obj_rel_def obj_header_def alloc_object_def builder_header_def Let_def)
  next
    case (Some r)
    then show ?thesis
      using assms Header
      by (auto simp: obj_rel_def obj_header_def builder_header_def Let_def)
  qed
qed


lemma obj_run_sim:
  "obj_rel (b, s) B \<Longrightarrow>
   \<exists>b' s'. obj_run calls (b, s) = Inr (b', s') \<and> obj_rel (b', s') (builder_run B calls) \<and>
     o_requests b' = o_requests b \<and> next_ref s \<le> next_ref s' \<and>
     (\<forall>h. o_headers b = Some h \<longrightarrow> o_headers b' = Some h) \<and>
     (\<forall>x < next_ref s. o_headers b \<noteq> Some x \<longrightarrow> objects s' x = objects s x \<and> o_headers b' \<noteq> Some x)"
proof (induction calls arbitrary: b s B)
  case Nil
  then show ?case by (simp add: builder_run_def)
next
  case (Cons c cs)
  obtain b1 s1 where st: "obj_step (b, s) c = Inr (b1, s1)" "obj_rel (b1, s1) (builder_step B c)"
      "o_requests b1 = o_requests b" "next_ref s \<le> next_ref s1"
      "\<forall>h. o_headers b = Some h \<longrightarrow> o_headers b1 = Some h"
      "\<forall>x < next_ref s. o_headers b \<noteq> Some x \<longrightarrow> objects s1 x = objects s x \<and> o_headers b1 \<noteq> Some x"
    using obj_step_sim [OF Cons.prems] by blast
  obtain b' s' where ih: "obj_run cs (b1, s1) = Inr (b', s')" "obj_rel (b', s') (builder_run (builder_step B c) cs)"
      "o_requests b' = o_requests b1" "next_ref s1 \<le> next_ref s'"
      "\<forall>h. o_headers b1 = Some h \<longrightarrow> o_headers b' = Some h"
      "\<forall>x < next_ref s1. o_headers b1 \<noteq> Some x \<longrightarrow> objects s' x = objects s1 x \<and> o_headers b' \<noteq> Some x"
    using Cons.IH [OF st(2)] by blast
  have "builder_run B (c # cs) = builder_run (builder_step B c) cs"
    by (simp add: builder_run_def)
  moreover have "\<forall>x < next_ref s. o_headers b \<noteq> Some x \<longrightarrow> objects s' x = objects s x \<and> o_headers b' \<noteq> Some x"
  proof (intro allI impI)
    fix x
    assume x: "x < next_ref s" "o_headers b \<noteq> Some x"
    then have "objects s1 x = objects s x" "o_headers b1 \<noteq> Some x" "x < next_ref s1"
      using st(4,6) by auto
    then show "objects s' x = objects s x \<and> o_headers b' \<noteq> Some x"
      using ih(6) by auto
  qed
  ultimately show ?case
    using st ih by auto
qed

lemma obj_build_rel:
  assumes "obj_rel (b, s) B" "obj_build b s = (r, s')"
  shows "obj_rel (b, s') B \<and> bo_requests r = o_requests b \<and> next_ref s \<le> next_ref s' \<and>
         (case o_headers b of
            Some h \<Rightarrow> bo_headers r = h
          | None \<Rightarrow> bo_headers r < next_ref s' \<and> objects s' (bo_headers r) = Some [])"
  using assms by (auto simp: obj_rel_def obj_build_def alloc_object_def split: option.splits)

lemma builder_run_headers_None:
  "b_headers (builder_run B calls) = None \<longleftrightarrow> b_headers B = None \<and> \<not> has_header_call calls"
proof (induction calls arbitrary: B)
  case Nil
  then show ?case by (simp add: builder_run_def has_header_call_def)
next
  case (Cons c cs)
  have "builder_run B (c # cs) = builder_run (builder_step B c) cs"
    by (simp add: builder_run_def)
  then show ?case
    using Cons.IH [of "builder_step B c"]
    by (cases c) (auto simp: has_header_call_def builder_get_def builder_post_def builder_header_def Let_def)
qed

text \<open>The builder over the store refines the value model: any chain of calls
  on a new builder succeeds (no reference is dangling), and the builder's cells hold
  the requests and headers of the value model after the same calls.\<close>

theorem obj_run_refines:
  "\<exists>b s'. obj_run calls (new_builder_obj s) = Inr (b, s') \<and>
          obj_rel (b, s') (builder_run new_PortalRequestBuilder calls)"
proof -
  obtain b0 s0 where new: "new_builder_obj s = (b0, s0)"
    by fastforce
  show ?thesis
    using obj_run_sim [OF obj_rel_new [of s, unfolded new], of calls] unfolding new by blast
qed

lemma obj_run_after_build:
  assumes rel: "obj_rel (b, s) B" and bld: "obj_build b s = (r, s2)"
  shows "\<exists>b3 s3. obj_run calls (b, s2) = Inr (b3, s3) \<and>
           arrays s3 (bo_requests r) = Some (requests (builder_run B calls)) \<and>
           objects s3 (bo_headers r) =
             Some (if b_headers B = None then [] else builder_headers (builder_run B calls))"
proof -
  note b = obj_build_rel [OF rel bld]
  obtain b3 s3 where run: "obj_run calls (b, s2) = Inr (b3, s3)" "obj_rel (b3, s3) (builder_run B calls)"
      "o_requests b3 = o_requests b" "\<forall>h. o_headers b = Some h \<longrightarrow> o_headers b3 = Some h"
      "\<forall>x < next_ref s2. o_headers b \<noteq> Some x \<longrightarrow> objects s3 x = objects s2 x"
    using obj_run_sim [OF conjunct1 [OF b], of calls] by auto
  have "objects s3 (bo_headers r) =
          Some (if b_headers B = None then [] else builder_headers (builder_run B calls))"
  proof (cases "o_headers b")
    case None
    then show ?thesis
      using rel b run(5) by (auto simp: obj_rel_def)
  next
    case (Some h)
    then show ?thesis
      using rel b run(2,4) by (auto simp: obj_rel_def builder_headers_def split: option.splits)
  qed
  then show ?thesis
    using run(1-3) b by (auto simp: obj_rel_def)
qed

text \<open>C30. What \<open>build()\<close> returns is not a snapshot: its requests array is the
  builder's, so it also holds every request chained after the call; its headers
  object is the builder's when a header was set before, and then sees every later
  header, and otherwise a fresh empty object that stays empty.\<close>

theorem build_then_aliasing:
  "\<exists>r s'. build_then calls1 calls2 s = Inr (r, s') \<and>
     arrays s' (bo_requests r) = Some (requests (builder_run new_PortalRequestBuilder (calls1 @ calls2))) \<and>
     objects s' (bo_headers r) =
       Some (if has_header_call calls1
             then builder_headers (builder_run new_PortalRequestBuilder (calls1 @ calls2)) else [])"
proof -
  let ?B1 = "builder_run new_PortalRequestBuilder calls1"
  obtain b0 s0 where new: "new_builder_obj s = (b0, s0)"
    by fastforce
  obtain b1 s1 where run1: "obj_run calls1 (b0, s0) = Inr (b1, s1)" "obj_rel (b1, s1) ?B1"
    using obj_run_sim [OF obj_rel_new [of s, unfolded new]] by blast
  obtain r s2 where bld: "obj_build b1 s1 = (r, s2)"
    by fastforce
  obtain b3 s3 where run2: "obj_run calls2 (b1, s2) = Inr (b3, s3)"
      "arrays s3 (bo_requests r) = Some (requests (builder_run ?B1 calls2))"
      "objects s3 (bo_headers r) =
         Some (if b_headers ?B1 = None then [] else builder_headers (builder_run ?B1 calls2))"
    using obj_run_after_build [OF run1(2) bld] by blast
  have "builder_run ?B1 calls2 = builder_run new_PortalRequestBuilder (calls1 @ calls2)"
    by (simp add: builder_run_def)
  moreover have "b_headers ?B1 = None \<longleftrightarrow> \<not> has_header_call calls1"
    by (simp add: builder_run_headers_None new_PortalRequestBuilder_def)
  moreover have "build_then calls1 calls2 s = Inr (r, s3)"
    by (simp add: build_then_def new run1(1) bld run2(1))
  ultimately show ?thesis
    using run2(2,3) by auto
qed

end
