(* ===== verification/Console.thy ===== *)
theory Console
  imports Modules
begin

text \<open>
  The functions whose only effect is console output: \<open>logAWSPortalInfo\<close> and
  \<open>window.showAWSPortalHelp\<close> (\<open>aws-utilities.js\<close>), \<open>logClientInfo\<close> and \<open>logPortalAPIInfo\<close>
  (\<open>aws-portal-api.js\<close>), each as the list of lines it prints. A line is its
  text, with a value the console shows as an object where one is passed;
  \<open>%c\<close> directives are dropped with the style argument they consume. The bullet
  character U+2022 is written as its UTF-8 bytes.
\<close>

section \<open>Console lines\<close>

datatype console_line = Text string | TextObj string jsv

text \<open>\<open>console.log(fmt, css)\<close>: each \<open>%c\<close> of the format applies the style and
  prints nothing.\<close>

fun strip_style :: "string \<Rightarrow> string" where
  "strip_style (CHR ''%'' # CHR ''c'' # s) = strip_style s"
| "strip_style (c # s) = c # strip_style s"
| "strip_style [] = []"

definition styled :: "string \<Rightarrow> string \<Rightarrow> console_line" where
  "styled fmt css = Text (strip_style fmt)"

definition bullet :: string where
  "bullet = [CHR 0xE2, CHR 0x80, CHR 0xA2]"

definition dq :: string where
  "dq = [CHR 0x22]"

section \<open>\<open>logAWSPortalInfo\<close>\<close>

definition logAWSPortalInfo :: "console_line list" where
  "logAWSPortalInfo =
     [styled ''%c=== AWS IAM Identity Center Portal Information ===''
        ''font-weight: bold; color: #FF9900; font-size: 14px;'',
      styled ''%cMain Portal: https://internal.awsapps.com/start'' ''color: #FF9900; font-family: monospace;'',
      Text '''',
      Text ''Available Portal Endpoints:'',
      Text (''  '' @ bullet @ '' https://internal.awsapps.com/start (Standard portal)''),
      Text (''  '' @ bullet @ '' https://d-{id}.awsapps.com/start (Organization instances)''),
      Text (''  '' @ bullet @ '' https://{subdomain}.awsapps.com/start (Custom subdomains)''),
      Text '''',
      Text ''Primary Domain: internal.awsapps.com'',
      Text ''Portal Path: /start'',
      Text ''Protocol: https'',
      Text '''',
      Text ''Configuration Object:'',
      Text (''  AWS_IDENTITY_CENTER.MAIN_PORTAL = '' @ dq @ ''https://internal.awsapps.com/start'' @ dq),
      Text (''  AWS_IDENTITY_CENTER.PRIMARY_URL = '' @ dq @ ''https://internal.awsapps.com/start'' @ dq),
      Text (''  AWS_DOMAINS.INTERNAL = '' @ dq @ ''internal.awsapps.com'' @ dq)]"

section \<open>\<open>window.showAWSPortalHelp\<close>\<close>

definition showAWSPortalHelp :: "console_line list" where
  "showAWSPortalHelp =
     [styled ''%c=== AWS Portal Help ===''
        ''font-weight: bold; color: #FF9900; font-size: 16px;'',
      Text '''',
      Text ''Main Portal: https://internal.awsapps.com/start'',
      Text '''',
      Text ''Available Functions:'',
      Text (''  '' @ bullet @ '' validateAWSPortalURL(url) - Validate an AWS portal URL''),
      Text (''  '' @ bullet @ '' getAWSPortalURL(type) - Get AWS portal URL''),
      Text (''  '' @ bullet @ '' normalizeAWSPortalURL(url) - Normalize URL format''),
      Text (''  '' @ bullet @ '' isMainAWSPortal(url) - Check if main portal''),
      Text (''  '' @ bullet @ '' getAWSPortalDomain(url) - Extract domain from URL''),
      Text (''  '' @ bullet @ '' buildAWSPortalURL(subdomain) - Build portal URL''),
      Text (''  '' @ bullet @ '' logAWSPortalInfo() - Display portal information''),
      Text (''  '' @ bullet @ '' validateAWSPortalConfig() - Validate configuration''),
      Text (''  '' @ bullet @ '' navigateToAWSPortal(subdomain, newTab) - Navigate to portal''),
      Text '''',
      Text ''Configuration Objects:'',
      Text (''  '' @ bullet @ '' AWS_IDENTITY_CENTER - Portal endpoints''),
      Text (''  '' @ bullet @ '' AWS_DOMAINS - Supported domains''),
      Text (''  '' @ bullet @ '' AWS_PORTAL_URLS - Portal URL collection''),
      Text (''  '' @ bullet @ '' AWS_PORTAL_METADATA - Portal metadata''),
      Text '''']"

text \<open>The name a help line lists: the identifier after the bullet.\<close>

definition bullet_name :: "string \<Rightarrow> string option" where
  "bullet_name t =
     (if prefix (''  '' @ bullet @ '' '') t
      then Some (takeWhile (\<lambda>c. c \<noteq> CHR ''('' \<and> c \<noteq> CHR '' '') (drop 6 t)) else None)"

definition listed_names :: "console_line list \<Rightarrow> string list" where
  "listed_names ls = List.map_filter (\<lambda>l. case l of Text t \<Rightarrow> bullet_name t | TextObj _ _ \<Rightarrow> None) ls"

section \<open>\<open>AWSPortalAPIClient.logClientInfo\<close>\<close>

text \<open>The addresses are literals; the timeout and the configuration are the
  client's fields.\<close>

definition logClientInfo :: "api_client \<Rightarrow> console_line list" where
  "logClientInfo c =
     [styled ''%c=== AWS Portal API Client ==='' ''font-weight: bold; color: #FF9900;'',
      Text ''Portal URL: https://internal.awsapps.com/start'',
      Text ''Domain: internal.awsapps.com'',
      Text ''Base URL: https://internal.awsapps.com'',
      Text (''Timeout: '' @ js_to_string (client_timeout c) @ ''ms''),
      TextObj ''Config: '' (JObj (client_config c))]"

section \<open>\<open>logPortalAPIInfo\<close>\<close>

text \<open>One line per entry of \<open>Object.entries(AWS_PORTAL_API.endpoints)\<close>;
  \<open>'...' + JSON.stringify(h)\<close> prints \<open>undefined\<close> when the result is.\<close>

definition json_text :: "jsv \<Rightarrow> string" where
  "json_text v = (case js_stringify v of None \<Rightarrow> ''undefined'' | Some s \<Rightarrow> s)"

definition logPortalAPIInfo :: "console_line list" where
  "logPortalAPIInfo =
     [styled ''%c=== AWS Portal API Information ===''
        ''font-weight: bold; color: #FF9900; font-size: 14px;'',
      Text ''Portal URL: https://internal.awsapps.com/start'',
      Text ''Domain: internal.awsapps.com'',
      Text ''Base URL: https://internal.awsapps.com'',
      Text '''',
      Text ''API Endpoints:'']
     @ map (\<lambda>(key, value). Text (''  '' @ key @ '': '' @ js_to_string value))
         (js_spread (obj_lookup AWS_PORTAL_API ''endpoints''))
     @ [Text '''',
        Text ''Configuration:'',
        Text (''  Timeout: '' @ js_to_string (obj_lookup AWS_PORTAL_CONFIG ''timeout'') @ ''ms''),
        Text (''  Headers: '' @ json_text (obj_lookup AWS_PORTAL_CONFIG ''headers''))]"

section \<open>Properties\<close>

text \<open>The names the help prints are the ones \<^const>\<open>help_functions\<close> and
  \<^const>\<open>help_objects\<close> list.\<close>

lemma help_listed_names: "listed_names showAWSPortalHelp = help_functions @ help_objects"
  by code_simp

text \<open>What \<open>logAWSPortalInfo\<close> prints about the configuration is true of the
  data: the main portal, and the domain, path and scheme it names, are those of
  \<open>AWS_IDENTITY_CENTER.MAIN_PORTAL\<close> as \<open>new URL\<close> parses it, and each printed
  \<open>OBJECT.KEY = "value"\<close> shows the JSON text of the value the object holds.\<close>

theorem logAWSPortalInfo_consistent:
  "\<exists>u. new_URL (obj_lookup AWS_IDENTITY_CENTER ''MAIN_PORTAL'') = Inr u \<and>
     logAWSPortalInfo ! 1 = Text (''Main Portal: '' @ js_to_string (obj_lookup AWS_IDENTITY_CENTER ''MAIN_PORTAL'')) \<and>
     logAWSPortalInfo ! 8 = Text (''Primary Domain: '' @ hostname u) \<and>
     logAWSPortalInfo ! 9 = Text (''Portal Path: '' @ rest u) \<and>
     logAWSPortalInfo ! 10 = Text (''Protocol: '' @ protocol u) \<and>
     drop 13 logAWSPortalInfo =
       map (\<lambda>(name, obj, key). Text (''  '' @ name @ ''.'' @ key @ '' = '' @ json_text (obj_lookup obj key)))
         [(''AWS_IDENTITY_CENTER'', AWS_IDENTITY_CENTER, ''MAIN_PORTAL''),
          (''AWS_IDENTITY_CENTER'', AWS_IDENTITY_CENTER, ''PRIMARY_URL''),
          (''AWS_DOMAINS'', AWS_DOMAINS, ''INTERNAL'')]"
  by (rule exI [of _ "\<lparr>protocol = ''https'', hostname = primary_host, port = [], rest = ''/start''\<rparr>"]) code_simp

end
