(* ===== verification/Traces.thy ===== *)
theory Traces
  imports Console
begin

text \<open>
  The console output of the operations whose results the other theories model:
  for each operation, the entries it writes (with their level: \<open>console.log\<close>,
  \<open>console.warn\<close> or \<open>console.error\<close>) as a function of the same arguments as its
  value model, in the order the code writes them, the traces of the operations it
  calls included where it calls them. Where an operation throws before a log
  statement, its trace stops there. The marks U+2713 and U+2717 are written as their
  UTF-8 bytes.
\<close>

section \<open>Trace entries\<close>

datatype console_level = Log | Warn | Err

datatype trace_entry = Entry console_level console_line | ErrorObj console_level string js_error

type_synonym trace = "trace_entry list"

fun entry_level :: "trace_entry \<Rightarrow> console_level" where
  "entry_level (Entry l _) = l"
| "entry_level (ErrorObj l _ _) = l"

definition trace_errors :: "trace \<Rightarrow> trace" where
  "trace_errors t = filter (\<lambda>e. entry_level e = Err) t"

definition log_line :: "string \<Rightarrow> trace_entry" where
  "log_line s = Entry Log (Text s)"

definition warn_line :: "string \<Rightarrow> trace_entry" where
  "warn_line s = Entry Warn (Text s)"

definition error_line :: "string \<Rightarrow> trace_entry" where
  "error_line s = Entry Err (Text s)"

definition check_mark :: string where
  "check_mark = [CHR 0xE2, CHR 0x9C, CHR 0x93]"

definition cross_mark :: string where
  "cross_mark = [CHR 0xE2, CHR 0x9C, CHR 0x97]"

section \<open>\<open>aws-utilities.js\<close>\<close>

definition isValidAWSPortalURL_trace :: "jsv \<Rightarrow> trace" where
  "isValidAWSPortalURL_trace url =
     (if \<not> js_truthy url
      then [warn_line ''No URL provided for validation. Expected format: https://internal.awsapps.com/start'']
      else case new_URL url of
        Inl _ \<Rightarrow>
          [error_line (''Error validating URL: '' @ js_to_string url),
           error_line ''AWS portal format: https://internal.awsapps.com/start'']
      | Inr _ \<Rightarrow>
          if isValidAWSPortalURL url
          then [log_line (check_mark @ '' Valid AWS portal URL: '' @ js_to_string url),
                log_line ''Primary portal: https://internal.awsapps.com/start'']
          else [warn_line (cross_mark @ '' Invalid AWS portal URL: '' @ js_to_string url),
                warn_line ''Supported domains include: https://internal.awsapps.com/start''])"

text \<open>\<open>type.toLowerCase()\<close> throws before the log statements for a non-string.\<close>

definition getAWSPortalURL_trace :: "jsv \<Rightarrow> trace" where
  "getAWSPortalURL_trace type0 =
     (case getAWSPortalURL type0 of
        Inl _ \<Rightarrow> []
      | Inr url \<Rightarrow>
          [log_line (''AWS Portal URL requested ('' @ js_to_string (js_default type0 (JStr ''main'')) @ ''): ''
                     @ js_to_string url),
           log_line ''Primary AWS portal: https://internal.awsapps.com/start''])"

definition normalizeAWSPortalURL_trace :: "jsv \<Rightarrow> trace" where
  "normalizeAWSPortalURL_trace url =
     (if \<not> js_truthy url
      then [warn_line ''No URL provided for normalization. Using default: https://internal.awsapps.com/start'']
      else case normalizeAWSPortalURL url of
        Inl _ \<Rightarrow> []
      | Inr normalized \<Rightarrow>
          [log_line (''Original URL: '' @ js_to_string url), log_line (''Normalized URL: '' @ normalized),
           log_line ''Standard AWS portal: https://internal.awsapps.com/start''])"

definition isMainAWSPortal_trace :: "jsv \<Rightarrow> trace" where
  "isMainAWSPortal_trace url =
     (if isMainAWSPortal url
      then [log_line (check_mark @ '' This is the main AWS portal: '' @ primary_portal)]
      else [log_line (''URL: '' @ js_to_string url), log_line (''Main AWS portal: '' @ primary_portal)])"

definition getAWSPortalDomain_trace :: "jsv \<Rightarrow> trace" where
  "getAWSPortalDomain_trace url =
     (case new_URL url of
        Inl _ \<Rightarrow>
          [error_line (''Error extracting domain from: '' @ js_to_string url),
           error_line ''Expected format: https://internal.awsapps.com/start'']
      | Inr urlObj \<Rightarrow>
          [log_line (''Portal URL: '' @ js_to_string url), log_line (''Extracted domain: '' @ hostname urlObj),
           log_line ''Primary domain: internal.awsapps.com'',
           log_line ''Full portal URL: https://internal.awsapps.com/start''])"

definition buildAWSPortalURL_trace :: "jsv \<Rightarrow> trace" where
  "buildAWSPortalURL_trace subdomain =
     [log_line (''Building AWS portal URL with subdomain: '' @ js_to_string (js_default subdomain (JStr ''internal''))),
      log_line (''Result: '' @ buildAWSPortalURL subdomain),
      log_line ''Default portal: https://internal.awsapps.com/start'']"

text \<open>One line per check, the trace of \<open>getAWSPortalURL('main')\<close> where the code calls
  it, and the verdict.\<close>

definition validateAWSPortalConfig_trace :: "js_object \<Rightarrow> js_object \<Rightarrow> trace" where
  "validateAWSPortalConfig_trace identity_center domains =
     [log_line ''Validating AWS portal configuration...'']
     @ (if obj_lookup identity_center ''MAIN_PORTAL'' = JStr primary_portal
        then [log_line (check_mark @ '' MAIN_PORTAL = https://internal.awsapps.com/start'')]
        else [error_line (cross_mark @ '' MAIN_PORTAL is incorrect. Expected: https://internal.awsapps.com/start'')])
     @ (if obj_lookup identity_center ''PRIMARY_URL'' = JStr primary_portal
        then [log_line (check_mark @ '' PRIMARY_URL = https://internal.awsapps.com/start'')]
        else [error_line (cross_mark @ '' PRIMARY_URL is incorrect. Expected: https://internal.awsapps.com/start'')])
     @ (if obj_lookup domains ''INTERNAL'' = JStr primary_host
        then [log_line (check_mark @ '' INTERNAL = internal.awsapps.com'')]
        else [error_line (cross_mark @ '' INTERNAL domain is incorrect. Expected: internal.awsapps.com'')])
     @ getAWSPortalURL_trace (JStr ''main'')
     @ (if getAWSPortalURL (JStr ''main'') = Inr (JStr primary_portal)
        then [log_line (check_mark @ '' getAWSPortalURL(main) = https://internal.awsapps.com/start'')]
        else [error_line (cross_mark @ '' getAWSPortalURL() is incorrect. Expected: https://internal.awsapps.com/start'')])
     @ (if validateAWSPortalConfig identity_center domains
        then [Entry Log (styled (''%c'' @ check_mark @ '' AWS Portal Configuration is VALID'')
                              ''color: #27ae60; font-weight: bold;''),
              log_line ''Primary Portal: https://internal.awsapps.com/start'']
        else [Entry Log (styled (''%c'' @ cross_mark @ '' AWS Portal Configuration has ERRORS'')
                              ''color: #d32f2f; font-weight: bold;'')])"

definition navigateToAWSPortal_trace :: "jsv \<Rightarrow> jsv \<Rightarrow> browser_window option \<Rightarrow> trace" where
  "navigateToAWSPortal_trace subdomain newTab win =
     (let subdomain' = js_default subdomain (JStr ''internal'');
          newTab' = js_default newTab (JBool False);
          url = buildAWSPortalURL subdomain'
      in buildAWSPortalURL_trace subdomain'
         @ [log_line (''Navigating to AWS portal: '' @ url),
            log_line ''Primary portal: https://internal.awsapps.com/start'',
            log_line (''Subdomain: '' @ js_to_string subdomain'), log_line (''New tab: '' @ js_to_string newTab')]
         @ (case win of
              None \<Rightarrow> [log_line (''URL to navigate to: '' @ url)]
            | Some _ \<Rightarrow>
                if js_truthy newTab' then [log_line (check_mark @ '' Opened in new tab: '' @ url)]
                else [log_line (check_mark @ '' Navigating to: '' @ url)]))"

section \<open>\<open>aws-portal-api.js\<close>\<close>

definition new_AWSPortalAPIClient_trace :: trace where
  "new_AWSPortalAPIClient_trace =
     [log_line ''Initializing AWS Portal API Client'', log_line ''Portal: https://internal.awsapps.com/start'',
      log_line ''Domain: internal.awsapps.com'']"

definition buildEndpointURL_trace :: "jsv \<Rightarrow> trace" where
  "buildEndpointURL_trace endpoint =
     [log_line (''Building endpoint: '' @ js_to_string endpoint),
      log_line ''Base URL: https://internal.awsapps.com'', log_line ''Portal: https://internal.awsapps.com/start'']"

text \<open>The options are logged as JSON before they are read; an exception while
  reading them ends the trace, a rejection of \<open>fetch\<close> is logged with the error
  before it is rethrown.\<close>

definition makeRequest_trace :: "fetch_fn \<Rightarrow> api_client \<Rightarrow> jsv \<Rightarrow> jsv \<Rightarrow> trace" where
  "makeRequest_trace fetch c endpoint options0 =
     (let url = buildEndpointURL c endpoint;
          options = js_default options0 (JObj [])
      in buildEndpointURL_trace endpoint
         @ [log_line ''Making API request:'', log_line (''  URL: '' @ url),
            log_line ''  Portal: https://internal.awsapps.com/start'', log_line ''  Domain: internal.awsapps.com'',
            log_line (''  Options: '' @ json_text options)]
         @ (case makeRequest_config c options0 of
              Inl _ \<Rightarrow> []
            | Inr requestConfig \<Rightarrow>
                (case fetch url requestConfig of
                   Inl e \<Rightarrow>
                     [error_line (''Error making request to: '' @ url),
                      error_line ''Portal: https://internal.awsapps.com/start'', ErrorObj Err [] e]
                 | Inr response \<Rightarrow> [log_line (''Response status: '' @ js_to_string (JNum (status response)))])))"

text \<open>The three readers log before the request; the first and the third log
  again on success, all three on failure.\<close>

definition getPortalApplications_trace :: "fetch_fn \<Rightarrow> api_client \<Rightarrow> trace" where
  "getPortalApplications_trace fetch c =
     [log_line ''Fetching applications from portal: https://internal.awsapps.com/start'']
     @ makeRequest_trace fetch c (JStr ''/applications'') JUndef
     @ (case getPortalApplications fetch c of
          Inl _ \<Rightarrow> [error_line ''Error fetching applications from: https://internal.awsapps.com/start'']
        | Inr _ \<Rightarrow> [log_line ''Applications retrieved from: https://internal.awsapps.com/start''])"

definition getPortalUsers_trace :: "fetch_fn \<Rightarrow> api_client \<Rightarrow> trace" where
  "getPortalUsers_trace fetch c =
     [log_line ''Fetching users from AWS portal: https://internal.awsapps.com/start'']
     @ makeRequest_trace fetch c (JStr ''/users'') JUndef
     @ (case getPortalUsers fetch c of
          Inl _ \<Rightarrow> [error_line ''Error fetching users from: https://internal.awsapps.com/start'']
        | Inr _ \<Rightarrow> [])"

definition getPortalSessions_trace :: "fetch_fn \<Rightarrow> api_client \<Rightarrow> trace" where
  "getPortalSessions_trace fetch c =
     [log_line ''Fetching sessions from: https://internal.awsapps.com/start'']
     @ makeRequest_trace fetch c (JStr ''/sessions'') JUndef
     @ (case getPortalSessions fetch c of
          Inl _ \<Rightarrow> [error_line ''Error fetching sessions from: https://internal.awsapps.com/start'']
        | Inr _ \<Rightarrow> [log_line ''Sessions retrieved from AWS portal: https://internal.awsapps.com/start''])"

definition validatePortalAccessibility_trace :: "fetch_fn \<Rightarrow> api_client \<Rightarrow> trace" where
  "validatePortalAccessibility_trace fetch c =
     [log_line ''Validating portal accessibility: https://internal.awsapps.com/start'']
     @ (case fetch primary_portal \<lparr>rc_method = JStr ''HEAD'', rc_headers = [], rc_timeout = JNum 10000,
                                    rc_body = None\<rparr> of
          Inl _ \<Rightarrow> [error_line ''Portal not accessible: https://internal.awsapps.com/start'']
        | Inr response \<Rightarrow>
            [log_line (''Portal accessible: '' @ js_to_string (JBool (response_ok response))),
             log_line ''Portal URL: https://internal.awsapps.com/start''])"

definition new_PortalRequestBuilder_trace :: trace where
  "new_PortalRequestBuilder_trace =
     [log_line ''PortalRequestBuilder initialized'', log_line ''Portal: https://internal.awsapps.com/start'']"

primrec builder_step_trace :: "request_builder \<Rightarrow> builder_call \<Rightarrow> trace" where
  "builder_step_trace b (Get e) =
     [log_line (''GET request: '' @ b_baseURL b @ js_to_string e), log_line ''Portal: https://internal.awsapps.com/start'']"
| "builder_step_trace b (Post e body) =
     [log_line (''POST request: '' @ b_baseURL b @ js_to_string e), log_line ''Portal: https://internal.awsapps.com/start'']"
| "builder_step_trace b (Header k v) = []"

fun builder_run_trace :: "request_builder \<Rightarrow> builder_call list \<Rightarrow> trace" where
  "builder_run_trace b [] = []"
| "builder_run_trace b (c # cs) = builder_step_trace b c @ builder_run_trace (builder_step b c) cs"

definition builder_build_trace :: trace where
  "builder_build_trace =
     [log_line ''Building portal request'', log_line ''Base URL: https://internal.awsapps.com'',
      log_line ''Portal: https://internal.awsapps.com/start'']"

definition createPortalAPIClient_trace :: trace where
  "createPortalAPIClient_trace =
     [log_line ''Creating AWS Portal API Client'', log_line ''Portal: https://internal.awsapps.com/start'']
     @ new_AWSPortalAPIClient_trace"

definition testPortalConnectivity_trace :: "fetch_fn \<Rightarrow> trace" where
  "testPortalConnectivity_trace fetch =
     [log_line ''Testing portal connectivity: https://internal.awsapps.com/start'']
     @ createPortalAPIClient_trace
     @ [log_line ''Test 1: Portal accessibility'']
     @ validatePortalAccessibility_trace fetch createPortalAPIClient
     @ (case validatePortalAccessibility fetch createPortalAPIClient of
          Inl e \<Rightarrow>
            [ErrorObj Err ''Test failed:'' e, error_line ''Portal: https://internal.awsapps.com/start'']
        | Inr b \<Rightarrow>
            [log_line (''  Result: '' @ js_to_string (JBool b)), log_line ''Test 2: Metadata retrieval'',
             log_line ''  Result: Success'', log_line ''All tests completed'',
             log_line ''Portal: https://internal.awsapps.com/start''])"

section \<open>Module load\<close>

text \<open>The lines each file logs at the end of its top-level code; the API module
  also creates its global client there.\<close>

primrec module_load_log :: "module_file \<Rightarrow> trace" where
  "module_load_log Utilities_js =
     [Entry Log (styled ''%c AWS Utilities Module Loaded'' ''color: #FF9900; font-weight: bold;''),
      log_line ''Primary AWS Portal: https://internal.awsapps.com/start'',
      log_line ''Type showAWSPortalHelp() or call window.showAWSPortalHelp() for help'']"
| "module_load_log Constants_js =
     [Entry Log (styled ''%c AWS Portal Constants Module Loaded'' ''color: #FF9900; font-weight: bold;''),
      log_line ''Primary Portal: https://internal.awsapps.com/start'',
      log_line ''Access constants via: window.AWS_PORTAL_CONSTANTS or specific constant objects'']"
| "module_load_log Api_js =
     createPortalAPIClient_trace
     @ [Entry Log (styled ''%c AWS Portal API Module Loaded'' ''color: #FF9900; font-weight: bold;''),
        log_line ''Primary Portal: https://internal.awsapps.com/start'',
        log_line ''Access via: window.portalAPI'', log_line ''Type: window.portalAPI.logInfo() for details'']"

text \<open>A file that fails to load (a redeclaration, or the \<open>ReferenceError\<close> of
  \<open>aws-utilities.js\<close>, which comes before any of its log statements) logs nothing.\<close>

definition load_module_trace :: "module_file \<Rightarrow> host \<Rightarrow> trace" where
  "load_module_trace m h = (case load_module m h of Inl _ \<Rightarrow> [] | Inr _ \<Rightarrow> module_load_log m)"

section \<open>Traces and results\<close>

lemma trace_errors_simps [simp]:
  "trace_errors [] = []"
  "trace_errors (xs @ ys) = trace_errors xs @ trace_errors ys"
  "trace_errors (log_line s # t) = trace_errors t"
  "trace_errors (warn_line s # t) = trace_errors t"
  "trace_errors (error_line s # t) = error_line s # trace_errors t"
  "trace_errors (ErrorObj Err s e # t) = ErrorObj Err s e # trace_errors t"
  "trace_errors (Entry Log l # t) = trace_errors t"
  by (simp_all add: trace_errors_def log_line_def warn_line_def error_line_def)

lemma getAWSPortalURL_main: "getAWSPortalURL (JStr ''main'') = Inr (JStr primary_portal)"
  by code_simp

lemma getAWSPortalURL_main_trace: "trace_errors (getAWSPortalURL_trace (JStr ''main'')) = []"
  by (simp add: getAWSPortalURL_trace_def getAWSPortalURL_main)

text \<open>The self-check writes one error line per failed check, and reports the
  configuration valid exactly when it writes none.\<close>

lemma validateAWSPortalConfig_trace_errors:
  "length (trace_errors (validateAWSPortalConfig_trace ic d)) =
     length (filter id [obj_lookup ic ''MAIN_PORTAL'' \<noteq> JStr primary_portal,
                        obj_lookup ic ''PRIMARY_URL'' \<noteq> JStr primary_portal,
                        obj_lookup d ''INTERNAL'' \<noteq> JStr primary_host]) \<and>
   (validateAWSPortalConfig ic d \<longleftrightarrow> trace_errors (validateAWSPortalConfig_trace ic d) = [])"
  by (simp add: validateAWSPortalConfig_trace_def validateAWSPortalConfig_def getAWSPortalURL_main
      getAWSPortalURL_main_trace Let_def)

lemma validateAWSPortalConfig_trace_module:
  "trace_errors (validateAWSPortalConfig_trace AWS_IDENTITY_CENTER AWS_DOMAINS) = [] \<and>
   last (validateAWSPortalConfig_trace AWS_IDENTITY_CENTER AWS_DOMAINS) =
     log_line ''Primary Portal: https://internal.awsapps.com/start''"
  by code_simp

text \<open>\<open>makeRequest\<close> writes an error exactly when \<open>fetch\<close> rejects; an exception
  while reading the options escapes without one.\<close>

lemma makeRequest_trace_errors:
  "trace_errors (makeRequest_trace fetch c endpoint options) \<noteq> [] \<longleftrightarrow>
     (\<exists>cfg e. makeRequest_config c options = Inr cfg \<and> fetch (buildEndpointURL c endpoint) cfg = Inl e)"
  by (simp add: makeRequest_trace_def buildEndpointURL_trace_def Let_def split: sum.split)

lemma load_module_trace_node:
  "load_module_trace Utilities_js node_host = [] \<and>
   load_module_trace Constants_js node_host = module_load_log Constants_js \<and>
   load_module_trace Api_js node_host = module_load_log Api_js"
  by (simp add: load_module_trace_def load_module_def declare_globals_def node_host_def run_utilities_def
      run_constants_def run_api_def)

end
