(* ===== verification/Spec2Isabelle.thy ===== *)
theory Spec2Isabelle
  imports Utilities Constants Api Modules Builder_Store Console Traces
begin

text \<open>
  \<^bold>\<open>A verification library for the AWS portal helper modules.\<close>

  The repository is three browser scripts under \<open>src/\<close>:
  \<^item> \<open>aws-utilities.js\<close>: constants, a validator, a lookup, a normaliser, a builder
    and a host extractor for identity-portal addresses, a configuration self-check, a
    navigation helper that writes \<open>window.location\<close> or opens a tab, and top-level
    code that installs \<open>window.showAWSPortalHelp\<close> and \<open>window.awsPortalRef\<close>;
  \<^item> \<open>aws-portal-constants.js\<close>: constant objects and \<open>PORTAL_VALIDATORS\<close>
    (a regular-expression check of an address and two domain checks);
  \<^item> \<open>aws-portal-api.js\<close>: \<open>AWSPortalAPIClient\<close>, a wrapper around \<open>fetch\<close> with
    a fixed base address and merged default headers, \<open>PortalRequestBuilder\<close>, a
    chainable builder that records requests and headers, and helper functions.
  The modules do not call each other; they share the designated address
  \<open>https://internal.awsapps.com/start\<close> as a literal, the global scope when a page
  loads them as classic scripts, and the platform's \<open>window\<close>, \<open>URL\<close> and
  \<open>fetch\<close>. Each file ends with code that assigns its names to \<open>window\<close> and to
  \<open>module.exports\<close>.

  \<^bold>\<open>Theories.\<close>
  \<^item> \<open>Prelude\<close>: JavaScript values (\<^typ>\<open>jsv\<close>), exceptions as \<open>Inl\<close> of a sum,
    truthiness, \<open>String(v)\<close>, \<open>trim\<close>, \<open>toLowerCase\<close>, \<open>startsWith\<close>/\<open>endsWith\<close>/
    \<open>includes\<close> as \<^const>\<open>prefix\<close>/\<^const>\<open>suffix\<close>/\<^const>\<open>sublist\<close>, objects as
    association lists with assignment, spread, merge and the keys inherited from
    \<open>Object.prototype\<close>, \<open>JSON.stringify\<close>; the shared lemmas on strings, objects
    and lists of entries with distinct keys.
  \<^item> \<open>Url\<close>: the platform's \<open>new URL(s)\<close>, modelled from the WHATWG URL standard (it
    is not repository code): scheme, authority, credentials, host, port; and the lemmas
    that \<open>s://h/p\<close> and \<open>s://u@h/p\<close>, for every special scheme \<open>s\<close> and plain
    \<open>u\<close> and \<open>h\<close>, parse back to the host \<open>h\<close>.
  \<^item> \<open>Utilities\<close>: \<open>src/aws-utilities.js\<close>, one definition per function under its
    source name, its constant objects as association lists, the browser window as a
    record that \<open>navigateToAWSPortal\<close> updates. Lemmas: the validator refines a
    two-domain specification (C1), build/parse round trip (C2), idempotent
    normalisation (C3), the behaviour and error paths of each function (C4 to C11),
    the examples of the specification checked by evaluation.
  \<^item> \<open>Constants\<close>: \<open>src/aws-portal-constants.js\<close>, the constant objects and the
    three validators, the regular expression as a leftmost search (C12 to C14); the
    search returns exactly the leftmost match (C34).
  \<^item> \<open>Api\<close>: \<open>src/aws-portal-api.js\<close>. The client as a record of its fields with
    \<open>fetch\<close> a parameter (a function from address and request configuration to a
    response or the exception the promise rejects with); \<open>async\<close> methods by the
    value they settle with. The builder by value: a record, one step per chained
    call, runs over call lists, reachable states as an inductive set. Lemmas: request
    construction, the treatment of falsy options, error propagation, totality of the
    accessibility check and the connectivity test (C18 to C23), the types of the
    header values (C33), the builder invariant by rule induction, request order and
    last-write-wins headers (C24 to C26).
  \<^item> \<open>Modules\<close>: the top-level code of the three files. A host is a page (classic
    scripts sharing the global scope: \<open>const\<close>/\<open>class\<close> redeclarations fail,
    functions become properties of \<open>window\<close>) or Node (CommonJS: own scope, no
    \<open>window\<close>). Lemmas: the globals of a page after any sequence of loads, failures
    exactly on reloads (C27), loading without \<open>window\<close> (C28), the help text
    against the defined names (C29).
  \<^item> \<open>Builder_Store\<close>: \<open>PortalRequestBuilder\<close> over an explicit store of arrays
    and objects addressed by reference; a simulation lemma relates it to the value
    model, and C30 shows what \<open>build()\<close> shares with the builder.
  \<^item> \<open>Console\<close>: the functions whose only effect is console output
    (\<open>logAWSPortalInfo\<close>, \<open>showAWSPortalHelp\<close>, \<open>logClientInfo\<close>,
    \<open>logPortalAPIInfo\<close>) as the lines they print; what \<open>logAWSPortalInfo\<close>
    states about the configuration is true of the data.
  \<^item> \<open>Traces\<close>: the console output of every other operation and of loading each
    file, entry by entry with its level (\<open>log\<close>, \<open>warn\<close>, \<open>error\<close>), as a
    function of the operation's arguments, the traces of the operations it calls
    included where it calls them; lemmas that the self-check's verdict agrees with
    its error lines and that \<open>makeRequest\<close> logs an error exactly when \<open>fetch\<close>
    rejects.
  \<^item> this theory: the properties that span modules (C15 to C17, C31, C32).

  \<^bold>\<open>Bounds and termination.\<close> Every recursion is structural (\<open>fun\<close> and
  \<open>primrec\<close> over lists and strings, folds over call lists); no loop of the
  sources can run forever, so no fuel is used. Numbers are unbounded integers: the
  only numbers are literal timeouts and status codes, never computed on.

  \<^bold>\<open>Not modelled.\<close> How a console renders an object argument and the effect
  of the CSS arguments of \<open>console.log\<close> (the traces keep the arguments); the
  network behind \<open>fetch\<close> and the platform's handling of its options (the model
  passes them as data); promise scheduling (each method awaits a single \<open>fetch\<close>,
  so no interleaving is observable in its result); non-configurable properties a
  page's \<open>window\<close> may already have; cyclic values and \<open>toJSON\<close> methods for
  \<open>JSON.stringify\<close>, so that the \<open>JSON.stringify(options)\<close> of the request log
  never throws in the model; objects with their own \<open>trim\<close>, \<open>toLowerCase\<close> or
  \<open>match\<close> methods (the value domain has no methods on objects, so
  \<open>getAWSPortalURL\<close>, \<open>normalizeAWSPortalURL\<close> and \<open>isValidPortalURL\<close> throw
  on every non-string, as they do for the plain data the scripts are called with);
  the parts of the URL standard listed in \<open>Url\<close>. Everything else of the three
  files is modelled.
\<close>

section \<open>Properties across modules\<close>

lemma label_char_re: "label_char c \<Longrightarrow> re_label_char c"
  by (simp add: label_char_def re_label_char_def)

lemma label_no_c0: "\<forall>c \<in> set l. label_char c \<Longrightarrow> \<forall>c \<in> set l. \<not> c0_or_space c"
  using label_char_plain(1) forbidden_domain_c0 by blast

lemma primary_host_plain: "\<forall>c \<in> set primary_host. \<not> forbidden_domain c"
  by code_simp

lemma primary_host_lower: "url_lower primary_host = primary_host" "js_lower primary_host = primary_host"
  by code_simp+

lemma primary_host_supported:
  "list_ex (\<lambda>domain. primary_host = domain \<or> suffix (''.'' @ domain) primary_host) supportedDomains"
  by code_simp

text \<open>C15: every address \<open>buildAWSPortalURL\<close> (\<open>aws-utilities.js\<close>) builds from an
  organisation label passes \<open>PORTAL_VALIDATORS.isValidPortalURL\<close>
  (\<open>aws-portal-constants.js\<close>), and its host passes \<open>isValidPortalDomain\<close>.\<close>

theorem build_accepted_by_portal_validators:
  assumes "dns_label l"
  shows "(\<exists>v. isValidPortalURL (JStr (buildAWSPortalURL (JStr l))) = Inr v \<and> js_truthy v) \<and>
         isValidPortalDomain (JStr (l @ ''.awsapps.com'')) = Inr (JBool True)"
proof -
  from assms have l: "\<forall>c \<in> set l. re_label_char c"
    by (auto simp: dns_label_def label_char_re)
  have "buildAWSPortalURL (JStr l) = [] @ ''https://'' @ l @ ''.awsapps.com/start'' @ []"
    by (simp add: buildAWSPortalURL_def)
  with l have "\<exists>m. portal_re_search (buildAWSPortalURL (JStr l)) = Some m"
    unfolding portal_re_search_Some by blast
  then show ?thesis
    by (simp add: isValidPortalURL_truthy isValidPortalDomain_def suffix_def)
qed

text \<open>C16: the two address validators disagree on every foreign host: an address
  whose host \<open>h\<close> is plain and not a portal host, and whose query mentions a portal
  address built from any organisation label, passes \<open>isValidPortalURL\<close>, fails
  \<open>isValidAWSPortalURL\<close>, and \<open>getAWSPortalDomain\<close> reports \<open>h\<close>.\<close>

theorem validators_disagree_foreign_host:
  assumes h: "h \<noteq> []" "\<forall>c \<in> set h. \<not> forbidden_domain c"
    and foreign: "\<not> portal_host (js_lower (url_lower h))"
    and l: "dns_label l"
  shows "(\<exists>v. isValidPortalURL (JStr (''https://'' @ h @ ''/?https://'' @ l @ ''.awsapps.com/start'')) = Inr v
              \<and> js_truthy v) \<and>
         \<not> isValidAWSPortalURL (JStr (''https://'' @ h @ ''/?https://'' @ l @ ''.awsapps.com/start'')) \<and>
         getAWSPortalDomain (JStr (''https://'' @ h @ ''/?https://'' @ l @ ''.awsapps.com/start'')) =
           Some (url_lower h)"
proof -
  have lc: "\<forall>c \<in> set l. label_char c"
    using l by (simp add: dns_label_def)
  have "''https://'' @ h @ ''/?https://'' @ l @ ''.awsapps.com/start'' =
          (''https://'' @ h @ ''/?'') @ ''https://'' @ l @ ''.awsapps.com/start'' @ []"
    by simp
  moreover have "\<forall>c \<in> set l. re_label_char c"
    using lc label_char_re by blast
  ultimately have re: "\<exists>m. portal_re_search (''https://'' @ h @ ''/?https://'' @ l @ ''.awsapps.com/start'') = Some m"
    unfolding portal_re_search_Some by blast
  have "\<forall>c \<in> set (''/?https://'' @ l @ ''.awsapps.com/start''). \<not> c0_or_space c"
    using label_no_c0 [OF lc] by (auto simp: c0_or_space_def)
  then have u: "url_parse (''https://'' @ h @ ''/?https://'' @ l @ ''.awsapps.com/start'') =
      Some \<lparr>protocol = ''https'', hostname = url_lower h, port = [], rest = ''/?https://'' @ l @ ''.awsapps.com/start''\<rparr>"
    using url_parse_https_plain [OF h] by simp
  show ?thesis
    using re isValidPortalURL_truthy [of "''https://'' @ h @ ''/?https://'' @ l @ ''.awsapps.com/start''"]
      isValidAWSPortalURL_parsed [OF u] foreign u
    by (simp add: getAWSPortalDomain_def new_URL_def)
qed

text \<open>Every address constant of both modules passes \<open>isValidAWSPortalURL\<close>;
  \<open>isValidPortalURL\<close> rejects exactly seven of the constants of its own module, the
  base address and the API endpoints.\<close>

theorem constants_validated:
  "list_all (\<lambda>(k, v). isValidAWSPortalURL v)
     (PORTAL_URLS @ PORTAL_ENDPOINTS @ PORTAL_DOCS @ AWS_PORTAL_URLS @ AWS_IDENTITY_CENTER) \<and>
   [k. (k, v) \<leftarrow> PORTAL_URLS @ PORTAL_ENDPOINTS, isValidPortalURL v = Inr JNull] =
     [''BASE'', ''PROTOCOL_BASE'', ''api'', ''users'', ''groups'', ''sessions'', ''roles'']"
  by code_simp

text \<open>C17: the domain check of the constants module rejects the parent domain
  \<open>awsapps.com\<close> and every subdomain \<open>l.aws.amazon.com\<close> of the AWS website, the
  documentation domain included, while the utilities' validator accepts the
  addresses on those hosts, whatever their path.\<close>

theorem domain_validators_disagree:
  assumes l: "dns_label l"
    and p: "p = [] \<or> hd p = CHR ''/''" "\<forall>c \<in> set p. \<not> c0_or_space c"
  shows "isValidPortalDomain (JStr (l @ ''.aws.amazon.com'')) = Inr (JBool False) \<and>
         isValidAWSPortalURL (JStr (''https://'' @ l @ ''.aws.amazon.com'' @ p)) \<and>
         isValidPortalDomain (JStr ''awsapps.com'') = Inr (JBool False) \<and>
         isValidAWSPortalURL (JStr (''https://awsapps.com'' @ p))"
proof -
  have lc: "\<forall>c \<in> set l. label_char c" and ne: "l \<noteq> []"
    using l by (simp_all add: dns_label_def)
  have "\<not> suffix ''.awsapps.com'' (l @ ''.aws.amazon.com'')"
    by (simp add: suffix_append suffix_to_prefix)
  then have d1: "isValidPortalDomain (JStr (l @ ''.aws.amazon.com'')) = Inr (JBool False)"
    by (simp add: isValidPortalDomain_string)
  have plain: "\<forall>c \<in> set (l @ ''.aws.amazon.com''). \<not> forbidden_domain c"
    using label_char_plain(1) lc by (auto simp: forbidden_domain_def forbidden_host_def)
  have low: "url_lower (l @ ''.aws.amazon.com'') = l @ ''.aws.amazon.com''"
    "js_lower (l @ ''.aws.amazon.com'') = l @ ''.aws.amazon.com''"
    using lc url_lower_label js_lower_label
    by (simp_all add: url_lower_def js_lower_def js_lower_char_def)
  have "url_parse (''https://'' @ (l @ ''.aws.amazon.com'') @ p) =
          Some \<lparr>protocol = ''https'', hostname = l @ ''.aws.amazon.com'', port = [], rest = p\<rparr>"
    using url_parse_https_plain [OF _ plain p] ne low(1) by simp
  moreover have "portal_host (l @ ''.aws.amazon.com'')"
    by (simp add: portal_host_def suffix_def)
  ultimately have v1: "isValidAWSPortalURL (JStr (''https://'' @ l @ ''.aws.amazon.com'' @ p))"
    using isValidAWSPortalURL_parsed low(2) by fastforce
  have "url_parse (''https://'' @ ''awsapps.com'' @ p) =
          Some \<lparr>protocol = ''https'', hostname = url_lower ''awsapps.com'', port = [], rest = p\<rparr>"
    using p by (intro url_parse_https_plain) (simp_all add: forbidden_domain_def forbidden_host_def)
  then have v2: "isValidAWSPortalURL (JStr (''https://awsapps.com'' @ p))"
    using isValidAWSPortalURL_parsed
    by (fastforce simp: url_lower_def js_lower_def js_lower_char_def portal_host_def)
  show ?thesis
    using d1 v1 v2 by (simp add: isValidPortalDomain_string suffix_def)
qed

text \<open>C31: every address the API client builds for an endpoint that starts with a
  slash (\<open>aws-portal-api.js\<close>) parses to the portal host and passes the
  utilities' validator \<open>isValidAWSPortalURL\<close> (\<open>aws-utilities.js\<close>).\<close>

theorem endpoint_url_on_portal_host:
  assumes "p = [] \<or> hd p = CHR ''/''" "\<forall>c \<in> set p. \<not> c0_or_space c"
  shows "new_URL (JStr (buildEndpointURL c (JStr p))) =
           Inr \<lparr>protocol = ''https'', hostname = primary_host, port = [], rest = p\<rparr> \<and>
         isValidAWSPortalURL (JStr (buildEndpointURL c (JStr p)))"
proof -
  have url: "buildEndpointURL c (JStr p) = ''https://'' @ primary_host @ p"
    by (simp add: buildEndpointURL_def)
  have "url_parse (''https://'' @ primary_host @ p) =
          Some \<lparr>protocol = ''https'', hostname = primary_host, port = [], rest = p\<rparr>"
    using url_parse_https_plain [OF _ primary_host_plain assms] primary_host_lower by simp
  then show ?thesis
    using primary_host_supported unfolding url by (simp add: new_URL_def isValidAWSPortalURL_def primary_host_lower Let_def)
qed

text \<open>C32: the base address and the endpoint are concatenated without a separator, so
  an endpoint that does not start with a slash moves the request to another host:
  for every plain host \<open>d\<close> and path \<open>p\<close>, \<open>@d/p\<close> makes \<open>d\<close> the host of the client's
  request (the base address becomes credentials) and the utilities' validator accepts
  it exactly when \<open>d\<close> is a portal host; \<open>.d/p\<close> gives the builder and the client a
  request to the host \<open>internal.awsapps.com.d\<close>.\<close>

theorem endpoint_host_escape:
  assumes d: "d \<noteq> []" "\<forall>c \<in> set d. \<not> forbidden_domain c"
    and p: "p = [] \<or> hd p = CHR ''/''" "\<forall>c \<in> set p. \<not> c0_or_space c"
  shows "new_URL (JStr (buildEndpointURL c (JStr (''@'' @ d @ p)))) =
           Inr \<lparr>protocol = ''https'', hostname = url_lower d, port = [], rest = p\<rparr> \<and>
         (isValidAWSPortalURL (JStr (buildEndpointURL c (JStr (''@'' @ d @ p)))) \<longleftrightarrow>
            portal_host (js_lower (url_lower d))) \<and>
         req_url (last (requests (builder_get new_PortalRequestBuilder (JStr (''.'' @ d @ p))))) =
           buildEndpointURL c (JStr (''.'' @ d @ p)) \<and>
         new_URL (JStr (buildEndpointURL c (JStr (''.'' @ d @ p)))) =
           Inr \<lparr>protocol = ''https'', hostname = url_lower (primary_host @ ''.'' @ d), port = [], rest = p\<rparr>"
proof -
  have sch: "''https'' \<in> set url_special_schemes"
    by (simp add: url_special_schemes_def)
  have u1: "url_parse (buildEndpointURL c (JStr (''@'' @ d @ p))) =
              Some \<lparr>protocol = ''https'', hostname = url_lower d, port = [], rest = p\<rparr>"
    using url_parse_special_userinfo [OF sch _ primary_host_plain d p]
    by (simp add: buildEndpointURL_def)
  have "\<forall>c \<in> set (primary_host @ ''.'' @ d). \<not> forbidden_domain c"
    using d(2) primary_host_plain by (auto simp: forbidden_domain_def forbidden_host_def)
  then have u2: "url_parse (buildEndpointURL c (JStr (''.'' @ d @ p))) =
      Some \<lparr>protocol = ''https'', hostname = url_lower (primary_host @ ''.'' @ d), port = [], rest = p\<rparr>"
    using url_parse_https_plain [OF _ _ p, of "primary_host @ ''.'' @ d"]
    by (simp add: buildEndpointURL_def)
  show ?thesis
    using u1 u2 isValidAWSPortalURL_parsed [OF u1]
    by (simp add: new_URL_def buildEndpointURL_def builder_get_def new_PortalRequestBuilder_def)
qed

section \<open>Witnesses\<close>

theorem build_accepted_by_portal_validators_witness:
  "dns_label ''d-12345678ab'' \<and>
   (\<exists>v. isValidPortalURL (JStr (buildAWSPortalURL (JStr ''d-12345678ab''))) = Inr v \<and> js_truthy v)"
proof -
  have l: "dns_label ''d-12345678ab''"
    by (simp add: dns_label_def label_char_def)
  show ?thesis
    using build_accepted_by_portal_validators [OF l] l by blast
qed

theorem endpoint_url_on_portal_host_witness:
  "hd ''/applications'' = CHR ''/'' \<and>
   new_URL (JStr (buildEndpointURL new_AWSPortalAPIClient (JStr ''/applications''))) =
     Inr \<lparr>protocol = ''https'', hostname = primary_host, port = [], rest = ''/applications''\<rparr> \<and>
   isValidAWSPortalURL (JStr (buildEndpointURL new_AWSPortalAPIClient (JStr ''/applications'')))"
proof -
  have "\<forall>c \<in> set ''/applications''. \<not> c0_or_space c"
    by code_simp
  then show ?thesis
    using endpoint_url_on_portal_host [of "''/applications''"] by simp
qed

theorem validators_disagree_foreign_host_witness:
  "(\<exists>v. isValidPortalURL (JStr ''https://evil.example/?https://x.awsapps.com/start'') = Inr v \<and> js_truthy v) \<and>
   \<not> isValidAWSPortalURL (JStr ''https://evil.example/?https://x.awsapps.com/start'') \<and>
   getAWSPortalDomain (JStr ''https://evil.example/?https://x.awsapps.com/start'') = Some ''evil.example''"
  using validators_disagree_foreign_host [where h = "''evil.example''" and l = "''x''"]
  by (simp add: forbidden_domain_def forbidden_host_def url_lower_def portal_host_def suffix_to_prefix
      dns_label_def label_char_def js_simps)

theorem domain_validators_disagree_witness:
  "isValidPortalDomain (JStr ''docs.aws.amazon.com'') = Inr (JBool False) \<and>
   isValidAWSPortalURL (JStr ''https://docs.aws.amazon.com/singlesignon/'') \<and>
   isValidPortalDomain (JStr ''awsapps.com'') = Inr (JBool False) \<and>
   isValidAWSPortalURL (JStr ''https://awsapps.com/singlesignon/'')"
  using domain_validators_disagree [where l = "''docs''" and p = "''/singlesignon/''"]
  by (simp add: dns_label_def label_char_def c0_or_space_def)

theorem endpoint_host_escape_witness:
  "new_URL (JStr (buildEndpointURL new_AWSPortalAPIClient (JStr ''@evil.example/x''))) =
     Inr \<lparr>protocol = ''https'', hostname = ''evil.example'', port = [], rest = ''/x''\<rparr> \<and>
   \<not> isValidAWSPortalURL (JStr (buildEndpointURL new_AWSPortalAPIClient (JStr ''@evil.example/x''))) \<and>
   new_URL (JStr (buildEndpointURL new_AWSPortalAPIClient (JStr ''.evil.example/x''))) =
     Inr \<lparr>protocol = ''https'', hostname = ''internal.awsapps.com.evil.example'', port = [], rest = ''/x''\<rparr>"
  using endpoint_host_escape [where d = "''evil.example''" and p = "''/x''" and c = new_AWSPortalAPIClient]
  by (simp add: forbidden_domain_def forbidden_host_def c0_or_space_def url_lower_def portal_host_def
      suffix_to_prefix js_simps)

end
